theory Spec2Isabelle
  imports Complex_Main
begin

section \<open>The lateral MPC of \<open>mpc_lateral_controller\<close>: a shallow embedding of \<open>mpc.cpp\<close>\<close>

text \<open>
  The member functions of class \<open>MPC\<close> are translated one by one.  The members of the
  class are the fields of the record \<open>MPC\<close>, which every non-const member function
  takes and returns.  The collaborators whose code is outside \<open>mpc.cpp\<close> (the vehicle
  model, the QP solver, the low-pass filters, the steering predictor, \<open>MPCUtils\<close>,
  \<open>motion_utils\<close>, \<open>interpolation\<close>, and \<open>getWeight\<close> of the class header) are the
  fields of the record \<open>env\<close>; nothing is assumed about them.  A \<open>double\<close> is a \<open>real\<close>: rounding, infinities and the conversion
  to \<open>float\<close> are not modelled.  The one place where the code looks at a NaN, the
  solver's answer, has \<open>None\<close> for it.  An exception that leaves \<open>calculateMPC\<close>
  (\<open>std::out_of_range\<close> of \<open>vector::at\<close>) is the value \<open>None\<close> of the function.
  Logging is left out.
\<close>

subsection \<open>Eigen matrices\<close>

text \<open>
  A \<open>MatrixXd\<close> carries its two dimensions and its coefficients; a \<open>VectorXd\<close> is a
  matrix of one column.  Eigen's range assertions are compiled out in a release build
  and are not modelled: the operations below read and write exactly the window the
  code names.
\<close>

record mat =
  nrows :: nat
  ncols :: nat
  elems :: "nat \<Rightarrow> nat \<Rightarrow> real"

definition MatrixXd_Zero :: "nat \<Rightarrow> nat \<Rightarrow> mat" where
  "MatrixXd_Zero r c = \<lparr>nrows = r, ncols = c, elems = (\<lambda>i j. 0)\<rparr>"

text \<open>
  \<open>(MatrixXd(r, c) << v0, v1, ...).finished()\<close> and \<open>x << v0, v1, ...\<close>: the comma
  initialiser fills row by row.  A coefficient the list does not reach is 0: the one
  vector filled this way that can be longer than its list, \<open>x0\<close> of \<open>getInitialState\<close>,
  is zero before.
\<close>

definition comma_init :: "nat \<Rightarrow> nat \<Rightarrow> real list \<Rightarrow> mat" where
  "comma_init r c vs =
     \<lparr>nrows = r, ncols = c,
      elems = (\<lambda>i j. if i < r \<and> j < c \<and> i * c + j < length vs then vs ! (i * c + j) else 0)\<rparr>"

text \<open>
  \<open>m.block(r, c, h, w)\<close> read, assigned and incremented.  The block read has the
  \<open>h * w\<close> coefficients of the window and no others.
\<close>

definition block :: "mat \<Rightarrow> nat \<Rightarrow> nat \<Rightarrow> nat \<Rightarrow> nat \<Rightarrow> mat" where
  "block m r c h w =
     \<lparr>nrows = h, ncols = w,
      elems = (\<lambda>i j. if i < h \<and> j < w then elems m (r + i) (c + j) else 0)\<rparr>"

definition in_block :: "nat \<Rightarrow> nat \<Rightarrow> nat \<Rightarrow> nat \<Rightarrow> nat \<Rightarrow> nat \<Rightarrow> bool" where
  "in_block r c h w i j = (r \<le> i \<and> i < r + h \<and> c \<le> j \<and> j < c + w)"

definition set_block :: "mat \<Rightarrow> nat \<Rightarrow> nat \<Rightarrow> nat \<Rightarrow> nat \<Rightarrow> mat \<Rightarrow> mat" where
  "set_block m r c h w b =
     m\<lparr>elems := (\<lambda>i j. if in_block r c h w i j then elems b (i - r) (j - c) else elems m i j)\<rparr>"

definition add_block :: "mat \<Rightarrow> nat \<Rightarrow> nat \<Rightarrow> nat \<Rightarrow> nat \<Rightarrow> mat \<Rightarrow> mat" where
  "add_block m r c h w b =
     m\<lparr>elems := (\<lambda>i j. if in_block r c h w i j then elems m i j + elems b (i - r) (j - c)
                        else elems m i j)\<rparr>"

definition set_coeff :: "mat \<Rightarrow> nat \<Rightarrow> nat \<Rightarrow> real \<Rightarrow> mat" where
  "set_coeff m r c v = m\<lparr>elems := (\<lambda>i j. if i = r \<and> j = c then v else elems m i j)\<rparr>"

definition add_coeff :: "mat \<Rightarrow> nat \<Rightarrow> nat \<Rightarrow> real \<Rightarrow> mat" where
  "add_coeff m r c v = set_coeff m r c (elems m r c + v)"

definition mat_mul :: "mat \<Rightarrow> mat \<Rightarrow> mat" where
  "mat_mul a b =
     \<lparr>nrows = nrows a, ncols = ncols b,
      elems = (\<lambda>i j. \<Sum>l < ncols a. elems a i l * elems b l j)\<rparr>"

definition mat_add :: "mat \<Rightarrow> mat \<Rightarrow> mat" where
  "mat_add a b = \<lparr>nrows = nrows a, ncols = ncols a, elems = (\<lambda>i j. elems a i j + elems b i j)\<rparr>"

definition mat_scale :: "real \<Rightarrow> mat \<Rightarrow> mat" where
  "mat_scale c a = \<lparr>nrows = nrows a, ncols = ncols a, elems = (\<lambda>i j. c * elems a i j)\<rparr>"

definition transpose_mat :: "mat \<Rightarrow> mat" where
  "transpose_mat a = \<lparr>nrows = ncols a, ncols = nrows a, elems = (\<lambda>i j. elems a j i)\<rparr>"

text \<open>A \<open>VectorXd\<close> from its coefficients, and the default-constructed (empty) one.\<close>

definition VectorXd_of :: "real list \<Rightarrow> mat" where
  "VectorXd_of vs = comma_init (length vs) 1 vs"

definition VectorXd_empty :: mat where
  "VectorXd_empty = MatrixXd_Zero 0 0"

subsection \<open>Messages, trajectories and parameters\<close>

record Pose =
  position_x :: real
  position_y :: real
  position_z :: real
  orientation_x :: real
  orientation_y :: real
  orientation_z :: real
  orientation_w :: real

record Odometry =
  pose :: Pose
  twist_linear_x :: real

record SteeringReport =
  steering_tire_angle :: real

record AckermannLateralCommand =
  cmd_steering_tire_angle :: real
  cmd_steering_tire_rotation_rate :: real

record TrajectoryPoint =
  point_pose :: Pose
  longitudinal_velocity_mps :: real

type_synonym Trajectory = "TrajectoryPoint list"

text \<open>\<open>MPCTrajectory\<close>: parallel vectors (the fields \<open>x\<close>, \<open>y\<close>, \<open>z\<close>, \<open>k\<close> carry a prefix).\<close>

record MPCTrajectory =
  traj_x :: "real list"
  traj_y :: "real list"
  traj_z :: "real list"
  yaw :: "real list"
  vx :: "real list"
  traj_k :: "real list"
  smooth_k :: "real list"
  relative_time :: "real list"

record MPCTrajectoryPoint =
  pt_x :: real
  pt_y :: real
  pt_z :: real
  pt_yaw :: real
  pt_vx :: real
  pt_k :: real
  pt_smooth_k :: real
  pt_relative_time :: real

definition traj_back :: "MPCTrajectory \<Rightarrow> MPCTrajectoryPoint" where
  "traj_back t =
     \<lparr>pt_x = last (traj_x t), pt_y = last (traj_y t), pt_z = last (traj_z t),
      pt_yaw = last (yaw t), pt_vx = last (vx t), pt_k = last (traj_k t),
      pt_smooth_k = last (smooth_k t), pt_relative_time = last (relative_time t)\<rparr>"

definition traj_push_back :: "MPCTrajectory \<Rightarrow> MPCTrajectoryPoint \<Rightarrow> MPCTrajectory" where
  "traj_push_back t p =
     \<lparr>traj_x = traj_x t @ [pt_x p], traj_y = traj_y t @ [pt_y p], traj_z = traj_z t @ [pt_z p],
      yaw = yaw t @ [pt_yaw p], vx = vx t @ [pt_vx p], traj_k = traj_k t @ [pt_k p],
      smooth_k = smooth_k t @ [pt_smooth_k p],
      relative_time = relative_time t @ [pt_relative_time p]\<rparr>"

definition traj_empty :: MPCTrajectory where
  "traj_empty =
     \<lparr>traj_x = [], traj_y = [], traj_z = [], yaw = [], vx = [], traj_k = [], smooth_k = [],
      relative_time = []\<rparr>"

record MPCData =
  nearest_idx :: nat
  nearest_time :: real
  nearest_pose :: Pose
  steer :: real
  predicted_steer :: real
  lateral_err :: real
  yaw_err :: real

definition Pose_default :: Pose where
  "Pose_default =
     \<lparr>position_x = 0, position_y = 0, position_z = 0, orientation_x = 0, orientation_y = 0,
      orientation_z = 0, orientation_w = 1\<rparr>"

definition MPCData_default :: MPCData where
  "MPCData_default =
     \<lparr>nearest_idx = 0, nearest_time = 0, nearest_pose = Pose_default, steer = 0,
      predicted_steer = 0, lateral_err = 0, yaw_err = 0\<rparr>"

text \<open>\<open>MPCMatrix\<close>; its field \<open>Bex\<close> is \<open>Bex_mat\<close> here.\<close>

record MPCMatrix =
  Aex :: mat
  Bex_mat :: mat
  Wex :: mat
  Cex :: mat
  Qex :: mat
  R1ex :: mat
  R2ex :: mat
  Uref_ex :: mat

record MPCWeight =
  lat_error :: real
  heading_error :: real
  heading_error_squared_vel :: real
  terminal_lat_error :: real
  terminal_heading_error :: real
  steering_input :: real
  steering_input_squared_vel :: real
  lat_jerk :: real
  steer_rate :: real
  steer_acc :: real

record MPCParam =
  prediction_horizon :: int
  prediction_dt :: real
  zero_ff_steer_deg :: real
  input_delay :: real
  acceleration_limit :: real
  velocity_time_constant :: real
  min_prediction_length :: real
  nominal_weight :: MPCWeight
  low_curvature_weight :: MPCWeight
  low_curvature_thresh_curvature :: real

text \<open>The state a \<open>VehicleModelInterface\<close> keeps; its virtual functions are in \<open>env\<close>.\<close>

record VehicleModel =
  dim_x :: nat
  dim_u :: nat
  dim_y :: nat
  velocity :: real
  curvature :: real
  wheelbase :: real
  modelName :: string

subsection \<open>The collaborators\<close>

text \<open>
  \<open>'sp\<close> is the state of the steering predictor, \<open>'lpf\<close> of a low-pass filter, \<open>'qs\<close> of
  the QP solver.  A function that reports failure by its boolean result, or by an
  exception the caller catches, returns an option.  The solver's answer is a list of
  coefficients, \<open>None\<close> for a NaN.
\<close>

record ('sp, 'lpf, 'qs) env =
  calcNearestPoseInterp :: "MPCTrajectory \<Rightarrow> Pose \<Rightarrow> real \<Rightarrow> real \<Rightarrow> (Pose \<times> nat \<times> real) option"
  calcLateralError :: "Pose \<Rightarrow> Pose \<Rightarrow> real"
  getYaw :: "Pose \<Rightarrow> real"
  normalizeRadian :: "real \<Rightarrow> real"
  calcDistance2d_pose :: "Pose \<Rightarrow> Pose \<Rightarrow> real"
  calcSteerPrediction :: "'sp \<Rightarrow> real \<times> 'sp"
  storeSteerCmd :: "'sp \<Rightarrow> real \<Rightarrow> 'sp"
  lpf_filter :: "'lpf \<Rightarrow> real \<Rightarrow> real \<times> 'lpf"
  lerp :: "real list \<Rightarrow> real list \<Rightarrow> real \<Rightarrow> real option"
  calculateDiscreteMatrix :: "VehicleModel \<Rightarrow> real \<Rightarrow> mat \<times> mat \<times> mat \<times> mat"
  calculateReferenceInput :: "VehicleModel \<Rightarrow> mat"
  getWeight :: "MPCParam \<Rightarrow> real \<Rightarrow> MPCWeight"
  qp_solve :: "'qs \<Rightarrow> mat \<Rightarrow> mat \<Rightarrow> mat \<Rightarrow> mat \<Rightarrow> mat \<Rightarrow> mat \<Rightarrow> mat \<Rightarrow> bool \<times> real option list \<times> 'qs"
  getTakenIter :: "'qs \<Rightarrow> int"
  getRunTime :: "'qs \<Rightarrow> real"
  getObjVal :: "'qs \<Rightarrow> real"
  convertToAutowareTrajectory :: "MPCTrajectory \<Rightarrow> Trajectory"
  findFirstNearestSegmentIndexWithSoftConstraints :: "Trajectory \<Rightarrow> Pose \<Rightarrow> real \<Rightarrow> real \<Rightarrow> nat"
  findFirstNearestIndexWithSoftConstraints :: "Trajectory \<Rightarrow> Pose \<Rightarrow> real \<Rightarrow> real \<Rightarrow> nat"
  dynamicSmoothingVelocity :: "nat \<Rightarrow> real \<Rightarrow> real \<Rightarrow> real \<Rightarrow> MPCTrajectory \<Rightarrow> MPCTrajectory"
  linearInterpMPCTrajectory :: "real list \<Rightarrow> MPCTrajectory \<Rightarrow> real list \<Rightarrow> MPCTrajectory option"
  calcDistance2d :: "MPCTrajectory \<Rightarrow> nat \<Rightarrow> nat \<Rightarrow> real"
  calculatePredictedTrajectoryInWorldCoordinate ::
    "VehicleModel \<Rightarrow> mat \<Rightarrow> mat \<Rightarrow> mat \<Rightarrow> mat \<Rightarrow> mat \<Rightarrow> mat \<Rightarrow> MPCTrajectory \<Rightarrow> real \<Rightarrow> MPCTrajectory"
  calculatePredictedTrajectoryInFrenetCoordinate ::
    "VehicleModel \<Rightarrow> mat \<Rightarrow> mat \<Rightarrow> mat \<Rightarrow> mat \<Rightarrow> mat \<Rightarrow> mat \<Rightarrow> MPCTrajectory \<Rightarrow> real \<Rightarrow> MPCTrajectory"
  calcMPCTrajectoryArcLength :: "MPCTrajectory \<Rightarrow> real"
  clipTrajectoryByLength :: "MPCTrajectory \<Rightarrow> real \<Rightarrow> MPCTrajectory"

subsection \<open>The members of class \<open>MPC\<close>\<close>

text \<open>
  \<open>published_frenet\<close> collects what \<open>m_debug_frenet_predicted_trajectory_pub\<close> has
  published.
\<close>

record ('sp, 'lpf, 'qs) MPC =
  m_reference_trajectory :: MPCTrajectory
  mpc_traj_raw :: MPCTrajectory
  m_input_buffer :: "real list"
  m_raw_steer_cmd_prev :: real
  m_raw_steer_cmd_pprev :: real
  m_lateral_error_prev :: real
  m_yaw_error_prev :: real
  m_lpf_steering_cmd :: 'lpf
  m_lpf_lateral_error :: 'lpf
  m_lpf_yaw_error :: 'lpf
  m_vehicle_model :: VehicleModel
  m_steering_predictor :: 'sp
  m_qpsolver :: 'qs
  m_is_forward_shift :: bool
  m_use_steer_prediction :: bool
  m_param :: MPCParam
  m_steer_lim :: real
  m_ctrl_period :: real
  m_admissible_position_error :: real
  m_admissible_yaw_error_rad :: real
  ego_nearest_dist_threshold :: real
  ego_nearest_yaw_threshold :: real
  m_debug_publish_predicted_trajectory :: bool
  published_frenet :: "Trajectory list"

subsection \<open>\<open>executeOptimization\<close>\<close>

text \<open>The seven matrices the function builds: literals, 50 decision variables.\<close>

definition H_row_0 :: "real list" where
  "H_row_0 = [
    2.40456, -0.0701004, 0.00835596, 0.00376653, 0.00416329, 0.00476199, 0.00566342, 0.00681013, 0.00800993, 0.00918759,
    0.0103419, 0.0114735, 0.012585, 0.0136832, 0.0147798, 0.0158851, 0.0169949, 0.0181167, 0.0192294, 0.0203016,
    0.0213104, 0.0222229, 0.0230208, 0.0236764, 0.0241627, 0.0244562, 0.0245311, 0.024381, 0.0240317, 0.023515,
    0.0228526, 0.0220592, 0.0211448, 0.0201169, 0.0189824, 0.0177483, 0.016423, 0.0150168, 0.0135421, 0.0120153,
    0.0104558, 0.0088874, 0.00733827, 0.00584136, 0.00443384, 0.00315622, 0.00205059, 0.00115742, 0.000509977, 0.000125592]"

definition H_row_1 :: "real list" where
  "H_row_1 = [
    -0.0701004, 1.11298, -0.0552805, 0.00874947, 0.00430868, 0.00492837, 0.0058614, 0.00704832, 0.00829024, 0.00950934,
    0.0107044, 0.0118759, 0.0130269, 0.014164, 0.0152998, 0.0164446, 0.0175941, 0.0187562, 0.0199091, 0.0210201,
    0.0220656, 0.0230115, 0.023839, 0.0245191, 0.025024, 0.0253293, 0.0254083, 0.0252543, 0.0248939, 0.02436,
    0.0236752, 0.0228547, 0.0219087, 0.020845, 0.0196706, 0.018393, 0.0170208, 0.0155645, 0.0140371, 0.0124554,
    0.0108398, 0.00921461, 0.00760922, 0.00605773, 0.00459867, 0.00327405, 0.00212753, 0.00120111, 0.000529376, 0.000130406]"

definition H_row_2 :: "real list" where
  "H_row_2 = [
    0.00835596, -0.0552805, 1.11334, -0.0548076, 0.00938311, 0.00518349, 0.00616493, 0.00741345, 0.0087199, 0.0100024,
    0.0112598, 0.0124925, 0.0137037, 0.0149005, 0.0160959, 0.017301, 0.0185112, 0.0197348, 0.0209488, 0.022119,
    0.0232203, 0.024217, 0.0250891, 0.0258063, 0.0263393, 0.0266622, 0.0267469, 0.0265864, 0.0262087, 0.0256483,
    0.024929, 0.0240666, 0.023072, 0.0219533, 0.020718, 0.0193738, 0.0179298, 0.016397, 0.0147892, 0.0131239,
    0.0114226, 0.00971106, 0.00802008, 0.00638561, 0.00484827, 0.00345233, 0.00224383, 0.00126708, 0.000558621, 0.000137654]"

definition H_row_3 :: "real list" where
  "H_row_3 = [
    0.00376653, 0.00874947, -0.0548076, 1.11394, -0.0540364, 0.0104231, 0.00662668, 0.00796888, 0.00937343, 0.0107524,
    0.0121044, 0.0134301, 0.0147327, 0.0160201, 0.0173061, 0.0186026, 0.0199048, 0.0212216, 0.0225282, 0.0237879,
    0.0249737, 0.0260471, 0.0269868, 0.02776, 0.028335, 0.0286842, 0.0287774, 0.0286066, 0.0282022, 0.0276011,
    0.0268289, 0.0259027, 0.0248341, 0.0236318, 0.0223038, 0.0208584, 0.0193054, 0.0176565, 0.0159266, 0.0141347,
    0.0123036, 0.0104612, 0.00864067, 0.00688068, 0.00522496, 0.00372124, 0.00241914, 0.00136645, 0.000602627, 0.000148548]"

definition H_row_4 :: "real list" where
  "H_row_4 = [
    0.00416329, 0.00430868, 0.00938311, -0.0540364, 1.11491, -0.0527481, 0.0121771, 0.00880958, 0.0103626, 0.0118874,
    0.0133826, 0.0148488, 0.0162898, 0.0177139, 0.0191368, 0.0205715, 0.0220127, 0.0234702, 0.0249166, 0.0263114,
    0.0276246, 0.0288138, 0.0298552, 0.0307126, 0.0313509, 0.0317395, 0.0318448, 0.0316582, 0.0312129, 0.03055,
    0.0296976, 0.0286747, 0.0274939, 0.026165, 0.0246967, 0.0230982, 0.0213803, 0.0195561, 0.0176418, 0.0156585,
    0.0136316, 0.0115917, 0.00957567, 0.00762634, 0.00579217, 0.00412601, 0.0026829, 0.00151587, 0.000668762, 0.000164911]"

definition H_row_5 :: "real list" where
  "H_row_5 = [
    0.00476199, 0.00492837, 0.00518349, 0.0104231, -0.0527481, 1.11657, -0.0505271, 0.0149294, 0.0118548, 0.0135997,
    0.0153108, 0.0169889, 0.0186383, 0.0202687, 0.0218979, 0.0235408, 0.0251913, 0.0268608, 0.0285178, 0.0301159,
    0.031621, 0.0329843, 0.0341787, 0.0351626, 0.035896, 0.0363435, 0.0364668, 0.0362558, 0.0357487, 0.0349922,
    0.0340185, 0.0328494, 0.0314993, 0.0299794, 0.0282995, 0.0264702, 0.0245038, 0.0224152, 0.0202231, 0.0179515,
    0.0156295, 0.0132923, 0.010982, 0.00874769, 0.00664496, 0.00473444, 0.00307927, 0.00174033, 0.000768069, 0.00018947]"

definition H_row_6 :: "real list" where
  "H_row_6 = [
    0.00566342, 0.0058614, 0.00616493, 0.00662668, 0.0121771, -0.0505271, 1.1195, -0.0469199, 0.0189527, 0.0161772,
    0.0182132, 0.0202103, 0.0221734, 0.0241141, 0.0260536, 0.0280097, 0.0299751, 0.0319633, 0.033937, 0.0358409,
    0.0376343, 0.0392594, 0.0406836, 0.0418576, 0.0427335, 0.0432693, 0.0434191, 0.0431711, 0.0425704, 0.0416728,
    0.0405164, 0.0391271, 0.037522, 0.0357144, 0.033716, 0.0315393, 0.0291989, 0.0267126, 0.0241026, 0.0213975,
    0.0186318, 0.0158475, 0.0130948, 0.0104322, 0.00792588, 0.00564818, 0.00367441, 0.00207729, 0.000917103, 0.000226316]"

definition H_row_7 :: "real list" where
  "H_row_7 = [
    0.00681013, 0.00704832, 0.00741345, 0.00796888, 0.00880958, 0.0149294, -0.0469199, 1.15052, -0.0676057, 0.0243082,
    0.0219063, 0.0243092, 0.0266716, 0.0290075, 0.0313421, 0.033697, 0.0360635, 0.0384577, 0.0408349, 0.0431284,
    0.0452894, 0.0472481, 0.0489655, 0.050382, 0.05144, 0.0520887, 0.0522731, 0.0519786, 0.0512594, 0.0501825,
    0.0487941, 0.0471248, 0.0451955, 0.0430219, 0.0406182, 0.0379994, 0.035183, 0.0321903, 0.0290481, 0.0257907,
    0.0224598, 0.0191059, 0.0157894, 0.0125808, 0.00955997, 0.00681406, 0.00443396, 0.00250744, 0.00110742, 0.000273385]"

definition H_row_8 :: "real list" where
  "H_row_8 = [
    0.00800993, 0.00829024, 0.0087199, 0.00937343, 0.0103626, 0.0118548, 0.0189527, -0.0676057, 1.23485, -0.112971,
    0.0306246, 0.0286016, 0.0313828, 0.0341332, 0.0368827, 0.0396564, 0.0424442, 0.0452652, 0.0480667, 0.0507701,
    0.0533181, 0.0556286, 0.0576553, 0.0593282, 0.0605793, 0.0613489, 0.0615717, 0.0612305, 0.0603891, 0.0591263,
    0.057496, 0.0555347, 0.0532665, 0.0507101, 0.0478821, 0.0447999, 0.0414843, 0.0379601, 0.0342589, 0.0304212,
    0.0264961, 0.0225428, 0.0186328, 0.0148492, 0.0112861, 0.00804635, 0.00523737, 0.00296285, 0.00130914, 0.000323329]"

definition H_row_9 :: "real list" where
  "H_row_9 = [
    0.00918759, 0.00950934, 0.0100024, 0.0107524, 0.0118874, 0.0135997, 0.0161772, 0.0243082, -0.112971, 1.36092,
    -0.172375, 0.0376714, 0.0360137, 0.0391728, 0.0423313, 0.0455183, 0.0487223, 0.0519649, 0.0551859, 0.0582951,
    0.0612265, 0.0638859, 0.0662202, 0.0681487, 0.0695933, 0.070485, 0.0707489, 0.070365, 0.0694062, 0.0679629,
    0.066097, 0.0638502, 0.0612501, 0.058318, 0.0550729, 0.0515349, 0.0477274, 0.0436792, 0.0394264, 0.0350155,
    0.0305027, 0.0259565, 0.0214587, 0.0171051, 0.013004, 0.00927395, 0.00603857, 0.0034176, 0.00151089, 0.000373363]"

definition H_row_10 :: "real list" where
  "H_row_10 = [
    0.0103419, 0.0107044, 0.0112598, 0.0121044, 0.0133826, 0.0153108, 0.0182132, 0.0219063, 0.0306246, -0.172375,
    1.51782, -0.245862, 0.045412, 0.0441221, 0.0476839, 0.0512787, 0.0548935, 0.0585527, 0.0621886, 0.0656994,
    0.069011, 0.0720169, 0.0746572, 0.0768408, 0.0784796, 0.0794955, 0.0798038, 0.0793815, 0.0783108, 0.0766931,
    0.0745983, 0.0720729, 0.0691483, 0.0658481, 0.0621937, 0.0582074, 0.0539158, 0.0493512, 0.0445541, 0.039577,
    0.0344833, 0.0293502, 0.0242702, 0.0193513, 0.0147161, 0.0104987, 0.0068389, 0.00387255, 0.0017131, 0.000423607]"

definition H_row_11 :: "real list" where
  "H_row_11 = [
    0.0114735, 0.0118759, 0.0124925, 0.0134301, 0.0148488, 0.0169889, 0.0202103, 0.0243092, 0.0286016, 0.0376714,
    -0.245862, 1.70552, -0.333462, 0.0538355, 0.0529438, 0.0569413, 0.0609622, 0.0650338, 0.0690804, 0.0729897,
    0.0766788, 0.0800295, 0.0829751, 0.0854143, 0.0872488, 0.0883916, 0.0887481, 0.0882924, 0.0871155, 0.0853299,
    0.083013, 0.0802164, 0.0769745, 0.0733137, 0.0692574, 0.0648304, 0.060062, 0.0549879, 0.0496532, 0.0441162,
    0.0384472, 0.0327323, 0.0270744, 0.0215938, 0.0164272, 0.0117241, 0.00764089, 0.00432925, 0.00191653, 0.000474262]"

definition H_row_12 :: "real list" where
  "H_row_12 = [
    0.012585, 0.0130269, 0.0137037, 0.0147327, 0.0162898, 0.0186383, 0.0221734, 0.0266716, 0.0313828, 0.0360137,
    0.045412, -0.333462, 1.924, -0.435171, 0.0629768, 0.062522, 0.0669457, 0.0714266, 0.0758818, 0.0801876,
    0.0842533, 0.0879487, 0.0912004, 0.0938969, 0.0959298, 0.0972032, 0.0976125, 0.097129, 0.095852, 0.093905,
    0.0913727, 0.0883116, 0.0847593, 0.0807445, 0.0762927, 0.0714311, 0.0661916, 0.0606134, 0.054746, 0.0486531,
    0.0424125, 0.0361186, 0.0298847, 0.0238436, 0.0181459, 0.0129568, 0.00844888, 0.00479027, 0.00212237, 0.000525641]"

definition H_row_13 :: "real list" where
  "H_row_13 = [
    0.0136832, 0.014164, 0.0149005, 0.0160201, 0.0177139, 0.0202687, 0.0241141, 0.0290075, 0.0341332, 0.0391728,
    0.0441221, 0.0538355, -0.435171, 2.17329, -0.550928, 0.0729055, 0.0728801, 0.0777703, 0.0826346, 0.0873382,
    0.0917822, 0.0958249, 0.0993861, 0.102344, 0.10458, 0.105989, 0.106457, 0.105951, 0.10458, 0.102478,
    0.099736, 0.0964159, 0.0925584, 0.0881943, 0.0833512, 0.0780585, 0.0723507, 0.0662704, 0.0598714, 0.0532232,
    0.0464104, 0.0395359, 0.0327239, 0.0261192, 0.0198866, 0.0142071, 0.00926991, 0.00525974, 0.00233253, 0.000578235]"

definition H_row_14 :: "real list" where
  "H_row_14 = [
    0.0147798, 0.0152998, 0.0160959, 0.0173061, 0.0191368, 0.0218979, 0.0260536, 0.0313421, 0.0368827, 0.0423313,
    0.0476839, 0.0529438, 0.0629768, -0.550928, 2.45348, -0.680623, 0.0836818, 0.0841347, 0.0894134, 0.0945209,
    0.0993499, 0.103747, 0.107625, 0.110851, 0.113298, 0.11485, 0.115384, 0.114862, 0.113403, 0.11115,
    0.108203, 0.104627, 0.100466, 0.0957534, 0.0905189, 0.0847938, 0.0786154, 0.0720293, 0.0650938, 0.057884,
    0.0504916, 0.0430282, 0.0356286, 0.0284502, 0.0216723, 0.0154917, 0.0101151, 0.00574413, 0.00254997, 0.000632796]"

definition H_row_15 :: "real list" where
  "H_row_15 = [
    0.0158851, 0.0164446, 0.017301, 0.0186026, 0.0205715, 0.0235408, 0.0280097, 0.033697, 0.0396564, 0.0455183,
    0.0512787, 0.0569413, 0.062522, 0.0729055, -0.680623, 2.77039, -0.829685, 0.0954303, 0.0962819, 0.101804,
    0.107028, 0.111791, 0.115997, 0.119503, 0.12217, 0.123875, 0.124483, 0.123953, 0.12241, 0.120011,
    0.116861, 0.11303, 0.108565, 0.103503, 0.0978734, 0.0917107, 0.0850546, 0.0779541, 0.0704717, 0.0626883,
    0.0547029, 0.0466359, 0.0386329, 0.0308643, 0.0235243, 0.0168264, 0.010995, 0.00624958, 0.0027775, 0.000690051]"

definition H_row_16 :: "real list" where
  "H_row_16 = [
    0.0169949, 0.0175941, 0.0185112, 0.0199048, 0.0220127, 0.0251913, 0.0299751, 0.0360635, 0.0424442, 0.0487223,
    0.0548935, 0.0609622, 0.0669457, 0.0728801, 0.0836818, -0.829685, 3.13869, -1.00693, 0.108069, 0.109164,
    0.114795, 0.119934, 0.124479, 0.128277, 0.131176, 0.133045, 0.133735, 0.133205, 0.131587, 0.129047,
    0.125698, 0.121615, 0.116848, 0.111435, 0.105409, 0.0988048, 0.0916654, 0.0840431, 0.0760046, 0.0676367,
    0.0590454, 0.0503606, 0.0417388, 0.0333638, 0.025445, 0.0182132, 0.0119112, 0.00677729, 0.00301578, 0.000750195]"

definition H_row_17 :: "real list" where
  "H_row_17 = [
    0.0181167, 0.0187562, 0.0197348, 0.0212216, 0.0234702, 0.0268608, 0.0319633, 0.0384577, 0.0452652, 0.0519649,
    0.0585527, 0.0650338, 0.0714266, 0.0777703, 0.0841347, 0.0954303, -1.00693, 3.55602, -1.20139, 0.121504,
    0.122705, 0.128235, 0.133135, 0.137238, 0.140384, 0.142429, 0.143215, 0.142694, 0.141008, 0.138332,
    0.134788, 0.130456, 0.125386, 0.11962, 0.113193, 0.10614, 0.0985087, 0.0903531, 0.0817449, 0.0727765,
    0.0635618, 0.0542396, 0.044978, 0.0359745, 0.0274547, 0.019667, 0.0128739, 0.00733329, 0.00326765, 0.000813965]"

definition H_row_18 :: "real list" where
  "H_row_18 = [
    0.0192294, 0.0199091, 0.0209488, 0.0225282, 0.0249166, 0.0285178, 0.033937, 0.0408349, 0.0480667, 0.0551859,
    0.0621886, 0.0690804, 0.0758818, 0.0826346, 0.0894134, 0.0962819, 0.108069, -1.20139, 4.05652, -1.45708,
    0.135469, 0.13655, 0.141815, 0.146237, 0.149642, 0.151876, 0.152769, 0.15227, 0.150527, 0.147727,
    0.143998, 0.139423, 0.134057, 0.127944, 0.121117, 0.113619, 0.105494, 0.0968027, 0.0876202, 0.0780448,
    0.0681978, 0.0582276, 0.0483139, 0.0386682, 0.0295324, 0.0211736, 0.0138742, 0.00791281, 0.00353114, 0.000880915]"

definition H_row_19 :: "real list" where
  "H_row_19 = [
    0.0203016, 0.0210201, 0.022119, 0.0237879, 0.0263114, 0.0301159, 0.0358409, 0.0431284, 0.0507701, 0.0582951,
    0.0656994, 0.0729897, 0.0801876, 0.0873382, 0.0945209, 0.101804, 0.109164, 0.121504, -1.45708, 4.6509,
    -1.74284, 0.149512, 0.150296, 0.155043, 0.158716, 0.161151, 0.162165, 0.161703, 0.15992, 0.157012,
    0.153113, 0.148313, 0.142668, 0.136222, 0.129013, 0.121081, 0.112476, 0.10326, 0.0935125, 0.0833378,
    0.0728642, 0.0622496, 0.0516852, 0.0413967, 0.0316423, 0.0227078, 0.0148961, 0.00850711, 0.00380254, 0.00095017]"

definition H_row_20 :: "real list" where
  "H_row_20 = [
    0.0213104, 0.0220656, 0.0232203, 0.0249737, 0.0276246, 0.031621, 0.0376343, 0.0452894, 0.0533181, 0.0612265,
    0.069011, 0.0766788, 0.0842533, 0.0917822, 0.0993499, 0.107028, 0.114795, 0.122705, 0.135469, -1.74284,
    5.34257, -2.09315, 0.163258, 0.163483, 0.167432, 0.170079, 0.17123, 0.170822, 0.169018, 0.166024,
    0.16198, 0.156978, 0.151078, 0.144323, 0.136754, 0.128413, 0.11935, 0.10963, 0.0993377, 0.0885816,
    0.0774977, 0.0662526, 0.0550491, 0.0441264, 0.0337594, 0.0242525, 0.0159289, 0.00911037, 0.00407943, 0.00102117]"

definition H_row_21 :: "real list" where
  "H_row_21 = [
    0.0222229, 0.0230115, 0.024217, 0.0260471, 0.0288138, 0.0329843, 0.0392594, 0.0472481, 0.0556286, 0.0638859,
    0.0720169, 0.0800295, 0.0879487, 0.0958249, 0.103747, 0.111791, 0.119934, 0.128235, 0.13655, 0.149512,
    -2.09315, 6.14394, -2.48811, 0.176156, 0.175534, 0.178403, 0.179705, 0.179373, 0.177575, 0.174524,
    0.170365, 0.165195, 0.159073, 0.152046, 0.144153, 0.135438, 0.125954, 0.115767, 0.104964, 0.0936605,
    0.0819982, 0.0701524, 0.0583365, 0.0468033, 0.0358432, 0.025779, 0.0169544, 0.00971254, 0.00435752, 0.00109288]"

definition H_row_22 :: "real list" where
  "H_row_22 = [
    0.0230208, 0.023839, 0.0250891, 0.0269868, 0.0298552, 0.0341787, 0.0406836, 0.0489655, 0.0576553, 0.0662202,
    0.0746572, 0.0829751, 0.0912004, 0.0993861, 0.107625, 0.115997, 0.124479, 0.133135, 0.141815, 0.150296,
    0.163258, -2.48811, 7.04484, -2.93838, 0.18772, 0.185969, 0.18744, 0.187208, 0.185445, 0.18237,
    0.178134, 0.172834, 0.166532, 0.159275, 0.151103, 0.142059, 0.132198, 0.121588, 0.11032, 0.0985115,
    0.0863119, 0.0739038, 0.061511, 0.0493987, 0.0378725, 0.0272728, 0.0179634, 0.0103087, 0.00463478, 0.00116485]"

definition H_row_23 :: "real list" where
  "H_row_23 = [
    0.0236764, 0.0245191, 0.0258063, 0.02776, 0.0307126, 0.0351626, 0.0418576, 0.050382, 0.0593282, 0.0681487,
    0.0768408, 0.0854143, 0.0938969, 0.102344, 0.110851, 0.119503, 0.128277, 0.137238, 0.146237, 0.155043,
    0.163483, 0.176156, -2.93838, 8.06164, -3.45104, 0.19739, 0.194197, 0.194093, 0.192399, 0.189341,
    0.185071, 0.17969, 0.173259, 0.165825, 0.157428, 0.148113, 0.137933, 0.126959, 0.115283, 0.103027,
    0.0903458, 0.0774286, 0.0645084, 0.0518621, 0.0398093, 0.0287073, 0.0189387, 0.0108894, 0.00490711, 0.00123609]"

definition H_row_24 :: "real list" where
  "H_row_24 = [
    0.0241627, 0.025024, 0.0263393, 0.028335, 0.0313509, 0.035896, 0.0427335, 0.05144, 0.0605793, 0.0695933,
    0.0784796, 0.0872488, 0.0959298, 0.10458, 0.113298, 0.12217, 0.131176, 0.140384, 0.149642, 0.158716,
    0.167432, 0.175534, 0.18772, -3.45104, 9.19385, -4.02047, 0.204583, 0.199785, 0.1982, 0.195206,
    0.190955, 0.185549, 0.17905, 0.171504, 0.16295, 0.153431, 0.143004, 0.131737, 0.119726, 0.107095,
    0.0940028, 0.0806444, 0.0672611, 0.0541398, 0.0416132, 0.0300537, 0.0198621, 0.0114444, 0.00517003, 0.0013055]"

definition H_row_25 :: "real list" where
  "H_row_25 = [
    0.0244562, 0.0253293, 0.0266622, 0.0286842, 0.0317395, 0.0363435, 0.0432693, 0.0520887, 0.0613489, 0.070485,
    0.0794955, 0.0883916, 0.0972032, 0.105989, 0.11485, 0.123875, 0.133045, 0.142429, 0.151876, 0.161151,
    0.170079, 0.178403, 0.185969, 0.19739, -4.02047, 10.436, -4.64839, 0.208904, 0.202623, 0.199745,
    0.195574, 0.190208, 0.183711, 0.176126, 0.167493, 0.157853, 0.147261, 0.135787, 0.123527, 0.110607,
    0.0971881, 0.0834709, 0.0697027, 0.0561793, 0.0432443, 0.0312839, 0.0207151, 0.0119632, 0.00541901, 0.00137198]"

definition H_row_26 :: "real list" where
  "H_row_26 = [
    0.0245311, 0.0254083, 0.0267469, 0.0287774, 0.0318448, 0.0364668, 0.0434191, 0.0522731, 0.0615717, 0.0707489,
    0.0798038, 0.0887481, 0.0976125, 0.106457, 0.115384, 0.124483, 0.133735, 0.143215, 0.152769, 0.162165,
    0.17123, 0.179705, 0.18744, 0.194197, 0.204583, -4.64839, 11.7878, -5.33433, 0.210254, 0.202702,
    0.198678, 0.193428, 0.187013, 0.179476, 0.170853, 0.161185, 0.150527, 0.138946, 0.126538, 0.113432,
    0.0997879, 0.085811, 0.071753, 0.0579164, 0.0446536, 0.0323626, 0.0214748, 0.0124328, 0.00564823, 0.00143408]"

definition H_row_27 :: "real list" where
  "H_row_27 = [
    0.024381, 0.0252543, 0.0265864, 0.0286066, 0.0316582, 0.0362558, 0.0431711, 0.0519786, 0.0612305, 0.070365,
    0.0793815, 0.0882924, 0.097129, 0.105951, 0.114862, 0.123953, 0.133205, 0.142694, 0.15227, 0.161703,
    0.170822, 0.179373, 0.187208, 0.194093, 0.199785, 0.208904, -5.33433, 13.1997, -6.03149, 0.208804,
    0.200149, 0.195095, 0.188848, 0.18145, 0.172934, 0.16334, 0.152719, 0.141139, 0.128693, 0.115509,
    0.10175, 0.0876202, 0.0733749, 0.0593213, 0.0458186, 0.0332737, 0.0221305, 0.0128472, 0.005855, 0.00149112]"

definition H_row_28 :: "real list" where
  "H_row_28 = [
    0.0240317, 0.0248939, 0.0262087, 0.0282022, 0.0312129, 0.0357487, 0.0425704, 0.0512594, 0.0603891, 0.0694062,
    0.0783108, 0.0871155, 0.095852, 0.10458, 0.113403, 0.12241, 0.131587, 0.141008, 0.150527, 0.15992,
    0.169018, 0.177575, 0.185445, 0.192399, 0.1982, 0.202623, 0.210254, -6.03149, 14.5935, -6.70852,
    0.204957, 0.195328, 0.189334, 0.182163, 0.173847, 0.164422, 0.153936, 0.142457, 0.130075, 0.116915,
    0.103141, 0.0889556, 0.0746164, 0.0604329, 0.046769, 0.0340389, 0.0226967, 0.0132147, 0.00604309, 0.00154406]"

definition H_row_29 :: "real list" where
  "H_row_29 = [
    0.023515, 0.02436, 0.0256483, 0.0276011, 0.03055, 0.0349922, 0.0416728, 0.0501825, 0.0591263, 0.0679629,
    0.0766931, 0.0853299, 0.093905, 0.102478, 0.11115, 0.120011, 0.129047, 0.138332, 0.147727, 0.157012,
    0.166024, 0.174524, 0.18237, 0.189341, 0.195206, 0.199745, 0.202702, 0.208804, -6.70852, 15.9565,
    -7.38212, 0.199136, 0.188627, 0.181769, 0.173739, 0.164572, 0.154313, 0.143025, 0.130797, 0.117753,
    0.104051, 0.089896, 0.0755436, 0.0613048, 0.0475465, 0.0346885, 0.0231936, 0.0135471, 0.00621787, 0.00159427]"

definition H_row_30 :: "real list" where
  "H_row_30 = [
    0.0228526, 0.0236752, 0.024929, 0.0268289, 0.0296976, 0.0340185, 0.0405164, 0.0487941, 0.057496, 0.066097,
    0.0745983, 0.083013, 0.0913727, 0.099736, 0.108203, 0.116861, 0.125698, 0.134788, 0.143998, 0.153113,
    0.16198, 0.170365, 0.178134, 0.185071, 0.190955, 0.195574, 0.198678, 0.200149, 0.204957, -7.38212,
    17.3197, -8.06487, 0.191653, 0.180343, 0.172687, 0.163866, 0.153921, 0.142913, 0.130926, 0.118081,
    0.104535, 0.0904886, 0.0761969, 0.0619702, 0.0481772, 0.0352418, 0.0236342, 0.0138522, 0.00638299, 0.00164271]"

definition H_row_31 :: "real list" where
  "H_row_31 = [
    0.0220592, 0.0228547, 0.0240666, 0.0259027, 0.0286747, 0.0328494, 0.0391271, 0.0471248, 0.0555347, 0.0638502,
    0.0720729, 0.0802164, 0.0883116, 0.0964159, 0.104627, 0.11303, 0.121615, 0.130456, 0.139423, 0.148313,
    0.156978, 0.165195, 0.172834, 0.17969, 0.185549, 0.190208, 0.193428, 0.195095, 0.195328, 0.199136,
    -8.06487, 18.7115, -8.77116, 0.182748, 0.170709, 0.162325, 0.152784, 0.142144, 0.130485, 0.117925,
    0.104615, 0.0907551, 0.0765955, 0.0624457, 0.0486747, 0.0357092, 0.024026, 0.0141344, 0.00654069, 0.00168998]"

definition H_row_32 :: "real list" where
  "H_row_32 = [
    0.0211448, 0.0219087, 0.023072, 0.0248341, 0.0274939, 0.0314993, 0.037522, 0.0451955, 0.0532665, 0.0612501,
    0.0691483, 0.0769745, 0.0847593, 0.0925584, 0.100466, 0.108565, 0.116848, 0.125386, 0.134057, 0.142668,
    0.151078, 0.159073, 0.166532, 0.173259, 0.17905, 0.183711, 0.187013, 0.188848, 0.189334, 0.188627,
    0.191653, -8.77116, 20.1563, -9.50998, 0.17262, 0.159923, 0.150885, 0.140707, 0.129469, 0.117281,
    0.104292, 0.0906966, 0.0767419, 0.0627345, 0.0490425, 0.0360942, 0.0243718, 0.0143959, 0.00669206, 0.0017364]"

definition H_row_33 :: "real list" where
  "H_row_33 = [
    0.0201169, 0.020845, 0.0219533, 0.0236318, 0.026165, 0.0299794, 0.0357144, 0.0430219, 0.0507101, 0.058318,
    0.0658481, 0.0733137, 0.0807445, 0.0881943, 0.0957534, 0.103503, 0.111435, 0.11962, 0.127944, 0.136222,
    0.144323, 0.152046, 0.159275, 0.165825, 0.171504, 0.176126, 0.179476, 0.18145, 0.182163, 0.181769,
    0.180343, 0.182748, -9.50998, 21.6734, -10.2907, 0.161449, 0.148171, 0.138562, 0.127843, 0.116123,
    0.103545, 0.0902988, 0.0766262, 0.0628303, 0.0492769, 0.0363948, 0.024671, 0.0146368, 0.00683738, 0.0017821]"

definition H_row_34 :: "real list" where
  "H_row_34 = [
    0.0189824, 0.0196706, 0.020718, 0.0223038, 0.0246967, 0.0282995, 0.033716, 0.0406182, 0.0478821, 0.0550729,
    0.0621937, 0.0692574, 0.0762927, 0.0833512, 0.0905189, 0.0978734, 0.105409, 0.113193, 0.121117, 0.129013,
    0.136754, 0.144153, 0.151103, 0.157428, 0.16295, 0.167493, 0.170853, 0.172934, 0.173847, 0.173739,
    0.172687, 0.170709, 0.17262, -10.2907, 23.279, -11.1194, 0.149412, 0.135638, 0.125553, 0.114407,
    0.10234, 0.0895345, 0.0762281, 0.0627185, 0.0493681, 0.0366052, 0.0249205, 0.0148556, 0.00697626, 0.00182704]"

definition H_row_35 :: "real list" where
  "H_row_35 = [
    0.0177483, 0.018393, 0.0193738, 0.0208584, 0.0230982, 0.0264702, 0.0315393, 0.0379994, 0.0447999, 0.0515349,
    0.0582074, 0.0648304, 0.0714311, 0.0780585, 0.0847938, 0.0917107, 0.0988048, 0.10614, 0.113619, 0.121081,
    0.128413, 0.135438, 0.142059, 0.148113, 0.153431, 0.157853, 0.161185, 0.16334, 0.164422, 0.164572,
    0.163866, 0.162325, 0.159923, 0.161449, -11.1194, 24.9877, -12.0039, 0.136693, 0.122519, 0.112069,
    0.100625, 0.0883636, 0.075517, 0.0623766, 0.0493005, 0.0367152, 0.0251143, 0.0150496, 0.00710765, 0.001871]"

definition H_row_36 :: "real list" where
  "H_row_36 = [
    0.016423, 0.0170208, 0.0179298, 0.0193054, 0.0213803, 0.0245038, 0.0291989, 0.035183, 0.0414843, 0.0477274,
    0.0539158, 0.060062, 0.0661916, 0.0723507, 0.0786154, 0.0850546, 0.0916654, 0.0985087, 0.105494, 0.112476,
    0.11935, 0.125954, 0.132198, 0.137933, 0.143004, 0.147261, 0.150527, 0.152719, 0.153936, 0.154313,
    0.153921, 0.152784, 0.150885, 0.148171, 0.149412, -12.0039, 26.8128, -12.9489, 0.123487, 0.109022,
    0.0983302, 0.0867318, 0.0744513, 0.0617739, 0.0490524, 0.0367105, 0.0252439, 0.0152141, 0.00722978, 0.00191359]"

definition H_row_37 :: "real list" where
  "H_row_37 = [
    0.0150168, 0.0155645, 0.016397, 0.0176565, 0.0195561, 0.0224152, 0.0267126, 0.0321903, 0.0379601, 0.0436792,
    0.0493512, 0.0549879, 0.0606134, 0.0662704, 0.0720293, 0.0779541, 0.0840431, 0.0903531, 0.0968027, 0.10326,
    0.10963, 0.115767, 0.121588, 0.126959, 0.131737, 0.135787, 0.138946, 0.141139, 0.142457, 0.143025,
    0.142913, 0.142144, 0.140707, 0.138562, 0.135638, 0.136693, -12.9489, 28.7688, -13.9633, 0.110002,
    0.0953639, 0.084566, 0.0729747, 0.0608684, 0.0485938, 0.0365709, 0.0252968, 0.0153427, 0.00733988, 0.00195418]"

definition H_row_38 :: "real list" where
  "H_row_38 = [
    0.0135421, 0.0140371, 0.0147892, 0.0159266, 0.0176418, 0.0202231, 0.0241026, 0.0290481, 0.0342589, 0.0394264,
    0.0445541, 0.0496532, 0.054746, 0.0598714, 0.0650938, 0.0704717, 0.0760046, 0.0817449, 0.0876202, 0.0935125,
    0.0993377, 0.104964, 0.11032, 0.115283, 0.119726, 0.123527, 0.126538, 0.128693, 0.130075, 0.130797,
    0.130926, 0.130485, 0.129469, 0.127843, 0.125553, 0.122519, 0.123487, -13.9633, 30.8685, -15.0501,
    0.0964541, 0.0817694, 0.0710128, 0.0596044, 0.0478845, 0.0362691, 0.0252561, 0.015426, 0.00743395, 0.00199177]"

definition H_row_39 :: "real list" where
  "H_row_39 = [
    0.0120153, 0.0124554, 0.0131239, 0.0141347, 0.0156585, 0.0179515, 0.0213975, 0.0257907, 0.0304212, 0.0350155,
    0.039577, 0.0441162, 0.0486531, 0.0532232, 0.057884, 0.0626883, 0.0676367, 0.0727765, 0.0780448, 0.0833378,
    0.0885816, 0.0936605, 0.0985115, 0.103027, 0.107095, 0.110607, 0.113432, 0.115509, 0.116915, 0.117753,
    0.118081, 0.117925, 0.117281, 0.116123, 0.114407, 0.112069, 0.109022, 0.110002, -15.0501, 33.1226,
    -16.2163, 0.0830654, 0.068467, 0.0579081, 0.0468714, 0.0357688, 0.0250987, 0.0154513, 0.00750635, 0.00202496]"

definition H_row_40 :: "real list" where
  "H_row_40 = [
    0.0104558, 0.0108398, 0.0114226, 0.0123036, 0.0136316, 0.0156295, 0.0186318, 0.0224598, 0.0264961, 0.0305027,
    0.0344833, 0.0384472, 0.0424125, 0.0464104, 0.0504916, 0.0547029, 0.0590454, 0.0635618, 0.0681978, 0.0728642,
    0.0774977, 0.0819982, 0.0863119, 0.0903458, 0.0940028, 0.0971881, 0.0997879, 0.10175, 0.103141, 0.104051,
    0.104535, 0.104615, 0.104292, 0.103545, 0.10234, 0.100625, 0.0983302, 0.0953639, 0.0964541, -16.2163,
    35.5474, -17.4702, 0.0700533, 0.0556778, 0.0454807, 0.0350191, 0.0247921, 0.0154, 0.00754876, 0.00205164]"

definition H_row_41 :: "real list" where
  "H_row_41 = [
    0.0088874, 0.00921461, 0.00971106, 0.0104612, 0.0115917, 0.0132923, 0.0158475, 0.0191059, 0.0225428, 0.0259565,
    0.0293502, 0.0327323, 0.0361186, 0.0395359, 0.0430282, 0.0466359, 0.0503606, 0.0542396, 0.0582276, 0.0622496,
    0.0662526, 0.0701524, 0.0739038, 0.0774286, 0.0806444, 0.0834709, 0.085811, 0.0876202, 0.0889556, 0.089896,
    0.0904886, 0.0907551, 0.0906966, 0.0902988, 0.0895345, 0.0883636, 0.0867318, 0.084566, 0.0817694, 0.0830654,
    -17.4702, 38.1578, -18.8176, 0.0576234, 0.0436095, 0.0339484, 0.0242901, 0.0152458, 0.00754909, 0.00206867]"

definition H_row_42 :: "real list" where
  "H_row_42 = [
    0.00733827, 0.00760922, 0.00802008, 0.00864067, 0.00957567, 0.010982, 0.0130948, 0.0157894, 0.0186328, 0.0214587,
    0.0242702, 0.0270744, 0.0298847, 0.0327239, 0.0356286, 0.0386329, 0.0417388, 0.044978, 0.0483139, 0.0516852,
    0.0550491, 0.0583365, 0.061511, 0.0645084, 0.0672611, 0.0697027, 0.071753, 0.0733749, 0.0746164, 0.0755436,
    0.0761969, 0.0765955, 0.0767419, 0.0766262, 0.0762281, 0.075517, 0.0744513, 0.0729747, 0.0710128, 0.068467,
    0.0700533, -18.8176, 40.9673, -20.2652, 0.0459644, 0.032456, 0.0235272, 0.0149508, 0.00748977, 0.00207144]"

definition H_row_43 :: "real list" where
  "H_row_43 = [
    0.00584136, 0.00605773, 0.00638561, 0.00688068, 0.00762634, 0.00874769, 0.0104322, 0.0125808, 0.0148492, 0.0171051,
    0.0193513, 0.0215938, 0.0238436, 0.0261192, 0.0284502, 0.0308643, 0.0333638, 0.0359745, 0.0386682, 0.0413967,
    0.0441264, 0.0468033, 0.0493987, 0.0518621, 0.0541398, 0.0561793, 0.0579164, 0.0593213, 0.0604329, 0.0613048,
    0.0619702, 0.0624457, 0.0627345, 0.0628303, 0.0627185, 0.0623766, 0.0617739, 0.0608684, 0.0596044, 0.0579081,
    0.0556778, 0.0576234, -20.2652, 43.9911, -21.8209, 0.0352484, 0.0224088, 0.0144597, 0.00734497, 0.00205314]"

definition H_row_44 :: "real list" where
  "H_row_44 = [
    0.00443384, 0.00459867, 0.00484827, 0.00522496, 0.00579217, 0.00664496, 0.00792588, 0.00955997, 0.0112861, 0.013004,
    0.0147161, 0.0164272, 0.0181459, 0.0198866, 0.0216723, 0.0235243, 0.025445, 0.0274547, 0.0295324, 0.0316423,
    0.0337594, 0.0358432, 0.0378725, 0.0398093, 0.0416132, 0.0432443, 0.0446536, 0.0458186, 0.046769, 0.0475465,
    0.0481772, 0.0486747, 0.0490425, 0.0492769, 0.0493681, 0.0493005, 0.0490524, 0.0485938, 0.0478845, 0.0468714,
    0.0454807, 0.0436095, 0.0459644, -21.8209, 47.2464, -23.493, 0.0256481, 0.0136917, 0.00707654, 0.0020036]"

definition H_row_45 :: "real list" where
  "H_row_45 = [
    0.00315622, 0.00327405, 0.00345233, 0.00372124, 0.00412601, 0.00473444, 0.00564818, 0.00681406, 0.00804635, 0.00927395,
    0.0104987, 0.0117241, 0.0129568, 0.0142071, 0.0154917, 0.0168264, 0.0182132, 0.019667, 0.0211736, 0.0227078,
    0.0242525, 0.025779, 0.0272728, 0.0287073, 0.0300537, 0.0312839, 0.0323626, 0.0332737, 0.0340389, 0.0346885,
    0.0352418, 0.0357092, 0.0360942, 0.0363948, 0.0366052, 0.0367152, 0.0367105, 0.0365709, 0.0362691, 0.0357688,
    0.0350191, 0.0339484, 0.032456, 0.0352484, -23.493, 50.7532, -25.2925, 0.0173783, 0.00662773, 0.00190766]"

definition H_row_46 :: "real list" where
  "H_row_46 = [
    0.00205059, 0.00212753, 0.00224383, 0.00241914, 0.0026829, 0.00307927, 0.00367441, 0.00443396, 0.00523737, 0.00603857,
    0.0068389, 0.00764089, 0.00844888, 0.00926991, 0.0101151, 0.010995, 0.0119112, 0.0128739, 0.0138742, 0.0148961,
    0.0159289, 0.0169544, 0.0179634, 0.0189387, 0.0198621, 0.0207151, 0.0214748, 0.0221305, 0.0226967, 0.0231936,
    0.0236342, 0.024026, 0.0243718, 0.024671, 0.0249205, 0.0251143, 0.0252439, 0.0252968, 0.0252561, 0.0250987,
    0.0247921, 0.0242901, 0.0235272, 0.0224088, 0.0256481, -25.2925, 54.5308, -27.2266, 0.0107653, 0.00174259]"

definition H_row_47 :: "real list" where
  "H_row_47 = [
    0.00115742, 0.00120111, 0.00126708, 0.00136645, 0.00151587, 0.00174033, 0.00207729, 0.00250744, 0.00296285, 0.0034176,
    0.00387255, 0.00432925, 0.00479027, 0.00525974, 0.00574413, 0.00624958, 0.00677729, 0.00733329, 0.00791281, 0.00850711,
    0.00911037, 0.00971254, 0.0103087, 0.0108894, 0.0114444, 0.0119632, 0.0124328, 0.0128472, 0.0132147, 0.0135471,
    0.0138522, 0.0141344, 0.0143959, 0.0146368, 0.0148556, 0.0150496, 0.0152141, 0.0153427, 0.015426, 0.0154513,
    0.0154, 0.0152458, 0.0149508, 0.0144597, 0.0136917, 0.0173783, -27.2266, 58.5965, -29.3045, 0.00632577]"

definition H_row_48 :: "real list" where
  "H_row_48 = [
    0.000509977, 0.000529376, 0.000558621, 0.000602627, 0.000668762, 0.000768069, 0.000917103, 0.00110742, 0.00130914, 0.00151089,
    0.0017131, 0.00191653, 0.00212237, 0.00233253, 0.00254997, 0.0027775, 0.00301578, 0.00326765, 0.00353114, 0.00380254,
    0.00407943, 0.00435752, 0.00463478, 0.00490711, 0.00517003, 0.00541901, 0.00564823, 0.005855, 0.00604309, 0.00621787,
    0.00638299, 0.00654069, 0.00669206, 0.00683738, 0.00697626, 0.00710765, 0.00722978, 0.00733988, 0.00743395, 0.00750635,
    0.00754876, 0.00754909, 0.00748977, 0.00734497, 0.00707654, 0.00662773, 0.0107653, -29.3045, 62.9714, -31.5314]"

definition H_row_49 :: "real list" where
  "H_row_49 = [
    0.000125592, 0.000130406, 0.000137654, 0.000148548, 0.000164911, 0.00018947, 0.000226316, 0.000273385, 0.000323329, 0.000373363,
    0.000423607, 0.000474262, 0.000525641, 0.000578235, 0.000632796, 0.000690051, 0.000750195, 0.000813965, 0.000880915, 0.00095017,
    0.00102117, 0.00109288, 0.00116485, 0.00123609, 0.0013055, 0.00137198, 0.00143408, 0.00149112, 0.00154406, 0.00159427,
    0.00164271, 0.00168998, 0.0017364, 0.0017821, 0.00182704, 0.001871, 0.00191359, 0.00195418, 0.00199177, 0.00202496,
    0.00205164, 0.00206867, 0.00207144, 0.00205314, 0.0020036, 0.00190766, 0.00174259, 0.00632577, -31.5314, 33.7455]"

definition H_coeffs :: "real list" where
  "H_coeffs = concat [
    H_row_0, H_row_1, H_row_2, H_row_3, H_row_4,
    H_row_5, H_row_6, H_row_7, H_row_8, H_row_9,
    H_row_10, H_row_11, H_row_12, H_row_13, H_row_14,
    H_row_15, H_row_16, H_row_17, H_row_18, H_row_19,
    H_row_20, H_row_21, H_row_22, H_row_23, H_row_24,
    H_row_25, H_row_26, H_row_27, H_row_28, H_row_29,
    H_row_30, H_row_31, H_row_32, H_row_33, H_row_34,
    H_row_35, H_row_36, H_row_37, H_row_38, H_row_39,
    H_row_40, H_row_41, H_row_42, H_row_43, H_row_44,
    H_row_45, H_row_46, H_row_47, H_row_48, H_row_49]"

definition f_coeffs :: "real list" where
  "f_coeffs = [
    -0.0111425, -0.011538, -0.0121425, -0.0130601, -0.0144474, -0.0165385, -0.0196848, -0.0236903, -0.0278921, -0.0320323,
    -0.036109, -0.0401265, -0.0440975, -0.0480478, -0.0520223, -0.0560601, -0.0601514, -0.0643271, -0.068518, -0.0726177,
    -0.0765486, -0.0801968, -0.0834977, -0.0863953, -0.0885252, -0.101229, -0.103082, -0.104449, -0.105031, -0.104906,
    -0.104092, -0.102617, -0.100496, -0.0977022, -0.0942305, -0.0900319, -0.0851233, -0.0794254, -0.0732799, -0.052512,
    -0.0469537, -0.0409763, -0.0349491, -0.0289862, -0.0229266, -0.0388009, -0.0517509, -0.0746045, -0.109363, -0.157534]"

definition A_row_0 :: "real list" where
  "A_row_0 = [
    1, 0, 0, 0, 0, 0, 0, 0, 0, 0,
    0, 0, 0, 0, 0, 0, 0, 0, 0, 0,
    0, 0, 0, 0, 0, 0, 0, 0, 0, 0,
    0, 0, 0, 0, 0, 0, 0, 0, 0, 0,
    0, 0, 0, 0, 0, 0, 0, 0, 0, 0]"

definition A_row_1 :: "real list" where
  "A_row_1 = [
    -1, 1, 0, 0, 0, 0, 0, 0, 0, 0,
    0, 0, 0, 0, 0, 0, 0, 0, 0, 0,
    0, 0, 0, 0, 0, 0, 0, 0, 0, 0,
    0, 0, 0, 0, 0, 0, 0, 0, 0, 0,
    0, 0, 0, 0, 0, 0, 0, 0, 0, 0]"

definition A_row_2 :: "real list" where
  "A_row_2 = [
    0, -1, 1, 0, 0, 0, 0, 0, 0, 0,
    0, 0, 0, 0, 0, 0, 0, 0, 0, 0,
    0, 0, 0, 0, 0, 0, 0, 0, 0, 0,
    0, 0, 0, 0, 0, 0, 0, 0, 0, 0,
    0, 0, 0, 0, 0, 0, 0, 0, 0, 0]"

definition A_row_3 :: "real list" where
  "A_row_3 = [
    0, 0, -1, 1, 0, 0, 0, 0, 0, 0,
    0, 0, 0, 0, 0, 0, 0, 0, 0, 0,
    0, 0, 0, 0, 0, 0, 0, 0, 0, 0,
    0, 0, 0, 0, 0, 0, 0, 0, 0, 0,
    0, 0, 0, 0, 0, 0, 0, 0, 0, 0]"

definition A_row_4 :: "real list" where
  "A_row_4 = [
    0, 0, 0, -1, 1, 0, 0, 0, 0, 0,
    0, 0, 0, 0, 0, 0, 0, 0, 0, 0,
    0, 0, 0, 0, 0, 0, 0, 0, 0, 0,
    0, 0, 0, 0, 0, 0, 0, 0, 0, 0,
    0, 0, 0, 0, 0, 0, 0, 0, 0, 0]"

definition A_row_5 :: "real list" where
  "A_row_5 = [
    0, 0, 0, 0, -1, 1, 0, 0, 0, 0,
    0, 0, 0, 0, 0, 0, 0, 0, 0, 0,
    0, 0, 0, 0, 0, 0, 0, 0, 0, 0,
    0, 0, 0, 0, 0, 0, 0, 0, 0, 0,
    0, 0, 0, 0, 0, 0, 0, 0, 0, 0]"

definition A_row_6 :: "real list" where
  "A_row_6 = [
    0, 0, 0, 0, 0, -1, 1, 0, 0, 0,
    0, 0, 0, 0, 0, 0, 0, 0, 0, 0,
    0, 0, 0, 0, 0, 0, 0, 0, 0, 0,
    0, 0, 0, 0, 0, 0, 0, 0, 0, 0,
    0, 0, 0, 0, 0, 0, 0, 0, 0, 0]"

definition A_row_7 :: "real list" where
  "A_row_7 = [
    0, 0, 0, 0, 0, 0, -1, 1, 0, 0,
    0, 0, 0, 0, 0, 0, 0, 0, 0, 0,
    0, 0, 0, 0, 0, 0, 0, 0, 0, 0,
    0, 0, 0, 0, 0, 0, 0, 0, 0, 0,
    0, 0, 0, 0, 0, 0, 0, 0, 0, 0]"

definition A_row_8 :: "real list" where
  "A_row_8 = [
    0, 0, 0, 0, 0, 0, 0, -1, 1, 0,
    0, 0, 0, 0, 0, 0, 0, 0, 0, 0,
    0, 0, 0, 0, 0, 0, 0, 0, 0, 0,
    0, 0, 0, 0, 0, 0, 0, 0, 0, 0,
    0, 0, 0, 0, 0, 0, 0, 0, 0, 0]"

definition A_row_9 :: "real list" where
  "A_row_9 = [
    0, 0, 0, 0, 0, 0, 0, 0, -1, 1,
    0, 0, 0, 0, 0, 0, 0, 0, 0, 0,
    0, 0, 0, 0, 0, 0, 0, 0, 0, 0,
    0, 0, 0, 0, 0, 0, 0, 0, 0, 0,
    0, 0, 0, 0, 0, 0, 0, 0, 0, 0]"

definition A_row_10 :: "real list" where
  "A_row_10 = [
    0, 0, 0, 0, 0, 0, 0, 0, 0, -1,
    1, 0, 0, 0, 0, 0, 0, 0, 0, 0,
    0, 0, 0, 0, 0, 0, 0, 0, 0, 0,
    0, 0, 0, 0, 0, 0, 0, 0, 0, 0,
    0, 0, 0, 0, 0, 0, 0, 0, 0, 0]"

definition A_row_11 :: "real list" where
  "A_row_11 = [
    0, 0, 0, 0, 0, 0, 0, 0, 0, 0,
    -1, 1, 0, 0, 0, 0, 0, 0, 0, 0,
    0, 0, 0, 0, 0, 0, 0, 0, 0, 0,
    0, 0, 0, 0, 0, 0, 0, 0, 0, 0,
    0, 0, 0, 0, 0, 0, 0, 0, 0, 0]"

definition A_row_12 :: "real list" where
  "A_row_12 = [
    0, 0, 0, 0, 0, 0, 0, 0, 0, 0,
    0, -1, 1, 0, 0, 0, 0, 0, 0, 0,
    0, 0, 0, 0, 0, 0, 0, 0, 0, 0,
    0, 0, 0, 0, 0, 0, 0, 0, 0, 0,
    0, 0, 0, 0, 0, 0, 0, 0, 0, 0]"

definition A_row_13 :: "real list" where
  "A_row_13 = [
    0, 0, 0, 0, 0, 0, 0, 0, 0, 0,
    0, 0, -1, 1, 0, 0, 0, 0, 0, 0,
    0, 0, 0, 0, 0, 0, 0, 0, 0, 0,
    0, 0, 0, 0, 0, 0, 0, 0, 0, 0,
    0, 0, 0, 0, 0, 0, 0, 0, 0, 0]"

definition A_row_14 :: "real list" where
  "A_row_14 = [
    0, 0, 0, 0, 0, 0, 0, 0, 0, 0,
    0, 0, 0, -1, 1, 0, 0, 0, 0, 0,
    0, 0, 0, 0, 0, 0, 0, 0, 0, 0,
    0, 0, 0, 0, 0, 0, 0, 0, 0, 0,
    0, 0, 0, 0, 0, 0, 0, 0, 0, 0]"

definition A_row_15 :: "real list" where
  "A_row_15 = [
    0, 0, 0, 0, 0, 0, 0, 0, 0, 0,
    0, 0, 0, 0, -1, 1, 0, 0, 0, 0,
    0, 0, 0, 0, 0, 0, 0, 0, 0, 0,
    0, 0, 0, 0, 0, 0, 0, 0, 0, 0,
    0, 0, 0, 0, 0, 0, 0, 0, 0, 0]"

definition A_row_16 :: "real list" where
  "A_row_16 = [
    0, 0, 0, 0, 0, 0, 0, 0, 0, 0,
    0, 0, 0, 0, 0, -1, 1, 0, 0, 0,
    0, 0, 0, 0, 0, 0, 0, 0, 0, 0,
    0, 0, 0, 0, 0, 0, 0, 0, 0, 0,
    0, 0, 0, 0, 0, 0, 0, 0, 0, 0]"

definition A_row_17 :: "real list" where
  "A_row_17 = [
    0, 0, 0, 0, 0, 0, 0, 0, 0, 0,
    0, 0, 0, 0, 0, 0, -1, 1, 0, 0,
    0, 0, 0, 0, 0, 0, 0, 0, 0, 0,
    0, 0, 0, 0, 0, 0, 0, 0, 0, 0,
    0, 0, 0, 0, 0, 0, 0, 0, 0, 0]"

definition A_row_18 :: "real list" where
  "A_row_18 = [
    0, 0, 0, 0, 0, 0, 0, 0, 0, 0,
    0, 0, 0, 0, 0, 0, 0, -1, 1, 0,
    0, 0, 0, 0, 0, 0, 0, 0, 0, 0,
    0, 0, 0, 0, 0, 0, 0, 0, 0, 0,
    0, 0, 0, 0, 0, 0, 0, 0, 0, 0]"

definition A_row_19 :: "real list" where
  "A_row_19 = [
    0, 0, 0, 0, 0, 0, 0, 0, 0, 0,
    0, 0, 0, 0, 0, 0, 0, 0, -1, 1,
    0, 0, 0, 0, 0, 0, 0, 0, 0, 0,
    0, 0, 0, 0, 0, 0, 0, 0, 0, 0,
    0, 0, 0, 0, 0, 0, 0, 0, 0, 0]"

definition A_row_20 :: "real list" where
  "A_row_20 = [
    0, 0, 0, 0, 0, 0, 0, 0, 0, 0,
    0, 0, 0, 0, 0, 0, 0, 0, 0, -1,
    1, 0, 0, 0, 0, 0, 0, 0, 0, 0,
    0, 0, 0, 0, 0, 0, 0, 0, 0, 0,
    0, 0, 0, 0, 0, 0, 0, 0, 0, 0]"

definition A_row_21 :: "real list" where
  "A_row_21 = [
    0, 0, 0, 0, 0, 0, 0, 0, 0, 0,
    0, 0, 0, 0, 0, 0, 0, 0, 0, 0,
    -1, 1, 0, 0, 0, 0, 0, 0, 0, 0,
    0, 0, 0, 0, 0, 0, 0, 0, 0, 0,
    0, 0, 0, 0, 0, 0, 0, 0, 0, 0]"

definition A_row_22 :: "real list" where
  "A_row_22 = [
    0, 0, 0, 0, 0, 0, 0, 0, 0, 0,
    0, 0, 0, 0, 0, 0, 0, 0, 0, 0,
    0, -1, 1, 0, 0, 0, 0, 0, 0, 0,
    0, 0, 0, 0, 0, 0, 0, 0, 0, 0,
    0, 0, 0, 0, 0, 0, 0, 0, 0, 0]"

definition A_row_23 :: "real list" where
  "A_row_23 = [
    0, 0, 0, 0, 0, 0, 0, 0, 0, 0,
    0, 0, 0, 0, 0, 0, 0, 0, 0, 0,
    0, 0, -1, 1, 0, 0, 0, 0, 0, 0,
    0, 0, 0, 0, 0, 0, 0, 0, 0, 0,
    0, 0, 0, 0, 0, 0, 0, 0, 0, 0]"

definition A_row_24 :: "real list" where
  "A_row_24 = [
    0, 0, 0, 0, 0, 0, 0, 0, 0, 0,
    0, 0, 0, 0, 0, 0, 0, 0, 0, 0,
    0, 0, 0, -1, 1, 0, 0, 0, 0, 0,
    0, 0, 0, 0, 0, 0, 0, 0, 0, 0,
    0, 0, 0, 0, 0, 0, 0, 0, 0, 0]"

definition A_row_25 :: "real list" where
  "A_row_25 = [
    0, 0, 0, 0, 0, 0, 0, 0, 0, 0,
    0, 0, 0, 0, 0, 0, 0, 0, 0, 0,
    0, 0, 0, 0, -1, 1, 0, 0, 0, 0,
    0, 0, 0, 0, 0, 0, 0, 0, 0, 0,
    0, 0, 0, 0, 0, 0, 0, 0, 0, 0]"

definition A_row_26 :: "real list" where
  "A_row_26 = [
    0, 0, 0, 0, 0, 0, 0, 0, 0, 0,
    0, 0, 0, 0, 0, 0, 0, 0, 0, 0,
    0, 0, 0, 0, 0, -1, 1, 0, 0, 0,
    0, 0, 0, 0, 0, 0, 0, 0, 0, 0,
    0, 0, 0, 0, 0, 0, 0, 0, 0, 0]"

definition A_row_27 :: "real list" where
  "A_row_27 = [
    0, 0, 0, 0, 0, 0, 0, 0, 0, 0,
    0, 0, 0, 0, 0, 0, 0, 0, 0, 0,
    0, 0, 0, 0, 0, 0, -1, 1, 0, 0,
    0, 0, 0, 0, 0, 0, 0, 0, 0, 0,
    0, 0, 0, 0, 0, 0, 0, 0, 0, 0]"

definition A_row_28 :: "real list" where
  "A_row_28 = [
    0, 0, 0, 0, 0, 0, 0, 0, 0, 0,
    0, 0, 0, 0, 0, 0, 0, 0, 0, 0,
    0, 0, 0, 0, 0, 0, 0, -1, 1, 0,
    0, 0, 0, 0, 0, 0, 0, 0, 0, 0,
    0, 0, 0, 0, 0, 0, 0, 0, 0, 0]"

definition A_row_29 :: "real list" where
  "A_row_29 = [
    0, 0, 0, 0, 0, 0, 0, 0, 0, 0,
    0, 0, 0, 0, 0, 0, 0, 0, 0, 0,
    0, 0, 0, 0, 0, 0, 0, 0, -1, 1,
    0, 0, 0, 0, 0, 0, 0, 0, 0, 0,
    0, 0, 0, 0, 0, 0, 0, 0, 0, 0]"

definition A_row_30 :: "real list" where
  "A_row_30 = [
    0, 0, 0, 0, 0, 0, 0, 0, 0, 0,
    0, 0, 0, 0, 0, 0, 0, 0, 0, 0,
    0, 0, 0, 0, 0, 0, 0, 0, 0, -1,
    1, 0, 0, 0, 0, 0, 0, 0, 0, 0,
    0, 0, 0, 0, 0, 0, 0, 0, 0, 0]"

definition A_row_31 :: "real list" where
  "A_row_31 = [
    0, 0, 0, 0, 0, 0, 0, 0, 0, 0,
    0, 0, 0, 0, 0, 0, 0, 0, 0, 0,
    0, 0, 0, 0, 0, 0, 0, 0, 0, 0,
    -1, 1, 0, 0, 0, 0, 0, 0, 0, 0,
    0, 0, 0, 0, 0, 0, 0, 0, 0, 0]"

definition A_row_32 :: "real list" where
  "A_row_32 = [
    0, 0, 0, 0, 0, 0, 0, 0, 0, 0,
    0, 0, 0, 0, 0, 0, 0, 0, 0, 0,
    0, 0, 0, 0, 0, 0, 0, 0, 0, 0,
    0, -1, 1, 0, 0, 0, 0, 0, 0, 0,
    0, 0, 0, 0, 0, 0, 0, 0, 0, 0]"

definition A_row_33 :: "real list" where
  "A_row_33 = [
    0, 0, 0, 0, 0, 0, 0, 0, 0, 0,
    0, 0, 0, 0, 0, 0, 0, 0, 0, 0,
    0, 0, 0, 0, 0, 0, 0, 0, 0, 0,
    0, 0, -1, 1, 0, 0, 0, 0, 0, 0,
    0, 0, 0, 0, 0, 0, 0, 0, 0, 0]"

definition A_row_34 :: "real list" where
  "A_row_34 = [
    0, 0, 0, 0, 0, 0, 0, 0, 0, 0,
    0, 0, 0, 0, 0, 0, 0, 0, 0, 0,
    0, 0, 0, 0, 0, 0, 0, 0, 0, 0,
    0, 0, 0, -1, 1, 0, 0, 0, 0, 0,
    0, 0, 0, 0, 0, 0, 0, 0, 0, 0]"

definition A_row_35 :: "real list" where
  "A_row_35 = [
    0, 0, 0, 0, 0, 0, 0, 0, 0, 0,
    0, 0, 0, 0, 0, 0, 0, 0, 0, 0,
    0, 0, 0, 0, 0, 0, 0, 0, 0, 0,
    0, 0, 0, 0, -1, 1, 0, 0, 0, 0,
    0, 0, 0, 0, 0, 0, 0, 0, 0, 0]"

definition A_row_36 :: "real list" where
  "A_row_36 = [
    0, 0, 0, 0, 0, 0, 0, 0, 0, 0,
    0, 0, 0, 0, 0, 0, 0, 0, 0, 0,
    0, 0, 0, 0, 0, 0, 0, 0, 0, 0,
    0, 0, 0, 0, 0, -1, 1, 0, 0, 0,
    0, 0, 0, 0, 0, 0, 0, 0, 0, 0]"

definition A_row_37 :: "real list" where
  "A_row_37 = [
    0, 0, 0, 0, 0, 0, 0, 0, 0, 0,
    0, 0, 0, 0, 0, 0, 0, 0, 0, 0,
    0, 0, 0, 0, 0, 0, 0, 0, 0, 0,
    0, 0, 0, 0, 0, 0, -1, 1, 0, 0,
    0, 0, 0, 0, 0, 0, 0, 0, 0, 0]"

definition A_row_38 :: "real list" where
  "A_row_38 = [
    0, 0, 0, 0, 0, 0, 0, 0, 0, 0,
    0, 0, 0, 0, 0, 0, 0, 0, 0, 0,
    0, 0, 0, 0, 0, 0, 0, 0, 0, 0,
    0, 0, 0, 0, 0, 0, 0, -1, 1, 0,
    0, 0, 0, 0, 0, 0, 0, 0, 0, 0]"

definition A_row_39 :: "real list" where
  "A_row_39 = [
    0, 0, 0, 0, 0, 0, 0, 0, 0, 0,
    0, 0, 0, 0, 0, 0, 0, 0, 0, 0,
    0, 0, 0, 0, 0, 0, 0, 0, 0, 0,
    0, 0, 0, 0, 0, 0, 0, 0, -1, 1,
    0, 0, 0, 0, 0, 0, 0, 0, 0, 0]"

definition A_row_40 :: "real list" where
  "A_row_40 = [
    0, 0, 0, 0, 0, 0, 0, 0, 0, 0,
    0, 0, 0, 0, 0, 0, 0, 0, 0, 0,
    0, 0, 0, 0, 0, 0, 0, 0, 0, 0,
    0, 0, 0, 0, 0, 0, 0, 0, 0, -1,
    1, 0, 0, 0, 0, 0, 0, 0, 0, 0]"

definition A_row_41 :: "real list" where
  "A_row_41 = [
    0, 0, 0, 0, 0, 0, 0, 0, 0, 0,
    0, 0, 0, 0, 0, 0, 0, 0, 0, 0,
    0, 0, 0, 0, 0, 0, 0, 0, 0, 0,
    0, 0, 0, 0, 0, 0, 0, 0, 0, 0,
    -1, 1, 0, 0, 0, 0, 0, 0, 0, 0]"

definition A_row_42 :: "real list" where
  "A_row_42 = [
    0, 0, 0, 0, 0, 0, 0, 0, 0, 0,
    0, 0, 0, 0, 0, 0, 0, 0, 0, 0,
    0, 0, 0, 0, 0, 0, 0, 0, 0, 0,
    0, 0, 0, 0, 0, 0, 0, 0, 0, 0,
    0, -1, 1, 0, 0, 0, 0, 0, 0, 0]"

definition A_row_43 :: "real list" where
  "A_row_43 = [
    0, 0, 0, 0, 0, 0, 0, 0, 0, 0,
    0, 0, 0, 0, 0, 0, 0, 0, 0, 0,
    0, 0, 0, 0, 0, 0, 0, 0, 0, 0,
    0, 0, 0, 0, 0, 0, 0, 0, 0, 0,
    0, 0, -1, 1, 0, 0, 0, 0, 0, 0]"

definition A_row_44 :: "real list" where
  "A_row_44 = [
    0, 0, 0, 0, 0, 0, 0, 0, 0, 0,
    0, 0, 0, 0, 0, 0, 0, 0, 0, 0,
    0, 0, 0, 0, 0, 0, 0, 0, 0, 0,
    0, 0, 0, 0, 0, 0, 0, 0, 0, 0,
    0, 0, 0, -1, 1, 0, 0, 0, 0, 0]"

definition A_row_45 :: "real list" where
  "A_row_45 = [
    0, 0, 0, 0, 0, 0, 0, 0, 0, 0,
    0, 0, 0, 0, 0, 0, 0, 0, 0, 0,
    0, 0, 0, 0, 0, 0, 0, 0, 0, 0,
    0, 0, 0, 0, 0, 0, 0, 0, 0, 0,
    0, 0, 0, 0, -1, 1, 0, 0, 0, 0]"

definition A_row_46 :: "real list" where
  "A_row_46 = [
    0, 0, 0, 0, 0, 0, 0, 0, 0, 0,
    0, 0, 0, 0, 0, 0, 0, 0, 0, 0,
    0, 0, 0, 0, 0, 0, 0, 0, 0, 0,
    0, 0, 0, 0, 0, 0, 0, 0, 0, 0,
    0, 0, 0, 0, 0, -1, 1, 0, 0, 0]"

definition A_row_47 :: "real list" where
  "A_row_47 = [
    0, 0, 0, 0, 0, 0, 0, 0, 0, 0,
    0, 0, 0, 0, 0, 0, 0, 0, 0, 0,
    0, 0, 0, 0, 0, 0, 0, 0, 0, 0,
    0, 0, 0, 0, 0, 0, 0, 0, 0, 0,
    0, 0, 0, 0, 0, 0, -1, 1, 0, 0]"

definition A_row_48 :: "real list" where
  "A_row_48 = [
    0, 0, 0, 0, 0, 0, 0, 0, 0, 0,
    0, 0, 0, 0, 0, 0, 0, 0, 0, 0,
    0, 0, 0, 0, 0, 0, 0, 0, 0, 0,
    0, 0, 0, 0, 0, 0, 0, 0, 0, 0,
    0, 0, 0, 0, 0, 0, 0, -1, 1, 0]"

definition A_row_49 :: "real list" where
  "A_row_49 = [
    0, 0, 0, 0, 0, 0, 0, 0, 0, 0,
    0, 0, 0, 0, 0, 0, 0, 0, 0, 0,
    0, 0, 0, 0, 0, 0, 0, 0, 0, 0,
    0, 0, 0, 0, 0, 0, 0, 0, 0, 0,
    0, 0, 0, 0, 0, 0, 0, 0, -1, 1]"

definition A_coeffs :: "real list" where
  "A_coeffs = concat [
    A_row_0, A_row_1, A_row_2, A_row_3, A_row_4,
    A_row_5, A_row_6, A_row_7, A_row_8, A_row_9,
    A_row_10, A_row_11, A_row_12, A_row_13, A_row_14,
    A_row_15, A_row_16, A_row_17, A_row_18, A_row_19,
    A_row_20, A_row_21, A_row_22, A_row_23, A_row_24,
    A_row_25, A_row_26, A_row_27, A_row_28, A_row_29,
    A_row_30, A_row_31, A_row_32, A_row_33, A_row_34,
    A_row_35, A_row_36, A_row_37, A_row_38, A_row_39,
    A_row_40, A_row_41, A_row_42, A_row_43, A_row_44,
    A_row_45, A_row_46, A_row_47, A_row_48, A_row_49]"

definition lb_coeffs :: "real list" where
  "lb_coeffs = [
    -0.7, -0.7, -0.7, -0.7, -0.7, -0.7, -0.7, -0.7, -0.7, -0.7,
    -0.7, -0.7, -0.7, -0.7, -0.7, -0.7, -0.7, -0.7, -0.7, -0.7,
    -0.7, -0.7, -0.7, -0.7, -0.7, -0.7, -0.7, -0.7, -0.7, -0.7,
    -0.7, -0.7, -0.7, -0.7, -0.7, -0.7, -0.7, -0.7, -0.7, -0.7,
    -0.7, -0.7, -0.7, -0.7, -0.7, -0.7, -0.7, -0.7, -0.7, -0.7]"

definition ub_coeffs :: "real list" where
  "ub_coeffs = [
    0.7, 0.7, 0.7, 0.7, 0.7, 0.7, 0.7, 0.7, 0.7, 0.7,
    0.7, 0.7, 0.7, 0.7, 0.7, 0.7, 0.7, 0.7, 0.7, 0.7,
    0.7, 0.7, 0.7, 0.7, 0.7, 0.7, 0.7, 0.7, 0.7, 0.7,
    0.7, 0.7, 0.7, 0.7, 0.7, 0.7, 0.7, 0.7, 0.7, 0.7,
    0.7, 0.7, 0.7, 0.7, 0.7, 0.7, 0.7, 0.7, 0.7, 0.7]"

definition lbA_coeffs :: "real list" where
  "lbA_coeffs = [
    -0.022612, -0.0943183, -0.0947408, -0.0951632, -0.0955856, -0.0960081, -0.0964305, -0.0968748, -0.0973306, -0.0977864,
    -0.0982422, -0.0986979, -0.0991537, -0.0996095, -0.100065, -0.100901, -0.102576, -0.104252, -0.104797, -0.105076,
    -0.105429, -0.105815, -0.106251, -0.106762, -0.107324, -0.107944, -0.108627, -0.109345, -0.110009, -0.110571,
    -0.110995, -0.111277, -0.111414, -0.111385, -0.111186, -0.110788, -0.110203, -0.109409, -0.108455, -0.107447,
    -0.106401, -0.105314, -0.101557, -0.0946047, -0.104894, -0.109788, -0.118091, -0.125476, -0.125476, -0.125476]"

definition ubA_coeffs :: "real list" where
  "ubA_coeffs = [
    0.0244062, 0.0943183, 0.0947408, 0.0951632, 0.0955856, 0.0960081, 0.0964305, 0.0968748, 0.0973306, 0.0977864,
    0.0982422, 0.0986979, 0.0991537, 0.0996095, 0.100065, 0.100901, 0.102576, 0.104252, 0.104797, 0.105076,
    0.105429, 0.105815, 0.106251, 0.106762, 0.107324, 0.107944, 0.108627, 0.109345, 0.110009, 0.110571,
    0.110995, 0.111277, 0.111414, 0.111385, 0.111186, 0.110788, 0.110203, 0.109409, 0.108455, 0.107447,
    0.106401, 0.105314, 0.101557, 0.0946047, 0.104894, 0.109788, 0.118091, 0.125476, 0.125476, 0.125476]"
record qp_problem =
  qp_H :: mat
  qp_f :: mat
  qp_A :: mat
  qp_lb :: mat
  qp_ub :: mat
  qp_lbA :: mat
  qp_ubA :: mat

text \<open>
  What \<open>executeOptimization\<close> hands to \<open>m_qpsolver_ptr->solve\<close>, as a function of its
  five arguments.
\<close>

definition executeOptimization_problem ::
  "MPCMatrix \<Rightarrow> mat \<Rightarrow> real \<Rightarrow> MPCTrajectory \<Rightarrow> real \<Rightarrow> qp_problem" where
  "executeOptimization_problem m x0 pred_dt traj current_velocity =
     (let H = comma_init 50 50 H_coeffs;
          f = comma_init 1 50 f_coeffs;
          A = comma_init 50 50 A_coeffs;
          lb = comma_init 50 1 lb_coeffs;
          ub = comma_init 50 1 ub_coeffs;
          lbA = comma_init 50 1 lbA_coeffs;
          ubA = comma_init 50 1 ubA_coeffs
      in \<lparr>qp_H = H, qp_f = transpose_mat f, qp_A = A, qp_lb = lb, qp_ub = ub, qp_lbA = lbA,
          qp_ubA = ubA\<rparr>)"

definition isNaN_any :: "real option list \<Rightarrow> bool" where
  "isNaN_any u = list_ex (\<lambda>c. c = None) u"

definition executeOptimization ::
  "('sp, 'lpf, 'qs) env \<Rightarrow> ('sp, 'lpf, 'qs) MPC \<Rightarrow> MPCMatrix \<Rightarrow> mat \<Rightarrow> real \<Rightarrow> MPCTrajectory \<Rightarrow> real
     \<Rightarrow> (bool \<times> mat) \<times> ('sp, 'lpf, 'qs) MPC" where
  "executeOptimization env s m x0 pred_dt traj current_velocity =
     (let p = executeOptimization_problem m x0 pred_dt traj current_velocity;
          (solve_result, Uex, qs) =
             qp_solve env (m_qpsolver s) (qp_H p) (qp_f p) (qp_A p) (qp_lb p) (qp_ub p) (qp_lbA p)
               (qp_ubA p);
          s' = s\<lparr>m_qpsolver := qs\<rparr>
      in if \<not> solve_result then ((False, VectorXd_empty), s')
         else if isNaN_any Uex then ((False, VectorXd_empty), s')
         else ((True, VectorXd_of (map the Uex)), s'))"

subsection \<open>Small helpers of the standard library\<close>

text \<open>\<open>std::clamp(v, lo, hi)\<close>, as the standard defines it.\<close>

definition std_clamp :: "real \<Rightarrow> real \<Rightarrow> real \<Rightarrow> real" where
  "std_clamp v lo hi = (if v < lo then lo else if hi < v then hi else v)"

text \<open>\<open>std::vector::at\<close>: \<open>None\<close> is the \<open>std::out_of_range\<close> it throws.\<close>

definition vector_at :: "'a list \<Rightarrow> nat \<Rightarrow> 'a option" where
  "vector_at xs i = (if i < length xs then Some (xs ! i) else None)"

text \<open>A counted loop whose body may throw, over the indices it visits in order.\<close>

fun for_loop :: "(nat \<Rightarrow> 'a \<Rightarrow> 'a option) \<Rightarrow> nat list \<Rightarrow> 'a \<Rightarrow> 'a option" where
  "for_loop body [] a = Some a"
| "for_loop body (i # rest) a =
     (case body i a of None \<Rightarrow> None | Some a' \<Rightarrow> for_loop body rest a')"

text \<open>
  Modelled from the spec: \<open>tier4_autoware_utils::deg2rad\<close>, whose code is in another
  package; the dead-band threshold is "in degrees, converted to the model's angle
  unit", radians.
\<close>

definition deg2rad :: "real \<Rightarrow> real" where
  "deg2rad deg = deg * pi / 180"

subsection \<open>\<open>applyVelocityDynamicsFilter\<close>\<close>

definition applyVelocityDynamicsFilter ::
  "('sp, 'lpf, 'qs) env \<Rightarrow> ('sp, 'lpf, 'qs) MPC \<Rightarrow> MPCTrajectory \<Rightarrow> Odometry \<Rightarrow> MPCTrajectory" where
  "applyVelocityDynamicsFilter env s input current_kinematics =
     (let autoware_traj = convertToAutowareTrajectory env input
      in if autoware_traj = [] then input
         else
           let nearest_seg_idx =
                 findFirstNearestSegmentIndexWithSoftConstraints env autoware_traj
                   (pose current_kinematics) (ego_nearest_dist_threshold s)
                   (ego_nearest_yaw_threshold s);
               output =
                 dynamicSmoothingVelocity env nearest_seg_idx (twist_linear_x current_kinematics)
                   (acceleration_limit (m_param s)) (velocity_time_constant (m_param s)) input;
               last_point = traj_back output;
               last_point1 = last_point\<lparr>pt_relative_time := pt_relative_time last_point + 100\<rparr>;
               last_point2 = last_point1\<lparr>pt_vx := 0\<rparr>
           in traj_push_back output last_point2)"

subsection \<open>\<open>getData\<close>\<close>

text \<open>
  The three checks after the nearest-pose search, on the data the search and the
  collaborators gave.  \<open>traj.relative_time.back()\<close> is \<open>last\<close>; on an empty vector the
  C++ is undefined.
\<close>

definition getData ::
  "('sp, 'lpf, 'qs) env \<Rightarrow> ('sp, 'lpf, 'qs) MPC \<Rightarrow> MPCTrajectory \<Rightarrow> SteeringReport \<Rightarrow> Odometry
     \<Rightarrow> (bool \<times> MPCData) \<times> ('sp, 'lpf, 'qs) MPC" where
  "getData env s traj current_steer current_kinematics =
     (let current_pose = pose current_kinematics
      in case calcNearestPoseInterp env traj current_pose (ego_nearest_dist_threshold s)
                (ego_nearest_yaw_threshold s) of
           None \<Rightarrow> ((False, MPCData_default), s)
         | Some (n_pose, n_idx, n_time) \<Rightarrow>
             let data0 = MPCData_default
                   \<lparr>nearest_pose := n_pose, nearest_idx := n_idx, nearest_time := n_time\<rparr>;
                 data1 = data0\<lparr>steer := steering_tire_angle current_steer\<rparr>;
                 data2 = data1\<lparr>lateral_err := calcLateralError env current_pose (nearest_pose data1)\<rparr>;
                 data3 = data2
                   \<lparr>yaw_err := normalizeRadian env
                      (getYaw env current_pose - getYaw env (nearest_pose data2))\<rparr>;
                 (p_steer, sp) = calcSteerPrediction env (m_steering_predictor s);
                 data = data3\<lparr>predicted_steer := p_steer\<rparr>;
                 s' = s\<lparr>m_steering_predictor := sp\<rparr>;
                 dist_err = calcDistance2d_pose env current_pose (nearest_pose data)
             in if dist_err > m_admissible_position_error s then ((False, MPCData_default), s')
                else if \<bar>yaw_err data\<bar> > m_admissible_yaw_error_rad s
                then ((False, MPCData_default), s')
                else
                  let max_prediction_time =
                        min_prediction_length (m_param s)
                          / real_of_int (prediction_horizon (m_param s) - 1);
                      end_time =
                        nearest_time data + input_delay (m_param s) + m_ctrl_period s
                          + max_prediction_time
                  in if end_time > last (relative_time traj) then ((False, MPCData_default), s')
                     else ((True, data), s'))"

subsection \<open>\<open>resampleMPCTrajectoryByTime\<close>\<close>

definition resampleMPCTrajectoryByTime ::
  "('sp, 'lpf, 'qs) env \<Rightarrow> ('sp, 'lpf, 'qs) MPC \<Rightarrow> real \<Rightarrow> real \<Rightarrow> MPCTrajectory
     \<Rightarrow> bool \<times> MPCTrajectory" where
  "resampleMPCTrajectoryByTime env s ts pred_dt input =
     (let mpc_time_v = map (\<lambda>i. ts + real i * pred_dt) [0..<nat (prediction_horizon (m_param s))]
      in case linearInterpMPCTrajectory env (relative_time input) input mpc_time_v of
           None \<Rightarrow> (False, traj_empty)
         | Some output \<Rightarrow> (True, output))"

subsection \<open>\<open>getInitialState\<close>\<close>

definition getInitialState ::
  "('sp, 'lpf, 'qs) env \<Rightarrow> ('sp, 'lpf, 'qs) MPC \<Rightarrow> MPCData \<Rightarrow> mat \<times> ('sp, 'lpf, 'qs) MPC" where
  "getInitialState env s data =
     (let DIM_X = dim_x (m_vehicle_model s);
          lat_err = lateral_err data;
          steer_v = (if m_use_steer_prediction s then predicted_steer data else steer data);
          yaw_e = yaw_err data;
          vehicle_model = modelName (m_vehicle_model s)
      in if vehicle_model = ''kinematics'' then (comma_init DIM_X 1 [lat_err, yaw_e, steer_v], s)
         else if vehicle_model = ''kinematics_no_delay'' then (comma_init DIM_X 1 [lat_err, yaw_e], s)
         else if vehicle_model = ''dynamics''
         then
           let dlat0 = (lat_err - m_lateral_error_prev s) / m_ctrl_period s;
               dyaw0 = (yaw_e - m_yaw_error_prev s) / m_ctrl_period s;
               s1 = s\<lparr>m_lateral_error_prev := lat_err\<rparr>;
               s2 = s1\<lparr>m_yaw_error_prev := yaw_e\<rparr>;
               (dlat, lpf_lat) = lpf_filter env (m_lpf_lateral_error s2) dlat0;
               s3 = s2\<lparr>m_lpf_lateral_error := lpf_lat\<rparr>;
               (dyaw, lpf_yaw) = lpf_filter env (m_lpf_yaw_error s3) dyaw0;
               s4 = s3\<lparr>m_lpf_yaw_error := lpf_yaw\<rparr>
           in (comma_init DIM_X 1 [lat_err, dlat, yaw_e, dyaw], s4)
         else (MatrixXd_Zero DIM_X 1, s))"

subsection \<open>\<open>updateStateForDelayCompensation\<close>\<close>

text \<open>
  The loop over \<open>m_input_buffer\<close>, oldest input first.  \<open>interpolation::lerp\<close> throws on
  a query outside the keys; the code catches it and returns failure.
\<close>

fun delay_compensation_loop ::
  "('sp, 'lpf, 'qs) env \<Rightarrow> real \<Rightarrow> MPCTrajectory \<Rightarrow> real list \<Rightarrow> VehicleModel \<Rightarrow> mat \<Rightarrow> real
     \<Rightarrow> (bool \<times> mat) \<times> VehicleModel" where
  "delay_compensation_loop env ctrl_period traj [] vm x_curr mpc_curr_time = ((True, x_curr), vm)"
| "delay_compensation_loop env ctrl_period traj (u # rest) vm x_curr mpc_curr_time =
     (case lerp env (relative_time traj) (traj_k traj) mpc_curr_time of
        None \<Rightarrow> ((False, VectorXd_empty), vm)
      | Some k \<Rightarrow>
          (case lerp env (relative_time traj) (vx traj) mpc_curr_time of
             None \<Rightarrow> ((False, VectorXd_empty), vm)
           | Some v \<Rightarrow>
               let vm1 = vm\<lparr>velocity := v\<rparr>;
                   vm2 = vm1\<lparr>curvature := k\<rparr>;
                   (Ad, Bd, Cd, Wd) = calculateDiscreteMatrix env vm2 ctrl_period;
                   ud = set_coeff (MatrixXd_Zero (dim_u vm2) 1) 0 0 u;
                   x_next = mat_add (mat_add (mat_mul Ad x_curr) (mat_mul Bd ud)) Wd
               in delay_compensation_loop env ctrl_period traj rest vm2 x_next
                    (mpc_curr_time + ctrl_period)))"

definition updateStateForDelayCompensation ::
  "('sp, 'lpf, 'qs) env \<Rightarrow> ('sp, 'lpf, 'qs) MPC \<Rightarrow> MPCTrajectory \<Rightarrow> real \<Rightarrow> mat
     \<Rightarrow> (bool \<times> mat) \<times> ('sp, 'lpf, 'qs) MPC" where
  "updateStateForDelayCompensation env s traj start_time x0_orig =
     (let (r, vm) =
            delay_compensation_loop env (m_ctrl_period s) traj (m_input_buffer s)
              (m_vehicle_model s) x0_orig start_time
      in (r, s\<lparr>m_vehicle_model := vm\<rparr>))"

subsection \<open>\<open>getPredictionDeltaTime\<close>\<close>

text \<open>
  The loop of the lambda that computes \<open>target_time\<close>, from index \<open>i\<close> with the distance
  summed so far.
\<close>

function target_time_loop ::
  "('sp, 'lpf, 'qs) env \<Rightarrow> real \<Rightarrow> MPCTrajectory \<Rightarrow> nat \<Rightarrow> real \<Rightarrow> real" where
  "target_time_loop env min_len input i sum_dist =
     (if i < length (relative_time input)
      then
        let segment_dist = calcDistance2d env input i (i - 1);
            sum_dist1 = sum_dist + segment_dist
        in if min_len < sum_dist1
           then
             let prev_sum_dist = sum_dist1 - segment_dist;
                 ratio = (min_len - prev_sum_dist) / segment_dist;
                 relative_time_at_i =
                   (if i = length (relative_time input) - 1 then relative_time input ! i - 100
                    else relative_time input ! i)
             in relative_time input ! (i - 1)
                  + (relative_time_at_i - relative_time input ! (i - 1)) * ratio
           else target_time_loop env min_len input (i + 1) sum_dist1
      else last (relative_time input) - 100)"
  by pat_completeness auto
termination
  by (relation "measure (\<lambda>(env, min_len, input, i, sum_dist). length (relative_time input) - i)") auto

definition target_time ::
  "('sp, 'lpf, 'qs) env \<Rightarrow> ('sp, 'lpf, 'qs) MPC \<Rightarrow> MPCTrajectory \<Rightarrow> Odometry \<Rightarrow> real" where
  "target_time env s input current_kinematics =
     (let autoware_traj = convertToAutowareTrajectory env input;
          nearest =
            findFirstNearestIndexWithSoftConstraints env autoware_traj (pose current_kinematics)
              (ego_nearest_dist_threshold s) (ego_nearest_yaw_threshold s)
      in target_time_loop env (min_prediction_length (m_param s)) input (nearest + 1) 0)"

definition getPredictionDeltaTime ::
  "('sp, 'lpf, 'qs) env \<Rightarrow> ('sp, 'lpf, 'qs) MPC \<Rightarrow> real \<Rightarrow> MPCTrajectory \<Rightarrow> Odometry \<Rightarrow> real" where
  "getPredictionDeltaTime env s start_time input current_kinematics =
     (let dt =
            (target_time env s input current_kinematics - start_time)
              / real_of_int (prediction_horizon (m_param s) - 1)
      in max dt (prediction_dt (m_param s)))"

subsection \<open>\<open>addSteerWeightR\<close>\<close>

definition addSteerWeightR :: "('sp, 'lpf, 'qs) MPC \<Rightarrow> real \<Rightarrow> mat \<Rightarrow> mat" where
  "addSteerWeightR s pred_dt R =
     (let N = prediction_horizon (m_param s);
          DT = pred_dt;
          steer_rate_r = steer_rate (nominal_weight (m_param s)) / (DT * DT);
          D = mat_scale steer_rate_r (comma_init 2 2 [1, -1, -1, 1]);
          R1 = fold (\<lambda>i R'. add_block R' i i 2 2 D) [0..<nat (N - 1)] R;
          R2 =
            (if N > 1
             then add_coeff R1 0 0
                    (steer_rate (nominal_weight (m_param s)) / (m_ctrl_period s * m_ctrl_period s))
             else R1);
          w = steer_acc (nominal_weight (m_param s));
          steer_acc_r = w / DT ^ 4;
          steer_acc_r_cp1 = w / (DT ^ 3 * m_ctrl_period s);
          steer_acc_r_cp2 = w / (DT ^ 2 * m_ctrl_period s ^ 2);
          steer_acc_r_cp4 = w / m_ctrl_period s ^ 4;
          D3 = mat_scale steer_acc_r (comma_init 3 3 [1, -2, 1, -2, 4, -2, 1, -2, 1]);
          R3 = fold (\<lambda>i R'. add_block R' (i - 1) (i - 1) 3 3 D3) [1..<nat (N - 1)] R2
      in if N > 1
         then
           let R4 = add_coeff R3 0 0 (steer_acc_r * 1 + steer_acc_r_cp2 * 1 + steer_acc_r_cp1 * 2);
               R5 = add_coeff R4 1 0 (steer_acc_r * - 1 + steer_acc_r_cp1 * - 1);
               R6 = add_coeff R5 0 1 (steer_acc_r * - 1 + steer_acc_r_cp1 * - 1);
               R7 = add_coeff R6 1 1 (steer_acc_r * 1)
           in add_coeff R7 0 0 (steer_acc_r_cp4 * 1)
         else R3)"

subsection \<open>\<open>generateMPCMatrix\<close>\<close>

text \<open>
  The body of the first loop, at horizon index \<open>i\<close>, on the vehicle model and the
  matrices built so far.  \<open>N\<close>, \<open>DIM_X\<close>, \<open>DIM_U\<close>, \<open>DIM_Y\<close> and \<open>sign_vx\<close> are the
  constants the function reads before the loop.
\<close>

definition generateMPCMatrix_body ::
  "('sp, 'lpf, 'qs) env \<Rightarrow> MPCParam \<Rightarrow> MPCTrajectory \<Rightarrow> real \<Rightarrow> nat \<Rightarrow> nat \<Rightarrow> nat \<Rightarrow> nat \<Rightarrow> real
     \<Rightarrow> nat \<Rightarrow> VehicleModel \<times> MPCMatrix \<Rightarrow> (VehicleModel \<times> MPCMatrix) option" where
  "generateMPCMatrix_body env param reference_trajectory DT N DIM_X DIM_U DIM_Y sign_vx i st =
     (case vector_at (vx reference_trajectory) i of
        None \<Rightarrow> None
      | Some ref_vx \<Rightarrow>
     (case vector_at (traj_k reference_trajectory) i of
        None \<Rightarrow> None
      | Some k_i \<Rightarrow>
     (case vector_at (smooth_k reference_trajectory) i of
        None \<Rightarrow> None
      | Some smooth_k_i \<Rightarrow>
          let vm = fst st;
              m = snd st;
              ref_vx_squared = ref_vx * ref_vx;
              ref_k = k_i * sign_vx;
              ref_smooth_k = smooth_k_i * sign_vx;
              vm1 = vm\<lparr>velocity := ref_vx\<rparr>;
              vm2 = vm1\<lparr>curvature := ref_k\<rparr>;
              (Ad, Bd, Cd, Wd) = calculateDiscreteMatrix env vm2 DT;
              mpc_weight = getWeight env param ref_k;
              Q0 = set_coeff (MatrixXd_Zero DIM_Y DIM_Y) 0 0 (lat_error mpc_weight);
              Q = set_coeff Q0 1 1 (heading_error mpc_weight);
              R = set_coeff (MatrixXd_Zero DIM_U DIM_U) 0 0 (steering_input mpc_weight);
              Q_adaptive1 =
                (if i = N - 1
                 then set_coeff
                        (set_coeff Q 0 0 (terminal_lat_error (nominal_weight param))) 1 1
                        (terminal_heading_error (nominal_weight param))
                 else Q);
              Q_adaptive =
                add_coeff Q_adaptive1 1 1 (ref_vx_squared * heading_error_squared_vel mpc_weight);
              R_adaptive = add_coeff R 0 0 (ref_vx_squared * steering_input_squared_vel mpc_weight);
              idx_x_i = i * DIM_X;
              idx_x_i_prev = (i - 1) * DIM_X;
              idx_u_i = i * DIM_U;
              idx_y_i = i * DIM_Y;
              m1 =
                (if i = 0
                 then m\<lparr>Aex := set_block (Aex m) 0 0 DIM_X DIM_X Ad,
                        Bex_mat := set_block (Bex_mat m) 0 0 DIM_X DIM_U Bd,
                        Wex := set_block (Wex m) 0 0 DIM_X 1 Wd\<rparr>
                 else m\<lparr>Aex := set_block (Aex m) idx_x_i 0 DIM_X DIM_X
                                 (mat_mul Ad (block (Aex m) idx_x_i_prev 0 DIM_X DIM_X)),
                        Bex_mat := fold
                                 (\<lambda>j B. set_block B idx_x_i (j * DIM_U) DIM_X DIM_U
                                           (mat_mul Ad (block B idx_x_i_prev (j * DIM_U) DIM_X DIM_U)))
                                 [0..<i] (Bex_mat m),
                        Wex := set_block (Wex m) idx_x_i 0 DIM_X 1
                                 (mat_add (mat_mul Ad (block (Wex m) idx_x_i_prev 0 DIM_X 1)) Wd)\<rparr>);
              m2 = m1\<lparr>Bex_mat := set_block (Bex_mat m1) idx_x_i idx_u_i DIM_X DIM_U Bd\<rparr>;
              m3 = m2\<lparr>Cex := set_block (Cex m2) idx_y_i idx_x_i DIM_Y DIM_X Cd\<rparr>;
              m4 = m3\<lparr>Qex := set_block (Qex m3) idx_y_i idx_y_i DIM_Y DIM_Y Q_adaptive\<rparr>;
              m5 = m4\<lparr>R1ex := set_block (R1ex m4) idx_u_i idx_u_i DIM_U DIM_U R_adaptive\<rparr>;
              vm3 = vm2\<lparr>curvature := ref_smooth_k\<rparr>;
              Uref0 = calculateReferenceInput env vm3;
              Uref =
                (if \<bar>elems Uref0 0 0\<bar> < deg2rad (zero_ff_steer_deg param)
                 then set_coeff Uref0 0 0 0 else Uref0);
              m6 = m5\<lparr>Uref_ex := set_block (Uref_ex m5) (i * DIM_U) 0 DIM_U 1 Uref\<rparr>
          in Some (vm3, m6))))"

text \<open>The body of the second loop: the lateral-jerk weight on \<open>R2ex\<close>.\<close>

definition lateral_jerk_body ::
  "('sp, 'lpf, 'qs) env \<Rightarrow> MPCParam \<Rightarrow> MPCTrajectory \<Rightarrow> real \<Rightarrow> real \<Rightarrow> nat \<Rightarrow> MPCMatrix
     \<Rightarrow> MPCMatrix option" where
  "lateral_jerk_body env param reference_trajectory DT sign_vx i m =
     (case vector_at (vx reference_trajectory) i of
        None \<Rightarrow> None
      | Some ref_vx \<Rightarrow>
     (case vector_at (traj_k reference_trajectory) i of
        None \<Rightarrow> None
      | Some k_i \<Rightarrow>
          let ref_k = k_i * sign_vx;
              j = ref_vx * ref_vx * lat_jerk (getWeight env param ref_k) / (DT * DT);
              J = comma_init 2 2 [j, - j, - j, j]
          in Some (m\<lparr>R2ex := add_block (R2ex m) i i 2 2 J\<rparr>)))"

definition generateMPCMatrix ::
  "('sp, 'lpf, 'qs) env \<Rightarrow> ('sp, 'lpf, 'qs) MPC \<Rightarrow> MPCTrajectory \<Rightarrow> real
     \<Rightarrow> (MPCMatrix \<times> ('sp, 'lpf, 'qs) MPC) option" where
  "generateMPCMatrix env s reference_trajectory pred_dt =
     (let N = nat (prediction_horizon (m_param s));
          DT = pred_dt;
          DIM_X = dim_x (m_vehicle_model s);
          DIM_U = dim_u (m_vehicle_model s);
          DIM_Y = dim_y (m_vehicle_model s);
          m0 = \<lparr>Aex = MatrixXd_Zero (DIM_X * N) DIM_X,
                Bex_mat = MatrixXd_Zero (DIM_X * N) (DIM_U * N),
                Wex = MatrixXd_Zero (DIM_X * N) 1,
                Cex = MatrixXd_Zero (DIM_Y * N) (DIM_X * N),
                Qex = MatrixXd_Zero (DIM_Y * N) (DIM_Y * N),
                R1ex = MatrixXd_Zero (DIM_U * N) (DIM_U * N),
                R2ex = MatrixXd_Zero (DIM_U * N) (DIM_U * N),
                Uref_ex = MatrixXd_Zero (DIM_U * N) 1\<rparr>;
          sign_vx = (if m_is_forward_shift s then 1 else - 1)
      in case for_loop
                (generateMPCMatrix_body env (m_param s) reference_trajectory DT N DIM_X DIM_U DIM_Y
                   sign_vx)
                [0..<N] (m_vehicle_model s, m0) of
           None \<Rightarrow> None
         | Some (vm, m1) \<Rightarrow>
             (case for_loop (lateral_jerk_body env (m_param s) reference_trajectory DT sign_vx)
                     [0..<nat (prediction_horizon (m_param s) - 1)] m1 of
                None \<Rightarrow> None
              | Some m2 \<Rightarrow>
                  Some (m2\<lparr>R1ex := addSteerWeightR s pred_dt (R1ex m2)\<rparr>,
                        s\<lparr>m_vehicle_model := vm\<rparr>)))"

subsection \<open>\<open>calcDesiredSteeringRate\<close>, \<open>calculatePredictedTrajectory\<close>, \<open>generateDiagData\<close>\<close>

definition calcDesiredSteeringRate ::
  "('sp, 'lpf, 'qs) MPC \<Rightarrow> MPCMatrix \<Rightarrow> mat \<Rightarrow> mat \<Rightarrow> real \<Rightarrow> real \<Rightarrow> real \<Rightarrow> real" where
  "calcDesiredSteeringRate s mpc_matrix x0 Uex u_filtered current_steer predict_dt =
     (if modelName (m_vehicle_model s) \<noteq> ''kinematics''
      then (u_filtered - current_steer) / predict_dt
      else
        let Xex = mat_add (mat_add (mat_mul (Aex mpc_matrix) x0) (mat_mul (Bex_mat mpc_matrix) Uex))
                    (Wex mpc_matrix);
            STEER_IDX = 2;
            steer_0 = elems x0 STEER_IDX 0;
            steer_1 = elems Xex STEER_IDX 0
        in (steer_1 - steer_0) / predict_dt)"

definition calculatePredictedTrajectory ::
  "('sp, 'lpf, 'qs) env \<Rightarrow> ('sp, 'lpf, 'qs) MPC \<Rightarrow> MPCMatrix \<Rightarrow> mat \<Rightarrow> mat \<Rightarrow> MPCTrajectory \<Rightarrow> real
     \<Rightarrow> Trajectory \<times> ('sp, 'lpf, 'qs) MPC" where
  "calculatePredictedTrajectory env s mpc_matrix x0 Uex reference_trajectory dt =
     (let predicted_mpc_trajectory =
            calculatePredictedTrajectoryInWorldCoordinate env (m_vehicle_model s) (Aex mpc_matrix)
              (Bex_mat mpc_matrix) (Cex mpc_matrix) (Wex mpc_matrix) x0 Uex reference_trajectory dt;
          predicted_length = calcMPCTrajectoryArcLength env reference_trajectory;
          clipped_trajectory = clipTrajectoryByLength env predicted_mpc_trajectory predicted_length;
          predicted = convertToAutowareTrajectory env clipped_trajectory
      in if m_debug_publish_predicted_trajectory s
         then
           let frenet =
                 calculatePredictedTrajectoryInFrenetCoordinate env (m_vehicle_model s)
                   (Aex mpc_matrix) (Bex_mat mpc_matrix) (Cex mpc_matrix) (Wex mpc_matrix) x0 Uex
                   reference_trajectory dt;
               frenet_clipped =
                 convertToAutowareTrajectory env (clipTrajectoryByLength env frenet predicted_length)
           in (predicted, s\<lparr>published_frenet := published_frenet s @ [frenet_clipped]\<rparr>)
         else (predicted, s))"

definition generateDiagData ::
  "('sp, 'lpf, 'qs) env \<Rightarrow> ('sp, 'lpf, 'qs) MPC \<Rightarrow> MPCTrajectory \<Rightarrow> MPCData \<Rightarrow> MPCData \<Rightarrow> MPCMatrix
     \<Rightarrow> AckermannLateralCommand \<Rightarrow> mat \<Rightarrow> Odometry \<Rightarrow> real list option" where
  "generateDiagData env s reference_trajectory mpc_data_traj_raw mpc_data mpc_matrix ctrl_cmd Uex
       current_kinematics =
     (case vector_at (traj_k reference_trajectory) (nearest_idx mpc_data) of
        None \<Rightarrow> None
      | Some nearest_k \<Rightarrow>
     (case vector_at (smooth_k reference_trajectory) (nearest_idx mpc_data) of
        None \<Rightarrow> None
      | Some nearest_smooth_k \<Rightarrow>
     (case vector_at (vx reference_trajectory) (nearest_idx mpc_data) of
        None \<Rightarrow> None
      | Some nearest_vx \<Rightarrow>
          let wb = wheelbase (m_vehicle_model s);
              current_velocity = twist_linear_x current_kinematics;
              wz_predicted = current_velocity * tan (predicted_steer mpc_data) / wb;
              wz_measured = current_velocity * tan (steer mpc_data) / wb;
              wz_command = current_velocity * tan (cmd_steering_tire_angle ctrl_cmd) / wb;
              iteration_num = getTakenIter env (m_qpsolver s);
              runtime = getRunTime env (m_qpsolver s);
              objective_value = getObjVal env (m_qpsolver s)
          in Some
               [cmd_steering_tire_angle ctrl_cmd,
                elems Uex 0 0,
                elems (Uref_ex mpc_matrix) 0 0,
                arctan (nearest_smooth_k * wb),
                steer mpc_data,
                lateral_err mpc_data,
                getYaw env (pose current_kinematics),
                getYaw env (nearest_pose mpc_data),
                yaw_err mpc_data,
                nearest_vx,
                current_velocity,
                wz_command,
                wz_measured,
                current_velocity * nearest_smooth_k,
                nearest_smooth_k,
                nearest_k,
                predicted_steer mpc_data,
                wz_predicted,
                real_of_int iteration_num,
                runtime,
                objective_value,
                std_clamp (elems Uex 0 0) (- m_steer_lim s) (m_steer_lim s),
                lateral_err mpc_data_traj_raw])))"

subsection \<open>\<open>calculateMPC\<close>\<close>

text \<open>
  One control cycle.  The result is the boolean the function returns, the members
  afterwards, and the three output arguments; \<open>None\<close> is an exception leaving the
  function.
\<close>

definition calculateMPC ::
  "('sp, 'lpf, 'qs) env \<Rightarrow> ('sp, 'lpf, 'qs) MPC \<Rightarrow> SteeringReport \<Rightarrow> Odometry
     \<Rightarrow> AckermannLateralCommand \<Rightarrow> Trajectory \<Rightarrow> real list
     \<Rightarrow> (bool \<times> ('sp, 'lpf, 'qs) MPC \<times> AckermannLateralCommand \<times> Trajectory \<times> real list) option"
  where
  "calculateMPC env s current_steer current_kinematics ctrl_cmd predicted_trajectory diagnostic =
     (let reference_trajectory =
            applyVelocityDynamicsFilter env s (m_reference_trajectory s) current_kinematics;
          ((success_data, mpc_data), s1) =
            getData env s reference_trajectory current_steer current_kinematics
      in if \<not> success_data then Some (False, s1, ctrl_cmd, predicted_trajectory, diagnostic)
         else
      let (x0, s2) = getInitialState env s1 mpc_data;
          ((success_delay, x0_delayed), s3) =
            updateStateForDelayCompensation env s2 reference_trajectory (nearest_time mpc_data) x0
      in if \<not> success_delay then Some (False, s3, ctrl_cmd, predicted_trajectory, diagnostic)
         else
      let mpc_start_time = nearest_time mpc_data + input_delay (m_param s3);
          pred_dt =
            getPredictionDeltaTime env s3 mpc_start_time reference_trajectory current_kinematics;
          (success_resample, mpc_resampled_ref_trajectory) =
            resampleMPCTrajectoryByTime env s3 mpc_start_time pred_dt reference_trajectory
      in if \<not> success_resample then Some (False, s3, ctrl_cmd, predicted_trajectory, diagnostic)
         else
      let ((success_data_for_diagnostic, mpc_data_for_diagnostic), s4) =
            getData env s3 mpc_resampled_ref_trajectory current_steer current_kinematics
      in if \<not> success_data_for_diagnostic
         then Some (False, s4, ctrl_cmd, predicted_trajectory, diagnostic)
         else
      let ((success_data_traj_raw, mpc_data_traj_raw), s5) =
            getData env s4 (mpc_traj_raw s4) current_steer current_kinematics
      in if \<not> success_data_traj_raw
         then Some (False, s5, ctrl_cmd, predicted_trajectory, diagnostic)
         else
      (case generateMPCMatrix env s5 mpc_resampled_ref_trajectory pred_dt of
         None \<Rightarrow> None
       | Some (mpc_matrix, s6) \<Rightarrow>
      let ((success_opt, Uex), s7) =
            executeOptimization env s6 mpc_matrix x0_delayed pred_dt mpc_resampled_ref_trajectory
              (twist_linear_x current_kinematics)
      in if \<not> success_opt then Some (False, s7, ctrl_cmd, predicted_trajectory, diagnostic)
         else
      let u_saturated = std_clamp (elems Uex 0 0) (- m_steer_lim s7) (m_steer_lim s7);
          (u_filtered, lpf) = lpf_filter env (m_lpf_steering_cmd s7) u_saturated;
          s8 = s7\<lparr>m_lpf_steering_cmd := lpf\<rparr>;
          ctrl_cmd1 = ctrl_cmd\<lparr>cmd_steering_tire_angle := u_filtered\<rparr>;
          ctrl_cmd2 = ctrl_cmd1
            \<lparr>cmd_steering_tire_rotation_rate :=
               calcDesiredSteeringRate s8 mpc_matrix x0_delayed Uex u_filtered
                 (steering_tire_angle current_steer) pred_dt\<rparr>;
          s9 = s8\<lparr>m_steering_predictor := storeSteerCmd env (m_steering_predictor s8) u_filtered\<rparr>;
          s10 = s9\<lparr>m_input_buffer := m_input_buffer s9 @ [cmd_steering_tire_angle ctrl_cmd2]\<rparr>;
          s11 = s10\<lparr>m_input_buffer := tl (m_input_buffer s10)\<rparr>;
          s12 = s11\<lparr>m_raw_steer_cmd_pprev := m_raw_steer_cmd_prev s11\<rparr>;
          s13 = s12\<lparr>m_raw_steer_cmd_prev := elems Uex 0 0\<rparr>;
          (predicted, s14) =
            calculatePredictedTrajectory env s13 mpc_matrix x0 Uex mpc_resampled_ref_trajectory
              pred_dt
      in (case generateDiagData env s14 mpc_resampled_ref_trajectory mpc_data_traj_raw
                 mpc_data_for_diagnostic mpc_matrix ctrl_cmd2 Uex current_kinematics of
            None \<Rightarrow> None
          | Some diag \<Rightarrow> Some (True, s14, ctrl_cmd2, predicted, diag))))"

subsection \<open>Repeated control cycles\<close>

text \<open>
  Modelled from the spec: the caller of \<open>calculateMPC\<close>, whose code is outside
  \<open>mpc.cpp\<close>.  "Single-threaded, synchronous, one control cycle triggered per timer
  tick (no overlap, no reentrancy)"; the members persist from one call to the next.
  \<open>run_cycles\<close> is that sequence of calls on the steering reports and odometries of
  the ticks, with the booleans returned; the output arguments of a call are fresh
  messages.
\<close>

fun run_cycles ::
  "('sp, 'lpf, 'qs) env \<Rightarrow> ('sp, 'lpf, 'qs) MPC \<Rightarrow> (SteeringReport \<times> Odometry) list
     \<Rightarrow> (bool list \<times> ('sp, 'lpf, 'qs) MPC) option" where
  "run_cycles env s [] = Some ([], s)"
| "run_cycles env s ((current_steer, current_kinematics) # rest) =
     (case calculateMPC env s current_steer current_kinematics
             \<lparr>cmd_steering_tire_angle = 0, cmd_steering_tire_rotation_rate = 0\<rparr> [] [] of
        None \<Rightarrow> None
      | Some (ok, s', ctrl_cmd, predicted, diag) \<Rightarrow>
          (case run_cycles env s' rest of
             None \<Rightarrow> None
           | Some (oks, s'') \<Rightarrow> Some (ok # oks, s'')))"

subsection \<open>The members that are the command history\<close>

text \<open>
  The members that only the command synthesis at the end of a cycle writes (the delay
  buffer, the two previous raw commands, the filter of the steering command) and the
  steering limit.
\<close>

definition kept :: "('sp, 'lpf, 'qs) MPC \<Rightarrow> real list \<times> real \<times> real \<times> real \<times> 'lpf" where
  "kept s =
     (m_input_buffer s, m_raw_steer_cmd_prev s, m_raw_steer_cmd_pprev s, m_steer_lim s,
      m_lpf_steering_cmd s)"

text \<open>The boolean a cycle returns and the steering angle in the command afterwards.\<close>

definition cycle_angle ::
  "(bool \<times> ('sp, 'lpf, 'qs) MPC \<times> AckermannLateralCommand \<times> Trajectory \<times> real list) option
     \<Rightarrow> (bool \<times> real) option" where
  "cycle_angle r =
     (case r of
        None \<Rightarrow> None
      | Some (ok, s, ctrl_cmd, predicted, diag) \<Rightarrow> Some (ok, cmd_steering_tire_angle ctrl_cmd))"

subsection \<open>The cost matrix the specification describes\<close>

text \<open>
  Following the specification's words, not the code: the quadratic cost
  \<open>H = Bex' Cex' Qex Cex Bex + R1ex + R2ex\<close> of the MPC matrices of the cycle.
\<close>

definition spec_H :: "MPCMatrix \<Rightarrow> mat" where
  "spec_H m =
     (let CB = mat_mul (Cex m) (Bex_mat m);
          QCB = mat_mul (Qex m) CB
      in mat_add (mat_add (mat_mul (transpose_mat CB) QCB) (R1ex m)) (R2ex m))"

subsection \<open>An instance of the collaborators, for concrete runs\<close>

text \<open>
  A small, executable instance used to run the functions on concrete inputs: a
  two-state kinematic error model without steering delay (small-angle form, so that
  every coefficient is rational), piecewise linear interpolation, a second-order
  low-pass section in direct form (the bilinear transform of
  \<open>w\<^sup>2 / (s\<^sup>2 + 1.4 w s + w\<^sup>2)\<close> at \<open>w = 2 / dt\<close>, unit gain at rest), and a solver
  that always answers with the same result and vector.  The state of the filter is
  its last two inputs and last two outputs.
\<close>

fun ex_lerp :: "real list \<Rightarrow> real list \<Rightarrow> real \<Rightarrow> real option" where
  "ex_lerp (k0 # k1 # ks) (v0 # v1 # vs) q =
     (if q < k0 then None
      else if q \<le> k1 then Some (v0 + (v1 - v0) * (q - k0) / (k1 - k0))
      else ex_lerp (k1 # ks) (v1 # vs) q)"
| "ex_lerp ks vs q = None"

definition ex_resample :: "real list \<Rightarrow> real list \<Rightarrow> real list \<Rightarrow> real list" where
  "ex_resample keys vals query = map (\<lambda>t. case ex_lerp keys vals t of None \<Rightarrow> 0 | Some v \<Rightarrow> v) query"

definition ex_linearInterpMPCTrajectory ::
  "real list \<Rightarrow> MPCTrajectory \<Rightarrow> real list \<Rightarrow> MPCTrajectory option" where
  "ex_linearInterpMPCTrajectory keys input query =
     (if list_ex (\<lambda>t. ex_lerp keys keys t = None) query then None
      else Some
        \<lparr>traj_x = ex_resample keys (traj_x input) query,
         traj_y = ex_resample keys (traj_y input) query,
         traj_z = ex_resample keys (traj_z input) query,
         yaw = ex_resample keys (yaw input) query,
         vx = ex_resample keys (vx input) query,
         traj_k = ex_resample keys (traj_k input) query,
         smooth_k = ex_resample keys (smooth_k input) query,
         relative_time = query\<rparr>)"

definition ex_calculateDiscreteMatrix :: "VehicleModel \<Rightarrow> real \<Rightarrow> mat \<times> mat \<times> mat \<times> mat" where
  "ex_calculateDiscreteMatrix vm dt =
     (comma_init 2 2 [1, velocity vm * dt, 0, 1],
      comma_init 2 1 [0, velocity vm / wheelbase vm * dt],
      comma_init 2 2 [1, 0, 0, 1],
      comma_init 2 1 [0, - velocity vm * curvature vm * dt])"

definition ex_filter :: "real \<times> real \<times> real \<times> real \<Rightarrow> real \<Rightarrow> real \<times> (real \<times> real \<times> real \<times> real)" where
  "ex_filter st u0 =
     (case st of (u1, u2, y1, y2) \<Rightarrow>
        let y0 = (1 * u2 + 2 * u1 + 1 * u0 - (3 / 5) * y2 - 0 * y1) / (17 / 5)
        in (y0, (u0, u1, y0, y1)))"

definition ex_point :: "real \<Rightarrow> real \<Rightarrow> real \<Rightarrow> TrajectoryPoint" where
  "ex_point px py v =
     \<lparr>point_pose = Pose_default\<lparr>position_x := px, position_y := py\<rparr>,
      longitudinal_velocity_mps = v\<rparr>"

definition ex_env :: "bool \<Rightarrow> real \<Rightarrow> (unit, real \<times> real \<times> real \<times> real, unit) env" where
  "ex_env solver_ok u_solver =
     \<lparr>calcNearestPoseInterp =
        (\<lambda>t p d_thr y_thr.
           if relative_time t = [] then None
           else Some (Pose_default\<lparr>position_x := hd (traj_x t), position_y := hd (traj_y t)\<rparr>, 0,
                      hd (relative_time t))),
      calcLateralError = (\<lambda>p q. position_y p - position_y q),
      getYaw = (\<lambda>p. 0),
      normalizeRadian = (\<lambda>a. a),
      calcDistance2d_pose =
        (\<lambda>p q. \<bar>position_x p - position_x q\<bar> + \<bar>position_y p - position_y q\<bar>),
      calcSteerPrediction = (\<lambda>sp. (0, sp)),
      storeSteerCmd = (\<lambda>sp u. sp),
      lpf_filter = ex_filter,
      lerp = ex_lerp,
      calculateDiscreteMatrix = ex_calculateDiscreteMatrix,
      calculateReferenceInput = (\<lambda>vm. VectorXd_of [wheelbase vm * curvature vm]),
      getWeight =
        (\<lambda>p c. if \<bar>c\<bar> < low_curvature_thresh_curvature p then low_curvature_weight p
                else nominal_weight p),
      qp_solve = (\<lambda>qs H f A lb ub lbA ubA. (solver_ok, [Some u_solver, Some 0, Some 0], qs)),
      getTakenIter = (\<lambda>qs. 1),
      getRunTime = (\<lambda>qs. 0),
      getObjVal = (\<lambda>qs. 0),
      convertToAutowareTrajectory =
        (\<lambda>t. map (\<lambda>(px, py, v). ex_point px py v) (zip (traj_x t) (zip (traj_y t) (vx t)))),
      findFirstNearestSegmentIndexWithSoftConstraints = (\<lambda>t p d_thr y_thr. 0),
      findFirstNearestIndexWithSoftConstraints = (\<lambda>t p d_thr y_thr. 0),
      dynamicSmoothingVelocity = (\<lambda>idx v a tau t. t),
      linearInterpMPCTrajectory = ex_linearInterpMPCTrajectory,
      calcDistance2d =
        (\<lambda>t i j. \<bar>traj_x t ! i - traj_x t ! j\<bar> + \<bar>traj_y t ! i - traj_y t ! j\<bar>),
      calculatePredictedTrajectoryInWorldCoordinate = (\<lambda>vm A B C W x0 U t dt. t),
      calculatePredictedTrajectoryInFrenetCoordinate = (\<lambda>vm A B C W x0 U t dt. t),
      calcMPCTrajectoryArcLength = (\<lambda>t. 0),
      clipTrajectoryByLength = (\<lambda>t l. t)\<rparr>"

definition ex_traj :: MPCTrajectory where
  "ex_traj =
     \<lparr>traj_x = [0, 1, 2, 3], traj_y = [0, 0, 0, 0], traj_z = [0, 0, 0, 0], yaw = [0, 0, 0, 0],
      vx = [1, 1, 1, 1], traj_k = [0, 0, 0, 0], smooth_k = [0, 0, 0, 0],
      relative_time = [0, 1, 2, 3]\<rparr>"

definition ex_weight :: MPCWeight where
  "ex_weight =
     \<lparr>lat_error = 1, heading_error = 0, heading_error_squared_vel = 3 / 10,
      terminal_lat_error = 1, terminal_heading_error = 1 / 10, steering_input = 1,
      steering_input_squared_vel = 1 / 4, lat_jerk = 1 / 10, steer_rate = 0, steer_acc = 0\<rparr>"

definition ex_param :: MPCParam where
  "ex_param =
     \<lparr>prediction_horizon = 3, prediction_dt = 1, zero_ff_steer_deg = 1 / 2, input_delay = 0,
      acceleration_limit = 2, velocity_time_constant = 3 / 10, min_prediction_length = 3 / 2,
      nominal_weight = ex_weight, low_curvature_weight = ex_weight,
      low_curvature_thresh_curvature = 0\<rparr>"

definition ex_vehicle_model :: VehicleModel where
  "ex_vehicle_model =
     \<lparr>dim_x = 2, dim_u = 1, dim_y = 2, velocity = 1, curvature = 0, wheelbase = 2,
      modelName = ''kinematics_no_delay''\<rparr>"

definition ex_mpc ::
  "MPCTrajectory \<Rightarrow> real list \<Rightarrow> real \<times> real \<times> real \<times> real \<Rightarrow> real \<Rightarrow> real
     \<Rightarrow> (unit, real \<times> real \<times> real \<times> real, unit) MPC" where
  "ex_mpc reference buffer lpf prev pprev =
     \<lparr>m_reference_trajectory = reference, mpc_traj_raw = ex_traj, m_input_buffer = buffer,
      m_raw_steer_cmd_prev = prev, m_raw_steer_cmd_pprev = pprev, m_lateral_error_prev = 0,
      m_yaw_error_prev = 0, m_lpf_steering_cmd = lpf, m_lpf_lateral_error = (0, 0, 0, 0),
      m_lpf_yaw_error = (0, 0, 0, 0), m_vehicle_model = ex_vehicle_model,
      m_steering_predictor = (), m_qpsolver = (), m_is_forward_shift = True,
      m_use_steer_prediction = False, m_param = ex_param, m_steer_lim = 1, m_ctrl_period = 1 / 2,
      m_admissible_position_error = 5, m_admissible_yaw_error_rad = 3 / 2,
      ego_nearest_dist_threshold = 3, ego_nearest_yaw_threshold = 1,
      m_debug_publish_predicted_trajectory = False, published_frenet = []\<rparr>"

definition ex_steer :: SteeringReport where
  "ex_steer = \<lparr>steering_tire_angle = 0\<rparr>"

definition ex_odom :: Odometry where
  "ex_odom = \<lparr>pose = Pose_default, twist_linear_x = 1\<rparr>"

definition ex_cmd :: AckermannLateralCommand where
  "ex_cmd = \<lparr>cmd_steering_tire_angle = 0, cmd_steering_tire_rotation_rate = 0\<rparr>"

text \<open>
  The reference of \<open>ex_traj\<close> after \<open>applyVelocityDynamicsFilter\<close>, and resampled at the
  three horizon times; the latter with a smoothed curvature that is not zero; an
  odometry ten metres beside the path.
\<close>

definition ex_reference :: MPCTrajectory where
  "ex_reference =
     \<lparr>traj_x = [0, 1, 2, 3, 3], traj_y = [0, 0, 0, 0, 0], traj_z = [0, 0, 0, 0, 0],
      yaw = [0, 0, 0, 0, 0], vx = [1, 1, 1, 1, 0], traj_k = [0, 0, 0, 0, 0],
      smooth_k = [0, 0, 0, 0, 0], relative_time = [0, 1, 2, 3, 103]\<rparr>"

definition ex_resampled :: MPCTrajectory where
  "ex_resampled =
     \<lparr>traj_x = [0, 1, 2], traj_y = [0, 0, 0], traj_z = [0, 0, 0], yaw = [0, 0, 0],
      vx = [1, 1, 1], traj_k = [0, 0, 0], smooth_k = [0, 0, 0], relative_time = [0, 1, 2]\<rparr>"

definition ex_curved :: MPCTrajectory where
  "ex_curved = ex_resampled\<lparr>smooth_k := [1 / 1000, 1 / 100, 0]\<rparr>"

text \<open>
  A slow and short reference: 0.2 m in 2 s at 0.1 m/s, shorter than the minimum
  prediction length 1.5 m of \<open>ex_param\<close>.
\<close>

definition ex_short :: MPCTrajectory where
  "ex_short =
     \<lparr>traj_x = [0, 1 / 10, 1 / 5], traj_y = [0, 0, 0], traj_z = [0, 0, 0], yaw = [0, 0, 0],
      vx = [1 / 10, 1 / 10, 1 / 10], traj_k = [0, 0, 0], smooth_k = [0, 0, 0],
      relative_time = [0, 1, 2]\<rparr>"

definition ex_odom_far :: Odometry where
  "ex_odom_far = \<lparr>pose = Pose_default\<lparr>position_y := 10\<rparr>, twist_linear_x = 1\<rparr>"

text \<open>MPC matrices whose coefficients are all zero, for 50 steps of the two-state model.\<close>

definition zero_MPCMatrix :: MPCMatrix where
  "zero_MPCMatrix =
     \<lparr>Aex = MatrixXd_Zero 100 2, Bex_mat = MatrixXd_Zero 100 50, Wex = MatrixXd_Zero 100 1,
      Cex = MatrixXd_Zero 100 100, Qex = MatrixXd_Zero 100 100, R1ex = MatrixXd_Zero 50 50,
      R2ex = MatrixXd_Zero 50 50, Uref_ex = MatrixXd_Zero 50 1\<rparr>"

subsection \<open>Names for what \<open>generateMPCMatrix\<close> computes at a horizon step\<close>

text \<open>
  The vehicle model keeps no state but its velocity and curvature, which the loop
  sets at every step before it asks for the matrices; so the discrete matrices
  \<open>(Ad, Bd, Cd, Wd)\<close> of step \<open>i\<close> and its reference input are those of the model as
  it is before the call, with the velocity and the curvature of step \<open>i\<close>.
\<close>

definition step_model ::
  "('sp, 'lpf, 'qs) env \<Rightarrow> ('sp, 'lpf, 'qs) MPC \<Rightarrow> MPCTrajectory \<Rightarrow> real \<Rightarrow> nat
     \<Rightarrow> mat \<times> mat \<times> mat \<times> mat" where
  "step_model env s reference_trajectory DT i =
     calculateDiscreteMatrix env
       ((m_vehicle_model s)
          \<lparr>velocity := vx reference_trajectory ! i,
           curvature := traj_k reference_trajectory ! i * (if m_is_forward_shift s then 1 else - 1)\<rparr>)
       DT"

definition step_reference_input ::
  "('sp, 'lpf, 'qs) env \<Rightarrow> ('sp, 'lpf, 'qs) MPC \<Rightarrow> MPCTrajectory \<Rightarrow> nat \<Rightarrow> mat" where
  "step_reference_input env s reference_trajectory i =
     calculateReferenceInput env
       ((m_vehicle_model s)
          \<lparr>velocity := vx reference_trajectory ! i,
           curvature :=
             smooth_k reference_trajectory ! i * (if m_is_forward_shift s then 1 else - 1)\<rparr>)"

text \<open>Two matrices with the same coefficients in the first \<open>h\<close> rows and \<open>w\<close> columns.\<close>

definition coeffs_eq :: "nat \<Rightarrow> nat \<Rightarrow> mat \<Rightarrow> mat \<Rightarrow> bool" where
  "coeffs_eq h w a b = (\<forall>i < h. \<forall>j < w. elems a i j = elems b i j)"

section \<open>Properties\<close>

subsection \<open>The instance of the collaborators, field by field\<close>

lemma ex_env_sel [simp]:
  "calcNearestPoseInterp (ex_env ok u) = (\<lambda>t p d_thr y_thr.
           if relative_time t = [] then None
           else Some (Pose_default\<lparr>position_x := hd (traj_x t), position_y := hd (traj_y t)\<rparr>, 0,
                      hd (relative_time t)))"
  "calcLateralError (ex_env ok u) = (\<lambda>p q. position_y p - position_y q)"
  "getYaw (ex_env ok u) = (\<lambda>p. 0)"
  "normalizeRadian (ex_env ok u) = (\<lambda>a. a)"
  "calcDistance2d_pose (ex_env ok u) = (\<lambda>p q. \<bar>position_x p - position_x q\<bar> + \<bar>position_y p - position_y q\<bar>)"
  "calcSteerPrediction (ex_env ok u) = (\<lambda>sp. (0, sp))"
  "storeSteerCmd (ex_env ok u) = (\<lambda>sp u. sp)"
  "lpf_filter (ex_env ok u) = ex_filter"
  "lerp (ex_env ok u) = ex_lerp"
  "calculateDiscreteMatrix (ex_env ok u) = ex_calculateDiscreteMatrix"
  "calculateReferenceInput (ex_env ok u) = (\<lambda>vm. VectorXd_of [wheelbase vm * curvature vm])"
  "getWeight (ex_env ok u) = (\<lambda>p c. if \<bar>c\<bar> < low_curvature_thresh_curvature p then low_curvature_weight p
                else nominal_weight p)"
  "qp_solve (ex_env ok u) = (\<lambda>qs H f A lb ub lbA ubA. (ok, [Some u, Some 0, Some 0], qs))"
  "getTakenIter (ex_env ok u) = (\<lambda>qs. 1)"
  "getRunTime (ex_env ok u) = (\<lambda>qs. 0)"
  "getObjVal (ex_env ok u) = (\<lambda>qs. 0)"
  "convertToAutowareTrajectory (ex_env ok u) = (\<lambda>t. map (\<lambda>(px, py, v). ex_point px py v) (zip (traj_x t) (zip (traj_y t) (vx t))))"
  "findFirstNearestSegmentIndexWithSoftConstraints (ex_env ok u) = (\<lambda>t p d_thr y_thr. 0)"
  "findFirstNearestIndexWithSoftConstraints (ex_env ok u) = (\<lambda>t p d_thr y_thr. 0)"
  "dynamicSmoothingVelocity (ex_env ok u) = (\<lambda>idx v a tau t. t)"
  "linearInterpMPCTrajectory (ex_env ok u) = ex_linearInterpMPCTrajectory"
  "calcDistance2d (ex_env ok u) = (\<lambda>t i j. \<bar>traj_x t ! i - traj_x t ! j\<bar> + \<bar>traj_y t ! i - traj_y t ! j\<bar>)"
  "calculatePredictedTrajectoryInWorldCoordinate (ex_env ok u) = (\<lambda>vm A B C W x0 U t dt. t)"
  "calculatePredictedTrajectoryInFrenetCoordinate (ex_env ok u) = (\<lambda>vm A B C W x0 U t dt. t)"
  "calcMPCTrajectoryArcLength (ex_env ok u) = (\<lambda>t. 0)"
  "clipTrajectoryByLength (ex_env ok u) = (\<lambda>t l. t)"
  by (simp_all add: ex_env_def)

lemma ex_mpc_sel [simp]:
  "m_reference_trajectory (ex_mpc r b l p1 p2) = r"
  "mpc_traj_raw (ex_mpc r b l p1 p2) = ex_traj"
  "m_input_buffer (ex_mpc r b l p1 p2) = b"
  "m_raw_steer_cmd_prev (ex_mpc r b l p1 p2) = p1"
  "m_raw_steer_cmd_pprev (ex_mpc r b l p1 p2) = p2"
  "m_lateral_error_prev (ex_mpc r b l p1 p2) = 0"
  "m_yaw_error_prev (ex_mpc r b l p1 p2) = 0"
  "m_lpf_steering_cmd (ex_mpc r b l p1 p2) = l"
  "m_lpf_lateral_error (ex_mpc r b l p1 p2) = (0, 0, 0, 0)"
  "m_lpf_yaw_error (ex_mpc r b l p1 p2) = (0, 0, 0, 0)"
  "m_vehicle_model (ex_mpc r b l p1 p2) = ex_vehicle_model"
  "m_steering_predictor (ex_mpc r b l p1 p2) = ()"
  "m_qpsolver (ex_mpc r b l p1 p2) = ()"
  "m_is_forward_shift (ex_mpc r b l p1 p2) = True"
  "m_use_steer_prediction (ex_mpc r b l p1 p2) = False"
  "m_param (ex_mpc r b l p1 p2) = ex_param"
  "m_steer_lim (ex_mpc r b l p1 p2) = 1"
  "m_ctrl_period (ex_mpc r b l p1 p2) = 1 / 2"
  "m_admissible_position_error (ex_mpc r b l p1 p2) = 5"
  "m_admissible_yaw_error_rad (ex_mpc r b l p1 p2) = 3 / 2"
  "ego_nearest_dist_threshold (ex_mpc r b l p1 p2) = 3"
  "ego_nearest_yaw_threshold (ex_mpc r b l p1 p2) = 1"
  "m_debug_publish_predicted_trajectory (ex_mpc r b l p1 p2) = False"
  "published_frenet (ex_mpc r b l p1 p2) = []"
  by (simp_all add: ex_mpc_def)

subsection \<open>\<open>executeOptimization\<close>: the problem handed to the solver\<close>

lemma H_coeffs_first: "H_coeffs ! 0 = 2.40456"
  by (simp add: H_coeffs_def H_row_0_def)

lemma H_coeffs_not_empty: "H_coeffs \<noteq> []"
  by (simp add: H_coeffs_def H_row_0_def)

text \<open>
  Claim C1.  The claim: the quadratic cost handed to the solver is
  \<open>Bex' Cex' Qex Cex Bex + R1ex + R2ex\<close> of the cycle's MPC matrices, and the bounds are
  the steering limits of the configuration.  The code does not do this.  Whatever the
  MPC matrices \<open>m\<close> and the other arguments are, the coefficient \<open>(0, 0)\<close> of the cost
  matrix handed to the solver is the literal \<open>2.40456\<close> and the first lower bound is
  the literal \<open>-0.7\<close>; for the MPC matrices that are all zero, the cost of the
  specification has \<open>0\<close> at \<open>(0, 0)\<close>.
\<close>

theorem executeOptimization_cost_is_a_literal:
  "elems (qp_H (executeOptimization_problem m x0 dt traj v)) 0 0 = 2.40456
   \<and> elems (qp_lb (executeOptimization_problem m x0 dt traj v)) 0 0 = - 0.7
   \<and> elems (spec_H zero_MPCMatrix) 0 0 = 0"
  by (simp add: executeOptimization_problem_def comma_init_def H_coeffs_first H_coeffs_not_empty
      lb_coeffs_def spec_H_def zero_MPCMatrix_def mat_mul_def mat_add_def transpose_mat_def
      MatrixXd_Zero_def)

text \<open>
  Claim C10.  For any two invocations of \<open>executeOptimization\<close>, with arbitrary and
  possibly different MPC matrices, initial states, prediction step sizes, resampled
  trajectories and current velocities, the QP problem handed to the solver is the
  same constant data, and so (for the same solver, in the same state) the function
  returns the same result: it does not depend on any of its five arguments.
\<close>

theorem executeOptimization_ignores_its_arguments:
  "executeOptimization_problem m x0 dt traj v = executeOptimization_problem m' x0' dt' traj' v'
   \<and> executeOptimization env s m x0 dt traj v = executeOptimization env s m' x0' dt' traj' v'"
  by (simp add: executeOptimization_def executeOptimization_problem_def)

subsection \<open>\<open>updateStateForDelayCompensation\<close>\<close>

text \<open>
  Claim C9.  For every initial state vector and every trajectory, when the input
  history buffer is empty, delay compensation succeeds and returns the initial state
  unchanged; no member of the controller changes either.
\<close>

theorem delay_compensation_empty_buffer_is_identity:
  "m_input_buffer s = [] \<Longrightarrow>
   updateStateForDelayCompensation env s traj start_time x0 = ((True, x0), s)"
  by (simp add: updateStateForDelayCompensation_def)

theorem delay_compensation_empty_buffer_is_identity_witness:
  "m_input_buffer (ex_mpc ex_traj [] (0, 0, 0, 0) 0 0) = []
   \<and> updateStateForDelayCompensation (ex_env True 5) (ex_mpc ex_traj [] (0, 0, 0, 0) 0 0) ex_traj 0
       (VectorXd_of [1, 2])
     = ((True, VectorXd_of [1, 2]), ex_mpc ex_traj [] (0, 0, 0, 0) 0 0)"
  using delay_compensation_empty_buffer_is_identity
    [of "ex_mpc ex_traj [] (0, 0, 0, 0) 0 0" "ex_env True 5" ex_traj 0 "VectorXd_of [1, 2]"]
  by simp

subsection \<open>Loops that may throw\<close>

lemma for_loop_append:
  "for_loop body (xs @ ys) a =
     (case for_loop body xs a of None \<Rightarrow> None | Some a' \<Rightarrow> for_loop body ys a')"
  by (induction xs arbitrary: a) (auto split: option.splits)

lemma generateMPCMatrix_body_total:
  assumes "i < length (vx t)" "i < length (traj_k t)" "i < length (smooth_k t)"
  shows "\<exists>m'. generateMPCMatrix_body env param t DT N DX DU DY sg i (vm, m)
           = Some (vm\<lparr>velocity := vx t ! i, curvature := smooth_k t ! i * sg\<rparr>, m')"
  using assms
  by (simp add: generateMPCMatrix_body_def vector_at_def Let_def split: prod.splits)

lemma generateMPCMatrix_loop_total:
  assumes "n \<le> length (vx t)" "n \<le> length (traj_k t)" "n \<le> length (smooth_k t)"
  shows "\<exists>m'. for_loop (generateMPCMatrix_body env param t DT N DX DU DY sg) [0..<n] (vm, m)
           = Some (if n = 0 then vm
                   else vm\<lparr>velocity := vx t ! (n - 1), curvature := smooth_k t ! (n - 1) * sg\<rparr>, m')"
  using assms
proof (induction n)
  case 0
  then show ?case by simp
next
  case (Suc n)
  then obtain m1 where l1:
    "for_loop (generateMPCMatrix_body env param t DT N DX DU DY sg) [0..<n] (vm, m)
       = Some (if n = 0 then vm
               else vm\<lparr>velocity := vx t ! (n - 1), curvature := smooth_k t ! (n - 1) * sg\<rparr>, m1)"
    by auto
  obtain m2 where l2:
    "generateMPCMatrix_body env param t DT N DX DU DY sg n
        (if n = 0 then vm
         else vm\<lparr>velocity := vx t ! (n - 1), curvature := smooth_k t ! (n - 1) * sg\<rparr>, m1)
       = Some ((if n = 0 then vm
                else vm\<lparr>velocity := vx t ! (n - 1), curvature := smooth_k t ! (n - 1) * sg\<rparr>)
                 \<lparr>velocity := vx t ! n, curvature := smooth_k t ! n * sg\<rparr>, m2)"
    using generateMPCMatrix_body_total [of n t] Suc.prems by (metis Suc_le_lessD)
  show ?case
    by (simp add: for_loop_append l1 l2)
qed

lemma lateral_jerk_loop_total:
  assumes "n \<le> length (vx t)" "n \<le> length (traj_k t)"
  shows "\<exists>m'. for_loop (lateral_jerk_body env param t DT sg) [0..<n] m = Some m'"
  using assms
proof (induction n)
  case 0
  then show ?case by simp
next
  case (Suc n)
  then obtain m1 where l1: "for_loop (lateral_jerk_body env param t DT sg) [0..<n] m = Some m1"
    by auto
  have "\<exists>m2. lateral_jerk_body env param t DT sg n m1 = Some m2"
    using Suc.prems by (simp add: lateral_jerk_body_def vector_at_def Let_def)
  then show ?case
    by (auto simp add: for_loop_append l1)
qed

lemma generateMPCMatrix_total:
  assumes "nat (prediction_horizon (m_param s)) \<le> length (vx t)"
    "nat (prediction_horizon (m_param s)) \<le> length (traj_k t)"
    "nat (prediction_horizon (m_param s)) \<le> length (smooth_k t)"
  shows "\<exists>m. generateMPCMatrix env s t dt =
           Some (m, s\<lparr>m_vehicle_model :=
                       (if nat (prediction_horizon (m_param s)) = 0 then m_vehicle_model s
                        else (m_vehicle_model s)
                          \<lparr>velocity := vx t ! (nat (prediction_horizon (m_param s)) - 1),
                           curvature := smooth_k t ! (nat (prediction_horizon (m_param s)) - 1)
                              * (if m_is_forward_shift s then 1 else - 1)\<rparr>)\<rparr>)"
proof -
  let ?N = "nat (prediction_horizon (m_param s))"
  let ?sg = "if m_is_forward_shift s then 1 else - 1 :: real"
  let ?m0 = "\<lparr>Aex = MatrixXd_Zero (dim_x (m_vehicle_model s) * ?N) (dim_x (m_vehicle_model s)),
                Bex_mat = MatrixXd_Zero (dim_x (m_vehicle_model s) * ?N) (dim_u (m_vehicle_model s) * ?N),
                Wex = MatrixXd_Zero (dim_x (m_vehicle_model s) * ?N) 1,
                Cex = MatrixXd_Zero (dim_y (m_vehicle_model s) * ?N) (dim_x (m_vehicle_model s) * ?N),
                Qex = MatrixXd_Zero (dim_y (m_vehicle_model s) * ?N) (dim_y (m_vehicle_model s) * ?N),
                R1ex = MatrixXd_Zero (dim_u (m_vehicle_model s) * ?N) (dim_u (m_vehicle_model s) * ?N),
                R2ex = MatrixXd_Zero (dim_u (m_vehicle_model s) * ?N) (dim_u (m_vehicle_model s) * ?N),
                Uref_ex = MatrixXd_Zero (dim_u (m_vehicle_model s) * ?N) 1\<rparr>"
  obtain m1 where l1:
    "for_loop (generateMPCMatrix_body env (m_param s) t dt ?N (dim_x (m_vehicle_model s))
        (dim_u (m_vehicle_model s)) (dim_y (m_vehicle_model s)) ?sg) [0..<?N] (m_vehicle_model s, ?m0)
     = Some (if ?N = 0 then m_vehicle_model s
             else (m_vehicle_model s)\<lparr>velocity := vx t ! (?N - 1),
                     curvature := smooth_k t ! (?N - 1) * ?sg\<rparr>, m1)"
    using generateMPCMatrix_loop_total [OF assms] by blast
  have "nat (prediction_horizon (m_param s) - 1) \<le> length (vx t)"
    "nat (prediction_horizon (m_param s) - 1) \<le> length (traj_k t)"
    using assms by linarith+
  then obtain m2 where l2:
    "for_loop (lateral_jerk_body env (m_param s) t dt ?sg)
        [0..<nat (prediction_horizon (m_param s) - 1)] m1 = Some m2"
    using lateral_jerk_loop_total by blast
  show ?thesis
    unfolding generateMPCMatrix_def Let_def l1 by (simp add: l2)
qed

subsection \<open>What the stages of a cycle leave alone\<close>

lemma getData_kept: "getData env s t cs ck = (r, s') \<Longrightarrow> kept s' = kept s"
  by (auto simp add: getData_def Let_def kept_def split: option.splits prod.splits if_splits)

lemma getInitialState_kept: "getInitialState env s d = (r, s') \<Longrightarrow> kept s' = kept s"
  by (auto simp add: getInitialState_def Let_def kept_def split: prod.splits if_splits)

lemma updateStateForDelayCompensation_kept:
  "updateStateForDelayCompensation env s t st x = (r, s') \<Longrightarrow> kept s' = kept s"
  by (auto simp add: updateStateForDelayCompensation_def Let_def kept_def split: prod.splits)

lemma generateMPCMatrix_kept:
  "generateMPCMatrix env s t dt = Some (m, s') \<Longrightarrow> kept s' = kept s"
  by (auto simp add: generateMPCMatrix_def Let_def kept_def split: option.splits prod.splits)

lemma executeOptimization_kept:
  "executeOptimization env s m x0 dt t v = (r, s') \<Longrightarrow> kept s' = kept s"
  by (auto simp add: executeOptimization_def Let_def kept_def split: prod.splits if_splits)

lemma calculatePredictedTrajectory_kept:
  "calculatePredictedTrajectory env s m x0 u t dt = (r, s') \<Longrightarrow> kept s' = kept s"
  by (auto simp add: calculatePredictedTrajectory_def Let_def kept_def split: if_splits)

lemmas stage_kept = getData_kept getInitialState_kept updateStateForDelayCompensation_kept
  generateMPCMatrix_kept executeOptimization_kept

lemma calculateMPC_failure_kept:
  assumes "calculateMPC env s cs ck cmd pt dg = Some (False, s', cmd', pt', dg')"
  shows "kept s' = kept s"
  using assms unfolding calculateMPC_def Let_def
  by (auto split: prod.splits if_splits option.splits dest!: stage_kept)

lemma calculateMPC_success:
  assumes "calculateMPC env s cs ck cmd pt dg = Some (True, s', cmd', pt', dg')"
  shows "cmd_steering_tire_angle cmd' =
           fst (lpf_filter env (m_lpf_steering_cmd s)
                  (std_clamp (m_raw_steer_cmd_prev s') (- m_steer_lim s) (m_steer_lim s)))
         \<and> m_input_buffer s' = tl (m_input_buffer s @ [cmd_steering_tire_angle cmd'])
         \<and> m_raw_steer_cmd_pprev s' = m_raw_steer_cmd_prev s
         \<and> m_steer_lim s' = m_steer_lim s"
  using assms unfolding calculateMPC_def Let_def
  by (auto split: prod.splits if_splits option.splits dest!: stage_kept calculatePredictedTrajectory_kept
      simp: kept_def)

lemma std_clamp_range: "0 \<le> l \<Longrightarrow> - l \<le> std_clamp v (- l) l \<and> std_clamp v (- l) l \<le> l"
  by (simp add: std_clamp_def)

lemma calculateMPC_buffer_length:
  assumes "calculateMPC env s cs ck cmd pt dg = Some (ok, s', cmd', pt', dg')"
  shows "length (m_input_buffer s') = length (m_input_buffer s)"
proof (cases ok)
  case True
  then show ?thesis using calculateMPC_success [of env s cs ck cmd pt dg s' cmd' pt' dg'] assms
    by simp
next
  case False
  then show ?thesis using calculateMPC_failure_kept [of env s cs ck cmd pt dg s' cmd' pt' dg'] assms
    by (simp add: kept_def)
qed

lemma run_cycles_buffer_length:
  "run_cycles env s inputs = Some (oks, s') \<Longrightarrow>
     length (m_input_buffer s') = length (m_input_buffer s)"
proof (induction inputs arbitrary: s oks)
  case Nil
  then show ?case by simp
next
  case (Cons a inputs)
  obtain cs ck where a: "a = (cs, ck)" by (cases a)
  from Cons.prems obtain ok s1 c1 p1 d1 oks1 where
    c: "calculateMPC env s cs ck
          \<lparr>cmd_steering_tire_angle = 0, cmd_steering_tire_rotation_rate = 0\<rparr> [] []
        = Some (ok, s1, c1, p1, d1)"
    and r: "run_cycles env s1 inputs = Some (oks1, s')"
    by (auto simp add: a split: option.splits)
  show ?case
    using Cons.IH [OF r] calculateMPC_buffer_length [OF c] by simp
qed

subsection \<open>\<open>getData\<close> and \<open>getPredictionDeltaTime\<close>\<close>

lemma getData_fails_iff:
  "fst (fst (getData env s traj cs ck)) = False \<longleftrightarrow>
     (case calcNearestPoseInterp env traj (pose ck) (ego_nearest_dist_threshold s)
             (ego_nearest_yaw_threshold s) of
        None \<Rightarrow> True
      | Some (n_pose, n_idx, n_time) \<Rightarrow>
          calcDistance2d_pose env (pose ck) n_pose > m_admissible_position_error s
          \<or> \<bar>normalizeRadian env (getYaw env (pose ck) - getYaw env n_pose)\<bar>
               > m_admissible_yaw_error_rad s
          \<or> n_time + input_delay (m_param s) + m_ctrl_period s
               + min_prediction_length (m_param s) / real_of_int (prediction_horizon (m_param s) - 1)
               > last (relative_time traj))"
  by (simp add: getData_def Let_def split: option.splits prod.splits)

lemma calculateMPC_getData_failure:
  assumes "\<not> fst (fst (getData env s
              (applyVelocityDynamicsFilter env s (m_reference_trajectory s) ck) cs ck))"
  shows "calculateMPC env s cs ck cmd pt dg =
           Some (False,
             snd (getData env s (applyVelocityDynamicsFilter env s (m_reference_trajectory s) ck)
                    cs ck),
             cmd, pt, dg)"
proof -
  obtain ok d s1 where g:
    "getData env s (applyVelocityDynamicsFilter env s (m_reference_trajectory s) ck) cs ck
       = ((ok, d), s1)"
    by (metis prod.exhaust)
  with assms have "\<not> ok" by simp
  then show ?thesis by (simp add: calculateMPC_def Let_def g)
qed

lemma target_time_loop_no_crossing:
  assumes "\<And>l. i \<le> l \<Longrightarrow> l < length (relative_time input) \<Longrightarrow>
              \<not> min_len < sd + (\<Sum>n = i..l. calcDistance2d env input n (n - 1))"
  shows "target_time_loop env min_len input i sd = last (relative_time input) - 100"
  using assms
proof (induction env min_len input i sd rule: target_time_loop.induct)
  case (1 env min_len input i sd)
  show ?case
  proof (cases "i < length (relative_time input)")
    case False
    then show ?thesis by (simp add: target_time_loop.simps [of env min_len input i sd])
  next
    case True
    have nc: "\<not> min_len < sd + calcDistance2d env input i (i - 1)"
      using "1.prems" [of i] True by simp
    have rest: "\<And>l. i + 1 \<le> l \<Longrightarrow> l < length (relative_time input) \<Longrightarrow>
        \<not> min_len < (sd + calcDistance2d env input i (i - 1))
             + (\<Sum>n = i + 1..l. calcDistance2d env input n (n - 1))"
    proof -
      fix l assume l: "i + 1 \<le> l" "l < length (relative_time input)"
      have "(\<Sum>n = i..l. calcDistance2d env input n (n - 1))
          = calcDistance2d env input i (i - 1) + (\<Sum>n = i + 1..l. calcDistance2d env input n (n - 1))"
        using l by (simp add: sum.atLeast_Suc_atMost)
      then show "\<not> min_len < (sd + calcDistance2d env input i (i - 1))
             + (\<Sum>n = i + 1..l. calcDistance2d env input n (n - 1))"
        using "1.prems" [of l] l by simp
    qed
    have "target_time_loop env min_len input i sd
        = target_time_loop env min_len input (i + 1) (sd + calcDistance2d env input i (i - 1))"
      using True nc by (simp add: target_time_loop.simps [of env min_len input i sd] Let_def)
    also have "\<dots> = last (relative_time input) - 100"
      using "1.IH" [OF True refl refl nc] rest by simp
    finally show ?thesis .
  qed
qed

lemma target_time_loop_crossing:
  assumes "i \<le> j" "j < length (relative_time input)"
    and "\<And>l. i \<le> l \<Longrightarrow> l < j \<Longrightarrow>
              \<not> min_len < sd + (\<Sum>n = i..l. calcDistance2d env input n (n - 1))"
    and "min_len < sd + (\<Sum>n = i..j. calcDistance2d env input n (n - 1))"
  shows "target_time_loop env min_len input i sd =
           relative_time input ! (j - 1)
           + ((if j = length (relative_time input) - 1 then relative_time input ! j - 100
               else relative_time input ! j) - relative_time input ! (j - 1))
             * ((min_len - (sd + (\<Sum>n = i..j. calcDistance2d env input n (n - 1))
                              - calcDistance2d env input j (j - 1)))
                / calcDistance2d env input j (j - 1))"
  using assms
proof (induction env min_len input i sd rule: target_time_loop.induct)
  case (1 env min_len input i sd)
  have iL: "i < length (relative_time input)" using "1.prems"(1,2) by simp
  show ?case
  proof (cases "i = j")
    case True
    then have "min_len < sd + calcDistance2d env input i (i - 1)"
      using "1.prems"(4) by simp
    then show ?thesis
      using True iL by (simp add: target_time_loop.simps [of env min_len input i sd] Let_def)
  next
    case False
    then have ij: "i < j" using "1.prems"(1) by simp
    have nc: "\<not> min_len < sd + calcDistance2d env input i (i - 1)"
      using "1.prems"(3) [of i] ij by simp
    have split: "\<And>l. i + 1 \<le> l \<Longrightarrow>
        (\<Sum>n = i..l. calcDistance2d env input n (n - 1))
          = calcDistance2d env input i (i - 1) + (\<Sum>n = i + 1..l. calcDistance2d env input n (n - 1))"
      by (simp add: sum.atLeast_Suc_atMost)
    have rest: "\<And>l. i + 1 \<le> l \<Longrightarrow> l < j \<Longrightarrow>
        \<not> min_len < (sd + calcDistance2d env input i (i - 1))
             + (\<Sum>n = i + 1..l. calcDistance2d env input n (n - 1))"
    proof -
      fix l assume l: "i + 1 \<le> l" "l < j"
      show "\<not> min_len < (sd + calcDistance2d env input i (i - 1))
             + (\<Sum>n = i + 1..l. calcDistance2d env input n (n - 1))"
        using "1.prems"(3) [of l] split [of l] l by (simp add: add.assoc)
    qed
    have cross: "min_len < (sd + calcDistance2d env input i (i - 1))
             + (\<Sum>n = i + 1..j. calcDistance2d env input n (n - 1))"
      using "1.prems"(4) split [of j] ij by (simp add: add.assoc)
    have "target_time_loop env min_len input i sd
        = target_time_loop env min_len input (i + 1) (sd + calcDistance2d env input i (i - 1))"
      using iL nc by (simp add: target_time_loop.simps [of env min_len input i sd] Let_def)
    also have "\<dots> = relative_time input ! (j - 1)
           + ((if j = length (relative_time input) - 1 then relative_time input ! j - 100
               else relative_time input ! j) - relative_time input ! (j - 1))
             * ((min_len - ((sd + calcDistance2d env input i (i - 1))
                   + (\<Sum>n = i + 1..j. calcDistance2d env input n (n - 1))
                              - calcDistance2d env input j (j - 1)))
                / calcDistance2d env input j (j - 1))"
      using "1.IH" [OF iL refl refl nc _ "1.prems"(2) rest cross] ij by simp
    finally show ?thesis using split [of j] ij by (simp add: add.assoc)
  qed
qed

subsection \<open>A cycle of the instance, stage by stage\<close>

lemma upt_3: "[0..<3] = [0, 1, 2]"
  by (simp add: upt_rec)

lemma ex_mpc_unit_updates [simp]:
  "(ex_mpc r b l p1 p2)\<lparr>m_steering_predictor := ()\<rparr> = ex_mpc r b l p1 p2"
  "(ex_mpc r b l p1 p2)\<lparr>m_qpsolver := ()\<rparr> = ex_mpc r b l p1 p2"
  "(ex_mpc r b l p1 p2)\<lparr>m_vehicle_model := ex_vehicle_model\<rparr> = ex_mpc r b l p1 p2"
  by (simp_all add: ex_mpc_def)

lemma ex_apply:
  "applyVelocityDynamicsFilter (ex_env ok u) s ex_traj ex_odom = ex_reference"
  by (simp add: applyVelocityDynamicsFilter_def ex_traj_def ex_reference_def traj_back_def
      traj_push_back_def Let_def)

lemma ex_getData:
  assumes "relative_time traj \<noteq> []" "hd (traj_x traj) = 0" "hd (traj_y traj) = 0"
    "hd (relative_time traj) = 0" "5 / 4 \<le> last (relative_time traj)"
  shows "getData (ex_env ok u) (ex_mpc r b l p1 p2) traj ex_steer ex_odom
       = ((True, MPCData_default), ex_mpc r b l p1 p2)"
  using assms
  by (simp add: getData_def Let_def ex_odom_def ex_steer_def ex_param_def Pose_default_def
      MPCData_default_def)

lemma ex_getInitialState:
  "getInitialState (ex_env ok u) (ex_mpc r b l p1 p2) MPCData_default
     = (comma_init 2 1 [0, 0], ex_mpc r b l p1 p2)"
  by (simp add: getInitialState_def Let_def ex_vehicle_model_def MPCData_default_def)

lemma ex_vm_updates [simp]:
  "ex_vehicle_model\<lparr>velocity := 1\<rparr> = ex_vehicle_model"
  "ex_vehicle_model\<lparr>curvature := 0\<rparr> = ex_vehicle_model"
  by (simp_all add: ex_vehicle_model_def)

lemma ex_delay:
  "\<exists>x. updateStateForDelayCompensation (ex_env ok u) (ex_mpc r [b0, b1] l p1 p2) ex_reference 0 x0
     = ((True, x), ex_mpc r [b0, b1] l p1 p2)"
  by (simp add: updateStateForDelayCompensation_def ex_reference_def Let_def
      split: prod.splits)

lemma ex_target_time:
  "target_time (ex_env ok u) (ex_mpc r b l p1 p2) ex_reference ex_odom = 3 / 2"
  by (simp add: target_time_def ex_reference_def ex_param_def Let_def)

lemma ex_dt:
  "getPredictionDeltaTime (ex_env ok u) (ex_mpc r b l p1 p2) 0 ex_reference ex_odom = 1"
  by (simp add: getPredictionDeltaTime_def ex_target_time ex_param_def)

lemma ex_resample:
  "resampleMPCTrajectoryByTime (ex_env ok u) (ex_mpc r b l p1 p2) 0 1 ex_reference
     = (True, ex_resampled)"
  by (simp add: resampleMPCTrajectoryByTime_def ex_param_def upt_3 ex_reference_def
      ex_resampled_def ex_linearInterpMPCTrajectory_def ex_resample_def Let_def)

lemma ex_generateMPCMatrix:
  "\<exists>m. generateMPCMatrix (ex_env ok u) (ex_mpc r b l p1 p2) ex_resampled dt
         = Some (m, ex_mpc r b l p1 p2)"
  using generateMPCMatrix_total [of "ex_mpc r b l p1 p2" ex_resampled "ex_env ok u" dt]
  by (simp add: ex_param_def ex_resampled_def)

lemma ex_executeOptimization:
  "executeOptimization (ex_env ok u) (ex_mpc r b l p1 p2) m x0 dt t v
     = (if ok then ((True, VectorXd_of [u, 0, 0]), ex_mpc r b l p1 p2)
        else ((False, VectorXd_empty), ex_mpc r b l p1 p2))"
  by (simp add: executeOptimization_def Let_def isNaN_any_def)


lemma ex_resampled_ok:
  "relative_time ex_resampled \<noteq> []" "hd (traj_x ex_resampled) = 0" "hd (traj_y ex_resampled) = 0"
  "hd (relative_time ex_resampled) = 0" "5 / 4 \<le> last (relative_time ex_resampled)"
  "relative_time ex_reference \<noteq> []" "hd (traj_x ex_reference) = 0" "hd (traj_y ex_reference) = 0"
  "hd (relative_time ex_reference) = 0" "5 / 4 \<le> last (relative_time ex_reference)"
  "relative_time ex_traj \<noteq> []" "hd (traj_x ex_traj) = 0" "hd (traj_y ex_traj) = 0"
  "hd (relative_time ex_traj) = 0" "5 / 4 \<le> last (relative_time ex_traj)"
  by (simp_all add: ex_resampled_def ex_reference_def ex_traj_def)

lemma ex_generateDiagData:
  "generateDiagData (ex_env ok u) s ex_resampled d1 MPCData_default m c U k \<noteq> None"
  by (simp add: generateDiagData_def vector_at_def ex_resampled_def MPCData_default_def Let_def)

lemma ex_cycle_solver_failure:
  "calculateMPC (ex_env False u) (ex_mpc ex_traj [b0, b1] l p1 p2) ex_steer ex_odom cmd pt dg
     = Some (False, ex_mpc ex_traj [b0, b1] l p1 p2, cmd, pt, dg)"
proof -
  let ?s = "ex_mpc ex_traj [b0, b1] l p1 p2"
  obtain x where d:
    "updateStateForDelayCompensation (ex_env False u) ?s ex_reference 0 (comma_init 2 (Suc 0) [0, 0])
       = ((True, x), ?s)"
    using ex_delay by blast
  obtain m where g: "generateMPCMatrix (ex_env False u) ?s ex_resampled 1 = Some (m, ?s)"
    using ex_generateMPCMatrix by blast
  note g1 = ex_getData [OF ex_resampled_ok(6-10), of False u ex_traj "[b0, b1]" l p1 p2]
  note g2 = ex_getData [OF ex_resampled_ok(1-5), of False u ex_traj "[b0, b1]" l p1 p2]
  note g3 = ex_getData [OF ex_resampled_ok(11-15), of False u ex_traj "[b0, b1]" l p1 p2]
  have nt: "nearest_time MPCData_default = 0" "input_delay ex_param = 0"
    by (simp_all add: MPCData_default_def ex_param_def)
  show ?thesis
    by (simp add: calculateMPC_def Let_def ex_apply g1 g2 g3 nt
        ex_getInitialState d ex_dt ex_resample g ex_executeOptimization)
qed

lemma ex_cycle_success:
  "\<exists>pt' dg'.
     calculateMPC (ex_env True u) (ex_mpc ex_traj [b0, b1] l p1 p2) ex_steer ex_odom cmd pt dg =
       Some (True,
         ex_mpc ex_traj [b1, fst (ex_filter l (std_clamp u (- 1) 1))]
           (snd (ex_filter l (std_clamp u (- 1) 1))) u p1,
         cmd\<lparr>cmd_steering_tire_angle := fst (ex_filter l (std_clamp u (- 1) 1)),
             cmd_steering_tire_rotation_rate := fst (ex_filter l (std_clamp u (- 1) 1))\<rparr>,
         pt', dg')"
proof -
  let ?s = "ex_mpc ex_traj [b0, b1] l p1 p2"
  obtain x where d:
    "updateStateForDelayCompensation (ex_env True u) ?s ex_reference 0 (comma_init 2 (Suc 0) [0, 0])
       = ((True, x), ?s)"
    using ex_delay by blast
  obtain m where g: "generateMPCMatrix (ex_env True u) ?s ex_resampled 1 = Some (m, ?s)"
    using ex_generateMPCMatrix by blast
  note g1 = ex_getData [OF ex_resampled_ok(6-10), of True u ex_traj "[b0, b1]" l p1 p2]
  note g2 = ex_getData [OF ex_resampled_ok(1-5), of True u ex_traj "[b0, b1]" l p1 p2]
  note g3 = ex_getData [OF ex_resampled_ok(11-15), of True u ex_traj "[b0, b1]" l p1 p2]
  have nt: "nearest_time MPCData_default = 0" "input_delay ex_param = 0"
    by (simp_all add: MPCData_default_def ex_param_def)
  let ?y = "fst (ex_filter l (std_clamp u (- 1) 1))"
  let ?l = "snd (ex_filter l (std_clamp u (- 1) 1))"
  let ?c = "cmd\<lparr>cmd_steering_tire_angle := ?y, cmd_steering_tire_rotation_rate := ?y\<rparr>"
  have st: "steering_tire_angle ex_steer = 0"
    by (simp add: ex_steer_def)
  have u0: "elems (VectorXd_of [u, 0, 0]) 0 0 = u"
    by (simp add: VectorXd_of_def comma_init_def)
  show ?thesis
    by (simp add: calculateMPC_def Let_def ex_apply g1 g2 g3 nt
        ex_getInitialState d ex_dt ex_resample g ex_executeOptimization
        calcDesiredSteeringRate_def calculatePredictedTrajectory_def ex_vehicle_model_def
        st u0 split_beta ex_generateDiagData option.case_eq_if)
qed

lemma ex_filter_steps:
  "std_clamp 5 (- 1) 1 = 1"
  "ex_filter (0, 0, 0, 0) 1 = (5 / 17, (1, 0, 5 / 17, 0))"
  "ex_filter (1, 0, 5 / 17, 0) 1 = (15 / 17, (1, 1, 15 / 17, 5 / 17))"
  "ex_filter (1, 1, 15 / 17, 5 / 17) 1 = (325 / 289, (1, 1, 325 / 289, 15 / 17))"
  by (simp_all add: ex_filter_def std_clamp_def Let_def)

lemma ex_run_two:
  "run_cycles (ex_env True 5) (ex_mpc ex_traj [0, 0] (0, 0, 0, 0) 0 0)
      [(ex_steer, ex_odom), (ex_steer, ex_odom)]
     = Some ([True, True], ex_mpc ex_traj [5 / 17, 15 / 17] (1, 1, 15 / 17, 5 / 17) 5 5)"
proof -
  obtain pt1 dg1 where c1:
    "calculateMPC (ex_env True 5) (ex_mpc ex_traj [0, 0] (0, 0, 0, 0) 0 0) ex_steer ex_odom
        \<lparr>cmd_steering_tire_angle = 0, cmd_steering_tire_rotation_rate = 0\<rparr> [] []
       = Some (True, ex_mpc ex_traj [0, 5 / 17] (1, 0, 5 / 17, 0) 5 0,
           \<lparr>cmd_steering_tire_angle = 5 / 17, cmd_steering_tire_rotation_rate = 5 / 17\<rparr>, pt1, dg1)"
    using ex_cycle_success [of 5 0 0 "(0, 0, 0, 0)" 0 0
        "\<lparr>cmd_steering_tire_angle = 0, cmd_steering_tire_rotation_rate = 0\<rparr>" "[]" "[]"]
    by (auto simp add: ex_filter_steps)
  obtain pt2 dg2 where c2:
    "calculateMPC (ex_env True 5) (ex_mpc ex_traj [0, 5 / 17] (1, 0, 5 / 17, 0) 5 0) ex_steer ex_odom
        \<lparr>cmd_steering_tire_angle = 0, cmd_steering_tire_rotation_rate = 0\<rparr> [] []
       = Some (True, ex_mpc ex_traj [5 / 17, 15 / 17] (1, 1, 15 / 17, 5 / 17) 5 5,
           \<lparr>cmd_steering_tire_angle = 15 / 17, cmd_steering_tire_rotation_rate = 15 / 17\<rparr>, pt2, dg2)"
    using ex_cycle_success [of 5 0 "5 / 17" "(1, 0, 5 / 17, 0)" 5 0
        "\<lparr>cmd_steering_tire_angle = 0, cmd_steering_tire_rotation_rate = 0\<rparr>" "[]" "[]"]
    by (auto simp add: ex_filter_steps)
  show ?thesis
    unfolding run_cycles.simps c1 option.case prod.case c2 by simp
qed

lemma ex_third_cycle:
  "cycle_angle (calculateMPC (ex_env True 5)
       (ex_mpc ex_traj [5 / 17, 15 / 17] (1, 1, 15 / 17, 5 / 17) 5 5) ex_steer ex_odom ex_cmd [] [])
     = Some (True, 325 / 289)"
  using ex_cycle_success [of 5 "5 / 17" "15 / 17" "(1, 1, 15 / 17, 5 / 17)" 5 5 ex_cmd "[]" "[]"]
  by (auto simp add: cycle_angle_def ex_filter_steps)

lemma ex_apply_any:
  "applyVelocityDynamicsFilter (ex_env ok u) s ex_traj k = ex_reference"
  by (simp add: applyVelocityDynamicsFilter_def ex_traj_def ex_reference_def traj_back_def
      traj_push_back_def Let_def)

lemma ex_getData_far:
  "getData (ex_env True 5) (ex_mpc ex_traj [0, 0] (0, 0, 0, 0) 0 0) ex_reference ex_steer ex_odom_far
     = ((False, MPCData_default), ex_mpc ex_traj [0, 0] (0, 0, 0, 0) 0 0)"
  by (simp add: getData_def Let_def ex_odom_far_def ex_reference_def Pose_default_def)

subsection \<open>The claims about a control cycle\<close>

text \<open>
  Claim C2.  A control cycle that fails, at whatever stage (the data and its
  validation, the delay compensation, the resampling, the optimization), leaves the
  delay input buffer and the pair of previous raw commands as they were before the
  cycle: they are written only after the last check has passed.
\<close>

theorem failed_cycle_keeps_history:
  assumes "calculateMPC env s cs ck cmd pt dg = Some (False, s', cmd', pt', dg')"
  shows "m_input_buffer s' = m_input_buffer s
         \<and> m_raw_steer_cmd_prev s' = m_raw_steer_cmd_prev s
         \<and> m_raw_steer_cmd_pprev s' = m_raw_steer_cmd_pprev s"
  using calculateMPC_failure_kept [OF assms] by (simp add: kept_def)

theorem failed_cycle_keeps_history_witness:
  "calculateMPC (ex_env False 5) (ex_mpc ex_traj [1 / 10, 1 / 5] (0, 0, 0, 0) (1 / 5) (1 / 10))
      ex_steer ex_odom ex_cmd [] []
     = Some (False, ex_mpc ex_traj [1 / 10, 1 / 5] (0, 0, 0, 0) (1 / 5) (1 / 10), ex_cmd, [], [])
   \<and> m_input_buffer (ex_mpc ex_traj [1 / 10, 1 / 5] (0, 0, 0, 0) (1 / 5) (1 / 10)) = [1 / 10, 1 / 5]
   \<and> m_raw_steer_cmd_prev (ex_mpc ex_traj [1 / 10, 1 / 5] (0, 0, 0, 0) (1 / 5) (1 / 10)) = 1 / 5
   \<and> m_raw_steer_cmd_pprev (ex_mpc ex_traj [1 / 10, 1 / 5] (0, 0, 0, 0) (1 / 5) (1 / 10)) = 1 / 10"
  using failed_cycle_keeps_history
    [OF ex_cycle_solver_failure [of 5 "1 / 10" "1 / 5" "(0, 0, 0, 0)" "1 / 5" "1 / 10" ex_cmd "[]" "[]"]]
    ex_cycle_solver_failure [of 5 "1 / 10" "1 / 5" "(0, 0, 0, 0)" "1 / 5" "1 / 10" ex_cmd "[]" "[]"]
  by simp

text \<open>
  Claim C3, as stated, does not hold: the steering angle written to the command is
  the output of the low-pass filter, not the clamped value, and a low-pass filter
  can overshoot its input.  With the second-order filter of the instance, a limit of
  1 and a solver that answers 5, two successful cycles from rest bring the controller
  to a state from which the third cycle writes \<open>325 / 289\<close>, above the limit.
\<close>

theorem steering_angle_exceeds_limit_counterexample:
  "run_cycles (ex_env True 5) (ex_mpc ex_traj [0, 0] (0, 0, 0, 0) 0 0)
      [(ex_steer, ex_odom), (ex_steer, ex_odom)]
     = Some ([True, True], ex_mpc ex_traj [5 / 17, 15 / 17] (1, 1, 15 / 17, 5 / 17) 5 5)
   \<and> cycle_angle (calculateMPC (ex_env True 5)
         (ex_mpc ex_traj [5 / 17, 15 / 17] (1, 1, 15 / 17, 5 / 17) 5 5) ex_steer ex_odom ex_cmd [] [])
       = Some (True, 325 / 289)
   \<and> m_steer_lim (ex_mpc ex_traj [5 / 17, 15 / 17] (1, 1, 15 / 17, 5 / 17) 5 5) = 1
   \<and> (1 :: real) < 325 / 289"
  using ex_run_two ex_third_cycle by (simp del: run_cycles.simps)

text \<open>
  Claim C3, amended.  For every successful control cycle with a non-negative
  \<open>m_steer_lim\<close> and every magnitude of the solver's first output \<open>Uex(0)\<close> (kept in
  \<open>m_raw_steer_cmd_prev\<close> afterwards), the value given to the low-pass filter of the
  steering command lies within \<open>[-m_steer_lim, +m_steer_lim]\<close>, and the steering angle
  written to the command is the filter's output for that value.
\<close>

theorem steering_angle_is_filtered_clamp:
  assumes "calculateMPC env s cs ck cmd pt dg = Some (True, s', cmd', pt', dg')"
    and "0 \<le> m_steer_lim s"
  shows "- m_steer_lim s \<le> std_clamp (m_raw_steer_cmd_prev s') (- m_steer_lim s) (m_steer_lim s)
         \<and> std_clamp (m_raw_steer_cmd_prev s') (- m_steer_lim s) (m_steer_lim s) \<le> m_steer_lim s
         \<and> cmd_steering_tire_angle cmd' =
             fst (lpf_filter env (m_lpf_steering_cmd s)
                    (std_clamp (m_raw_steer_cmd_prev s') (- m_steer_lim s) (m_steer_lim s)))"
  using calculateMPC_success [OF assms(1)] std_clamp_range [OF assms(2)] by simp

theorem steering_angle_is_filtered_clamp_witness:
  "cycle_angle (calculateMPC (ex_env True 5) (ex_mpc ex_traj [0, 0] (0, 0, 0, 0) 0 0)
       ex_steer ex_odom ex_cmd [] []) = Some (True, 5 / 17)
   \<and> (0 :: real) \<le> m_steer_lim (ex_mpc ex_traj [0, 0] (0, 0, 0, 0) 0 0)
   \<and> std_clamp 5 (- 1) 1 = 1
   \<and> fst (lpf_filter (ex_env True 5) (0, 0, 0, 0) 1) = 5 / 17"
proof -
  obtain pt1 dg1 where c1:
    "calculateMPC (ex_env True 5) (ex_mpc ex_traj [0, 0] (0, 0, 0, 0) 0 0) ex_steer ex_odom
        ex_cmd [] []
       = Some (True, ex_mpc ex_traj [0, 5 / 17] (1, 0, 5 / 17, 0) 5 0,
           ex_cmd\<lparr>cmd_steering_tire_angle := 5 / 17, cmd_steering_tire_rotation_rate := 5 / 17\<rparr>,
           pt1, dg1)"
    using ex_cycle_success [of 5 0 0 "(0, 0, 0, 0)" 0 0 ex_cmd "[]" "[]"]
    by (auto simp add: ex_filter_steps)
  show ?thesis
    using steering_angle_is_filtered_clamp [OF c1] c1
    by (simp add: cycle_angle_def ex_filter_steps)
qed

text \<open>
  Claim C4.  A successful cycle appends the new command to the delay input buffer
  and removes the oldest one, and over any sequence of control cycles that return
  (successful or not) the length of the buffer stays what it was.
\<close>

theorem delay_buffer_length_is_invariant:
  "(calculateMPC env s cs ck cmd pt dg = Some (True, s1, cmd1, pt1, dg1) \<longrightarrow>
      m_input_buffer s1 = tl (m_input_buffer s @ [cmd_steering_tire_angle cmd1]))
   \<and> (run_cycles env s inputs = Some (oks, s') \<longrightarrow>
      length (m_input_buffer s') = length (m_input_buffer s))"
  using calculateMPC_success [of env s cs ck cmd pt dg s1 cmd1 pt1 dg1]
    run_cycles_buffer_length [of env s inputs oks s']
  by simp

theorem delay_buffer_length_is_invariant_witness:
  "run_cycles (ex_env True 5) (ex_mpc ex_traj [0, 0] (0, 0, 0, 0) 0 0)
      [(ex_steer, ex_odom), (ex_steer, ex_odom)]
     = Some ([True, True], ex_mpc ex_traj [5 / 17, 15 / 17] (1, 1, 15 / 17, 5 / 17) 5 5)
   \<and> length (m_input_buffer (ex_mpc ex_traj [5 / 17, 15 / 17] (1, 1, 15 / 17, 5 / 17) 5 5))
       = length (m_input_buffer (ex_mpc ex_traj [0, 0] (0, 0, 0, 0) 0 0))
   \<and> cycle_angle (calculateMPC (ex_env True 5) (ex_mpc ex_traj [0, 0] (0, 0, 0, 0) 0 0)
         ex_steer ex_odom ex_cmd [] []) = Some (True, 5 / 17)
   \<and> m_input_buffer (ex_mpc ex_traj [0, 5 / 17] (1, 0, 5 / 17, 0) 5 0) = tl ([0, 0] @ [5 / 17])"
proof -
  obtain pt1 dg1 where c1:
    "calculateMPC (ex_env True 5) (ex_mpc ex_traj [0, 0] (0, 0, 0, 0) 0 0) ex_steer ex_odom
        ex_cmd [] []
       = Some (True, ex_mpc ex_traj [0, 5 / 17] (1, 0, 5 / 17, 0) 5 0,
           ex_cmd\<lparr>cmd_steering_tire_angle := 5 / 17, cmd_steering_tire_rotation_rate := 5 / 17\<rparr>,
           pt1, dg1)"
    using ex_cycle_success [of 5 0 0 "(0, 0, 0, 0)" 0 0 ex_cmd "[]" "[]"]
    by (auto simp add: ex_filter_steps)
  show ?thesis
    using delay_buffer_length_is_invariant
      [of "ex_env True 5" "ex_mpc ex_traj [0, 0] (0, 0, 0, 0) 0 0" ex_steer ex_odom ex_cmd "[]" "[]"
        "ex_mpc ex_traj [0, 5 / 17] (1, 0, 5 / 17, 0) 5 0"
        "ex_cmd\<lparr>cmd_steering_tire_angle := 5 / 17, cmd_steering_tire_rotation_rate := 5 / 17\<rparr>"
        pt1 dg1 "[(ex_steer, ex_odom), (ex_steer, ex_odom)]" "[True, True]"
        "ex_mpc ex_traj [5 / 17, 15 / 17] (1, 1, 15 / 17, 5 / 17) 5 5"]
      c1 ex_run_two
    by (simp add: cycle_angle_def del: run_cycles.simps)
qed

text \<open>
  Claim C5, as stated, does not hold: its fourth condition, a remaining trajectory
  horizon shorter than the time needed to cover the minimum prediction length, is not
  what \<open>getData\<close> tests.  On the reference \<open>ex_short\<close>, with the vehicle on its first
  point, the search succeeds and the position and heading errors are zero; the
  reference lasts 2 s and is 0.2 m long, the minimum prediction length is 1.5 m, which
  at the reference's 0.1 m/s takes 15 s; and \<open>getData\<close> returns success, because
  \<open>0 + 0 + 1 / 2 + (3 / 2) / (3 - 1) = 5 / 4\<close> is not beyond the last time 2.
\<close>

theorem getData_accepts_short_trajectory_counterexample:
  "fst (fst (getData (ex_env True 5) (ex_mpc ex_traj [0, 0] (0, 0, 0, 0) 0 0) ex_short ex_steer
               ex_odom)) = True
   \<and> calcNearestPoseInterp (ex_env True 5) ex_short (pose ex_odom) 3 1
       = Some (Pose_default, 0, 0)
   \<and> calcDistance2d_pose (ex_env True 5) (pose ex_odom) Pose_default = 0
   \<and> \<bar>normalizeRadian (ex_env True 5)
         (getYaw (ex_env True 5) (pose ex_odom) - getYaw (ex_env True 5) Pose_default)\<bar> = 0
   \<and> last (relative_time ex_short) = 2
   \<and> calcDistance2d (ex_env True 5) ex_short 1 0 + calcDistance2d (ex_env True 5) ex_short 2 1
       = 1 / 5
   \<and> min_prediction_length (m_param (ex_mpc ex_traj [0, 0] (0, 0, 0, 0) 0 0)) = 3 / 2
   \<and> min_prediction_length (m_param (ex_mpc ex_traj [0, 0] (0, 0, 0, 0) 0 0)) / vx ex_short ! 0
       = 15"
proof -
  have g: "getData (ex_env True 5) (ex_mpc ex_traj [0, 0] (0, 0, 0, 0) 0 0) ex_short ex_steer
             ex_odom
           = ((True, MPCData_default), ex_mpc ex_traj [0, 0] (0, 0, 0, 0) 0 0)"
    by (rule ex_getData) (simp_all add: ex_short_def)
  show ?thesis
    by (simp add: g) (simp add: ex_short_def ex_odom_def ex_param_def Pose_default_def)
qed

text \<open>
  Claim C5, amended.  \<open>getData\<close> returns failure exactly when the nearest-pose search fails,
  or the distance to the nearest pose exceeds \<open>m_admissible_position_error\<close>, or the
  absolute heading error exceeds \<open>m_admissible_yaw_error_rad\<close>, or the time
  \<open>nearest_time + input_delay + m_ctrl_period + min_prediction_length / (N - 1)\<close> lies
  beyond the last time of the trajectory; and when the state estimation of a cycle
  fails so, \<open>calculateMPC\<close> returns false and the command, the predicted trajectory
  and the diagnostic are not written.  The horizon \<open>N = 1\<close>, where the C++ divides by
  zero, and a trajectory without points on which the search succeeds, where \<open>back()\<close>
  is undefined, are excluded.
\<close>

theorem getData_fails_exactly_when:
  assumes "prediction_horizon (m_param s) \<noteq> 1"
    and "calcNearestPoseInterp env traj (pose ck) (ego_nearest_dist_threshold s)
           (ego_nearest_yaw_threshold s) \<noteq> None \<longrightarrow> relative_time traj \<noteq> []"
  shows "(fst (fst (getData env s traj cs ck)) = False \<longleftrightarrow>
           (case calcNearestPoseInterp env traj (pose ck) (ego_nearest_dist_threshold s)
                   (ego_nearest_yaw_threshold s) of
              None \<Rightarrow> True
            | Some (n_pose, n_idx, n_time) \<Rightarrow>
                calcDistance2d_pose env (pose ck) n_pose > m_admissible_position_error s
                \<or> \<bar>normalizeRadian env (getYaw env (pose ck) - getYaw env n_pose)\<bar>
                     > m_admissible_yaw_error_rad s
                \<or> n_time + input_delay (m_param s) + m_ctrl_period s
                     + min_prediction_length (m_param s)
                         / real_of_int (prediction_horizon (m_param s) - 1)
                     > last (relative_time traj)))
         \<and> (traj = applyVelocityDynamicsFilter env s (m_reference_trajectory s) ck
              \<and> fst (fst (getData env s traj cs ck)) = False \<longrightarrow>
            calculateMPC env s cs ck cmd pt dg
              = Some (False, snd (getData env s traj cs ck), cmd, pt, dg))"
  using getData_fails_iff [of env s traj cs ck]
    calculateMPC_getData_failure [of env s ck cs cmd pt dg]
  by auto

theorem getData_fails_exactly_when_witness:
  "prediction_horizon (m_param (ex_mpc ex_traj [0, 0] (0, 0, 0, 0) 0 0)) \<noteq> 1
   \<and> relative_time ex_reference \<noteq> []
   \<and> calcNearestPoseInterp (ex_env True 5) ex_reference (pose ex_odom_far) 3 1
       = Some (Pose_default, 0, 0)
   \<and> calcDistance2d_pose (ex_env True 5) (pose ex_odom_far) Pose_default
       > m_admissible_position_error (ex_mpc ex_traj [0, 0] (0, 0, 0, 0) 0 0)
   \<and> fst (fst (getData (ex_env True 5) (ex_mpc ex_traj [0, 0] (0, 0, 0, 0) 0 0) ex_reference
                  ex_steer ex_odom_far)) = False
   \<and> calculateMPC (ex_env True 5) (ex_mpc ex_traj [0, 0] (0, 0, 0, 0) 0 0) ex_steer ex_odom_far
         ex_cmd [] []
       = Some (False, ex_mpc ex_traj [0, 0] (0, 0, 0, 0) 0 0, ex_cmd, [], [])"
  using getData_fails_exactly_when
    [of "ex_mpc ex_traj [0, 0] (0, 0, 0, 0) 0 0" "ex_env True 5" ex_reference ex_odom_far ex_steer
      ex_cmd "[]" "[]"]
  by (simp add: ex_apply_any ex_getData_far)
    (simp add: ex_param_def ex_reference_def ex_odom_far_def Pose_default_def)

text \<open>
  Claim C6.  The step returned by \<open>getPredictionDeltaTime\<close> is the maximum of
  \<open>(target_time - start_time) / (N - 1)\<close> and the configured \<open>prediction_dt\<close>, hence
  never below that floor.  \<open>target_time\<close> is found by walking forward from the point
  after the nearest one, summing the segment distances: at the first index \<open>j\<close> where
  the sum exceeds \<open>min_prediction_length\<close> it is the time interpolated linearly between
  the points \<open>j - 1\<close> and \<open>j\<close> (the time of the last point counted without its 100
  seconds of extension), and when the sum never exceeds the length it is the last
  time less 100.  The horizon \<open>N = 1\<close> and the empty trajectory are excluded, as for
  \<open>getData\<close>.
\<close>

theorem getPredictionDeltaTime_is_max_with_floor:
  assumes "prediction_horizon (m_param s) \<noteq> 1" and "relative_time input \<noteq> []"
  shows
    "getPredictionDeltaTime env s start_time input ck =
        max ((target_time env s input ck - start_time)
               / real_of_int (prediction_horizon (m_param s) - 1))
          (prediction_dt (m_param s))
     \<and> prediction_dt (m_param s) \<le> getPredictionDeltaTime env s start_time input ck
     \<and> (let n0 = findFirstNearestIndexWithSoftConstraints env
                     (convertToAutowareTrajectory env input) (pose ck)
                     (ego_nearest_dist_threshold s) (ego_nearest_yaw_threshold s);
              t = relative_time input;
              d = (\<lambda>n. calcDistance2d env input n (n - 1));
              min_len = min_prediction_length (m_param s)
          in (\<forall>j. n0 < j \<and> j < length t
                   \<and> (\<forall>l. n0 < l \<and> l < j \<longrightarrow> \<not> min_len < (\<Sum>n = n0 + 1..l. d n))
                   \<and> min_len < (\<Sum>n = n0 + 1..j. d n) \<longrightarrow>
                 target_time env s input ck =
                   t ! (j - 1)
                   + ((if j = length t - 1 then t ! j - 100 else t ! j) - t ! (j - 1))
                     * ((min_len - ((\<Sum>n = n0 + 1..j. d n) - d j)) / d j))
             \<and> ((\<forall>l. n0 < l \<and> l < length t \<longrightarrow> \<not> min_len < (\<Sum>n = n0 + 1..l. d n)) \<longrightarrow>
                 target_time env s input ck = last t - 100))"
proof -
  let ?n0 = "findFirstNearestIndexWithSoftConstraints env
               (convertToAutowareTrajectory env input) (pose ck)
               (ego_nearest_dist_threshold s) (ego_nearest_yaw_threshold s)"
  let ?d = "\<lambda>n. calcDistance2d env input n (n - 1)"
  let ?ml = "min_prediction_length (m_param s)"
  have tt: "target_time env s input ck = target_time_loop env ?ml input (?n0 + 1) 0"
    by (simp add: target_time_def Let_def)
  have cross: "target_time env s input ck =
        relative_time input ! (j - 1)
        + ((if j = length (relative_time input) - 1 then relative_time input ! j - 100
            else relative_time input ! j) - relative_time input ! (j - 1))
          * ((?ml - ((\<Sum>n = ?n0 + 1..j. ?d n) - ?d j)) / ?d j)"
    if j: "?n0 < j" "j < length (relative_time input)"
      and nc: "\<forall>l. ?n0 < l \<and> l < j \<longrightarrow> \<not> ?ml < (\<Sum>n = ?n0 + 1..l. ?d n)"
      and c: "?ml < (\<Sum>n = ?n0 + 1..j. ?d n)" for j
    using target_time_loop_crossing [of "?n0 + 1" j input ?ml 0 env] j nc c
    by (simp add: tt)
  have none: "target_time env s input ck = last (relative_time input) - 100"
    if nc: "\<forall>l. ?n0 < l \<and> l < length (relative_time input) \<longrightarrow>
                \<not> ?ml < (\<Sum>n = ?n0 + 1..l. ?d n)"
    using target_time_loop_no_crossing [of "?n0 + 1" input ?ml 0 env] nc
    by (simp add: tt)
  show ?thesis
    using cross none by (simp add: getPredictionDeltaTime_def Let_def)
qed

theorem getPredictionDeltaTime_is_max_with_floor_witness:
  "prediction_horizon (m_param (ex_mpc ex_traj [0, 0] (0, 0, 0, 0) 0 0)) \<noteq> 1
   \<and> relative_time ex_reference \<noteq> []
   \<and> target_time (ex_env True 5) (ex_mpc ex_traj [0, 0] (0, 0, 0, 0) 0 0) ex_reference ex_odom
       = 3 / 2
   \<and> getPredictionDeltaTime (ex_env True 5) (ex_mpc ex_traj [0, 0] (0, 0, 0, 0) 0 0) 0 ex_reference
         ex_odom = 1
   \<and> prediction_dt (m_param (ex_mpc ex_traj [0, 0] (0, 0, 0, 0) 0 0))
       \<le> getPredictionDeltaTime (ex_env True 5) (ex_mpc ex_traj [0, 0] (0, 0, 0, 0) 0 0) 0
            ex_reference ex_odom"
  using getPredictionDeltaTime_is_max_with_floor
    [of "ex_mpc ex_traj [0, 0] (0, 0, 0, 0) 0 0" ex_reference "ex_env True 5" 0 ex_odom]
  by (simp add: ex_target_time ex_dt) (simp add: ex_param_def ex_reference_def)

subsection \<open>Blocks of the stacked matrices\<close>

lemma elems_set_block:
  "elems (set_block m r c h w b) i j =
     (if in_block r c h w i j then elems b (i - r) (j - c) else elems m i j)"
  by (simp add: set_block_def)

lemma elems_block:
  "elems (block m r c h w) i j = (if i < h \<and> j < w then elems m (r + i) (c + j) else 0)"
  by (simp add: block_def)

lemma block_cong:
  assumes "\<And>i j. i < h \<Longrightarrow> j < w \<Longrightarrow> elems a (r + i) (c + j) = elems b (r + i) (c + j)"
  shows "block a r c h w = block b r c h w"
proof -
  have "(\<lambda>i j. if i < h \<and> j < w then elems a (r + i) (c + j) else 0)
      = (\<lambda>i j. if i < h \<and> j < w then elems b (r + i) (c + j) else 0)"
    using assms by (intro ext) simp
  then show ?thesis by (simp add: block_def)
qed

lemma set_block_idem:
  "set_block (set_block m r c h w b) r c h w b = set_block m r c h w b"
  by (cases m) (simp add: set_block_def fun_eq_iff)

lemma row_before_block: "i < n \<Longrightarrow> a < d \<Longrightarrow> i * d + a < n * (d :: nat)"
proof -
  assume "i < n" "a < d"
  then have "i * d + a < Suc i * d" by simp
  also have "\<dots> \<le> n * d" using \<open>i < n\<close> by (intro mult_le_mono1) simp
  finally show ?thesis .
qed

lemma coeffs_eqD: "coeffs_eq h w a b \<Longrightarrow> i < h \<Longrightarrow> j < w \<Longrightarrow> elems a i j = elems b i j"
  by (simp add: coeffs_eq_def)

text \<open>
  One step of a recursion over row blocks: the block \<open>k\<close> is written from the block
  \<open>k - 1\<close>, and the blocks written before keep their relation.
\<close>

lemma row_block_recursion_step:
  assumes X': "X' = set_block X (k * d) c d w (G k (block X ((k - 1) * d) c d w))"
    and IH: "\<forall>i<k. \<forall>a<d. \<forall>b<w.
               elems X (i * d + a) (c + b) = elems (G i (block X ((i - 1) * d) c d w)) a b"
    and G0: "\<And>P Q. G 0 P = G 0 Q"
  shows "\<forall>i<Suc k. \<forall>a<d. \<forall>b<w.
           elems X' (i * d + a) (c + b) = elems (G i (block X' ((i - 1) * d) c d w)) a b"
proof (intro allI impI)
  fix i a b
  assume i: "i < Suc k" and a: "a < d" and b: "b < w"
  have frame: "elems X' r j = elems X r j" if "r < k * d" for r j
    using that by (simp add: X' elems_set_block in_block_def)
  have blocks: "block X' ((i' - 1) * d) c d w = block X ((i' - 1) * d) c d w"
    if "0 < i'" "i' \<le> k" for i'
  proof (rule block_cong)
    fix l j assume "l < d" "j < w"
    have "i' - 1 < k" using that by simp
    then have "(i' - 1) * d + l < k * d" using \<open>l < d\<close> by (rule row_before_block)
    then show "elems X' ((i' - 1) * d + l) (c + j) = elems X ((i' - 1) * d + l) (c + j)"
      by (rule frame)
  qed
  have G: "G i (block X' ((i - 1) * d) c d w) = G i (block X ((i - 1) * d) c d w)"
  proof (cases "i = 0")
    case True
    then show ?thesis using G0 by simp
  next
    case False
    then show ?thesis using blocks [of i] i by simp
  qed
  show "elems X' (i * d + a) (c + b) = elems (G i (block X' ((i - 1) * d) c d w)) a b"
  proof (cases "i = k")
    case True
    have "elems X' (k * d + a) (c + b) = elems (G k (block X ((k - 1) * d) c d w)) a b"
      using a b by (simp add: X' elems_set_block in_block_def)
    then show ?thesis using True G by simp
  next
    case False
    then have ik: "i < k" using i by simp
    then have "i * d + a < k * d" using a by (rule row_before_block)
    then have "elems X' (i * d + a) (c + b) = elems X (i * d + a) (c + b)"
      by (rule frame)
    also have "\<dots> = elems (G i (block X ((i - 1) * d) c d w)) a b"
      using IH ik a b by simp
    finally show ?thesis using G by simp
  qed
qed

text \<open>
  The inner loop over the input blocks \<open>j < n\<close> of row block \<open>n\<close> reads row block
  \<open>n - 1\<close> only, which it does not write.
\<close>

lemma Bex_fold:
  assumes n: "0 < n"
  shows "(\<forall>r c. \<not> (n * DX \<le> r \<and> r < n * DX + DX) \<longrightarrow>
            elems (fold (\<lambda>j B. set_block B (n * DX) (j * DU) DX DU
                           (mat_mul Ad (block B ((n - 1) * DX) (j * DU) DX DU))) [0..<k] B0) r c
              = elems B0 r c)
       \<and> (\<forall>j<k. \<forall>a<DX. \<forall>b<DU.
            elems (fold (\<lambda>j B. set_block B (n * DX) (j * DU) DX DU
                           (mat_mul Ad (block B ((n - 1) * DX) (j * DU) DX DU))) [0..<k] B0)
              (n * DX + a) (j * DU + b)
              = elems (mat_mul Ad (block B0 ((n - 1) * DX) (j * DU) DX DU)) a b)"
proof (induction k)
  case 0
  then show ?case by simp
next
  case (Suc k)
  let ?F = "\<lambda>j B. set_block B (n * DX) (j * DU) DX DU
                (mat_mul Ad (block B ((n - 1) * DX) (j * DU) DX DU))"
  let ?B1 = "fold ?F [0..<k] B0"
  have fold_Suc: "fold ?F [0..<Suc k] B0 = ?F k ?B1" by simp
  have frame1: "elems ?B1 r c = elems B0 r c" if "\<not> (n * DX \<le> r \<and> r < n * DX + DX)" for r c
    using Suc.IH that by blast
  have prev: "block ?B1 ((n - 1) * DX) c DX DU = block B0 ((n - 1) * DX) c DX DU" for c
  proof (rule block_cong)
    fix l j assume "l < DX" "j < DU"
    have "n - 1 < n" using n by simp
    then have "(n - 1) * DX + l < n * DX" using \<open>l < DX\<close> by (rule row_before_block)
    then show "elems ?B1 ((n - 1) * DX + l) (c + j) = elems B0 ((n - 1) * DX + l) (c + j)"
      by (intro frame1) simp
  qed
  show ?case
  proof (intro conjI allI impI)
    fix r c assume "\<not> (n * DX \<le> r \<and> r < n * DX + DX)"
    then show "elems (fold ?F [0..<Suc k] B0) r c = elems B0 r c"
      using frame1 [of r c] by (auto simp add: elems_set_block in_block_def)
  next
    fix j a b assume j: "j < Suc k" and a: "a < DX" and b: "b < DU"
    show "elems (fold ?F [0..<Suc k] B0) (n * DX + a) (j * DU + b)
            = elems (mat_mul Ad (block B0 ((n - 1) * DX) (j * DU) DX DU)) a b"
    proof (cases "j = k")
      case True
      then show ?thesis using a b prev [of "k * DU"]
        by (simp add: elems_set_block in_block_def)
    next
      case False
      then have jk: "j < k" using j by simp
      then have "j * DU + b < k * DU" using b by (rule row_before_block)
      then have "elems (fold ?F [0..<Suc k] B0) (n * DX + a) (j * DU + b)
                   = elems ?B1 (n * DX + a) (j * DU + b)"
        by (simp add: elems_set_block in_block_def)
      then show ?thesis using Suc.IH jk a b by simp
    qed
  qed
qed

lemma Bex_recursion_step:
  assumes B': "B' = set_block
                 (fold (\<lambda>j B. set_block B (k * DX) (j * DU) DX DU
                          (mat_mul (Ad k) (block B ((k - 1) * DX) (j * DU) DX DU))) [0..<k] B0)
                 (k * DX) (k * DU) DX DU (Bd k)"
    and IH: "\<forall>i<k.
               (\<forall>j<i. \<forall>a<DX. \<forall>b<DU.
                  elems B0 (i * DX + a) (j * DU + b)
                    = elems (mat_mul (Ad i) (block B0 ((i - 1) * DX) (j * DU) DX DU)) a b)
               \<and> (\<forall>a<DX. \<forall>b<DU. elems B0 (i * DX + a) (i * DU + b) = elems (Bd i) a b)"
  shows "\<forall>i<Suc k.
           (\<forall>j<i. \<forall>a<DX. \<forall>b<DU.
              elems B' (i * DX + a) (j * DU + b)
                = elems (mat_mul (Ad i) (block B' ((i - 1) * DX) (j * DU) DX DU)) a b)
           \<and> (\<forall>a<DX. \<forall>b<DU. elems B' (i * DX + a) (i * DU + b) = elems (Bd i) a b)"
proof -
  let ?F = "\<lambda>j B. set_block B (k * DX) (j * DU) DX DU
                (mat_mul (Ad k) (block B ((k - 1) * DX) (j * DU) DX DU))"
  let ?B1 = "fold ?F [0..<k] B0"
  have frame: "elems B' r c = elems B0 r c" if r: "r < k * DX" for r c
  proof -
    have k: "0 < k" using r by (cases k) simp_all
    have "elems B' r c = elems ?B1 r c"
      using r by (simp add: B' elems_set_block in_block_def)
    also have "\<dots> = elems B0 r c"
      using Bex_fold [OF k, of DX DU "Ad k" k B0] r by simp
    finally show ?thesis .
  qed
  have blocks: "block B' ((i - 1) * DX) c DX DU = block B0 ((i - 1) * DX) c DX DU"
    if "0 < i" "i \<le> k" for i c
  proof (rule block_cong)
    fix l j assume "l < DX" "j < DU"
    have "i - 1 < k" using that by simp
    then have "(i - 1) * DX + l < k * DX" using \<open>l < DX\<close> by (rule row_before_block)
    then show "elems B' ((i - 1) * DX + l) (c + j) = elems B0 ((i - 1) * DX + l) (c + j)"
      by (rule frame)
  qed
  show ?thesis
  proof (intro allI impI conjI)
    fix i j a b
    assume i: "i < Suc k" and j: "j < i" and a: "a < DX" and b: "b < DU"
    have i0: "0 < i" using j by simp
    show "elems B' (i * DX + a) (j * DU + b)
            = elems (mat_mul (Ad i) (block B' ((i - 1) * DX) (j * DU) DX DU)) a b"
    proof (cases "i = k")
      case True
      then have k: "0 < k" using i0 by simp
      have "j * DU + b < k * DU" using j True b by (intro row_before_block) simp_all
      then have "elems B' (k * DX + a) (j * DU + b) = elems ?B1 (k * DX + a) (j * DU + b)"
        by (simp add: B' elems_set_block in_block_def)
      also have "\<dots> = elems (mat_mul (Ad k) (block B0 ((k - 1) * DX) (j * DU) DX DU)) a b"
        using Bex_fold [OF k, of DX DU "Ad k" k B0] j True a b by simp
      finally show ?thesis using True blocks [of k "j * DU"] k by simp
    next
      case False
      then have ik: "i < k" using i by simp
      then have "i * DX + a < k * DX" using a by (rule row_before_block)
      then have "elems B' (i * DX + a) (j * DU + b) = elems B0 (i * DX + a) (j * DU + b)"
        by (rule frame)
      also have "\<dots> = elems (mat_mul (Ad i) (block B0 ((i - 1) * DX) (j * DU) DX DU)) a b"
        using IH ik j a b by simp
      finally show ?thesis using blocks [of i "j * DU"] i0 ik by simp
    qed
  next
    fix i a b
    assume i: "i < Suc k" and a: "a < DX" and b: "b < DU"
    show "elems B' (i * DX + a) (i * DU + b) = elems (Bd i) a b"
    proof (cases "i = k")
      case True
      then show ?thesis using a b by (simp add: B' elems_set_block in_block_def)
    next
      case False
      then have ik: "i < k" using i by simp
      then have "i * DX + a < k * DX" using a by (rule row_before_block)
      then have "elems B' (i * DX + a) (i * DU + b) = elems B0 (i * DX + a) (i * DU + b)"
        by (rule frame)
      then show ?thesis using IH ik a b by simp
    qed
  qed
qed

lemma Uref_step:
  assumes U': "U' = set_block U (k * DU) 0 DU 1 (Uref k)"
    and IH: "\<forall>i<k. elems U (i * DU) 0 = elems (Uref i) 0 0"
    and DU: "0 < DU"
  shows "\<forall>i<Suc k. elems U' (i * DU) 0 = elems (Uref i) 0 0"
proof (intro allI impI)
  fix i assume i: "i < Suc k"
  show "elems U' (i * DU) 0 = elems (Uref i) 0 0"
  proof (cases "i = k")
    case True
    then show ?thesis using DU by (simp add: U' elems_set_block in_block_def)
  next
    case False
    then have ik: "i < k" using i by simp
    then have "i * DU + 0 < k * DU" using DU by (rule row_before_block)
    then have "elems U' (i * DU) 0 = elems U (i * DU) 0"
      by (simp add: U' elems_set_block in_block_def)
    then show ?thesis using IH ik by simp
  qed
qed

subsection \<open>The loop of \<open>generateMPCMatrix\<close>\<close>

lemma for_loop_upt_invariant:
  assumes "for_loop body [0..<n] a = Some b"
    and "P 0 a"
    and "\<And>i x y. i < n \<Longrightarrow> P i x \<Longrightarrow> body i x = Some y \<Longrightarrow> P (Suc i) y"
  shows "P n b"
  using assms
proof (induction n arbitrary: b)
  case 0
  then show ?case by simp
next
  case (Suc n)
  from Suc.prems(1) obtain c where c: "for_loop body [0..<n] a = Some c" and b: "body n c = Some b"
    by (auto simp add: for_loop_append split: option.splits)
  have "P n c"
    using Suc.IH [OF c Suc.prems(2)] Suc.prems(3) by simp
  then show ?case using Suc.prems(3) [of n c b] b by simp
qed

lemma generateMPCMatrix_body_result:
  assumes "generateMPCMatrix_body env param t DT N DX DU DY sg i (vm, m) = Some (vm', m')"
  shows "vm' = vm\<lparr>velocity := vx t ! i, curvature := smooth_k t ! i * sg\<rparr>"
    and "Aex m' =
          set_block (Aex m) (i * DX) 0 DX DX
            (if i = 0
             then fst (calculateDiscreteMatrix env
                    (vm\<lparr>velocity := vx t ! i, curvature := traj_k t ! i * sg\<rparr>) DT)
             else mat_mul
                    (fst (calculateDiscreteMatrix env
                       (vm\<lparr>velocity := vx t ! i, curvature := traj_k t ! i * sg\<rparr>) DT))
                    (block (Aex m) ((i - 1) * DX) 0 DX DX))"
    and "Wex m' =
          set_block (Wex m) (i * DX) 0 DX 1
            (if i = 0
             then snd (snd (snd (calculateDiscreteMatrix env
                    (vm\<lparr>velocity := vx t ! i, curvature := traj_k t ! i * sg\<rparr>) DT)))
             else mat_add
                    (mat_mul
                      (fst (calculateDiscreteMatrix env
                         (vm\<lparr>velocity := vx t ! i, curvature := traj_k t ! i * sg\<rparr>) DT))
                      (block (Wex m) ((i - 1) * DX) 0 DX 1))
                    (snd (snd (snd (calculateDiscreteMatrix env
                       (vm\<lparr>velocity := vx t ! i, curvature := traj_k t ! i * sg\<rparr>) DT)))))"
    and "Bex_mat m' =
          set_block
            (fold
               (\<lambda>j B. set_block B (i * DX) (j * DU) DX DU
                  (mat_mul
                     (fst (calculateDiscreteMatrix env
                        (vm\<lparr>velocity := vx t ! i, curvature := traj_k t ! i * sg\<rparr>) DT))
                     (block B ((i - 1) * DX) (j * DU) DX DU)))
               [0..<i] (Bex_mat m))
            (i * DX) (i * DU) DX DU
            (fst (snd (calculateDiscreteMatrix env
               (vm\<lparr>velocity := vx t ! i, curvature := traj_k t ! i * sg\<rparr>) DT)))"
    and "Uref_ex m' =
          set_block (Uref_ex m) (i * DU) 0 DU 1
            (if \<bar>elems (calculateReferenceInput env
                   (vm\<lparr>velocity := vx t ! i, curvature := smooth_k t ! i * sg\<rparr>)) 0 0\<bar>
                < deg2rad (zero_ff_steer_deg param)
             then set_coeff (calculateReferenceInput env
                    (vm\<lparr>velocity := vx t ! i, curvature := smooth_k t ! i * sg\<rparr>)) 0 0 0
             else calculateReferenceInput env
                    (vm\<lparr>velocity := vx t ! i, curvature := smooth_k t ! i * sg\<rparr>))"
  using assms
  by (auto simp add: generateMPCMatrix_body_def vector_at_def Let_def split_beta set_block_idem
      split: option.splits if_splits)

lemma vm_updates_collapse:
  "(vm\<lparr>velocity := x, curvature := y\<rparr>)\<lparr>velocity := a, curvature := b\<rparr>
     = vm\<lparr>velocity := a, curvature := b\<rparr>"
  by simp

lemma generateMPCMatrix_loop_invariant:
  assumes loop:
    "for_loop (generateMPCMatrix_body env param t DT N DX DU DY sg) [0..<n] (vm0, m0) = Some st"
  shows "(\<exists>x y. fst st = vm0\<lparr>velocity := x, curvature := y\<rparr>)
     \<and> (\<forall>i<n. \<forall>a<DX. \<forall>b<DX.
           elems (Aex (snd st)) (i * DX + a) b =
             elems (if i = 0
                    then fst (calculateDiscreteMatrix env
                           (vm0\<lparr>velocity := vx t ! i, curvature := traj_k t ! i * sg\<rparr>) DT)
                    else mat_mul
                           (fst (calculateDiscreteMatrix env
                              (vm0\<lparr>velocity := vx t ! i, curvature := traj_k t ! i * sg\<rparr>) DT))
                           (block (Aex (snd st)) ((i - 1) * DX) 0 DX DX)) a b)
     \<and> (\<forall>i<n. \<forall>a<DX. \<forall>b<1.
           elems (Wex (snd st)) (i * DX + a) b =
             elems (if i = 0
                    then snd (snd (snd (calculateDiscreteMatrix env
                           (vm0\<lparr>velocity := vx t ! i, curvature := traj_k t ! i * sg\<rparr>) DT)))
                    else mat_add
                           (mat_mul
                              (fst (calculateDiscreteMatrix env
                                 (vm0\<lparr>velocity := vx t ! i, curvature := traj_k t ! i * sg\<rparr>) DT))
                              (block (Wex (snd st)) ((i - 1) * DX) 0 DX 1))
                           (snd (snd (snd (calculateDiscreteMatrix env
                              (vm0\<lparr>velocity := vx t ! i, curvature := traj_k t ! i * sg\<rparr>) DT)))))
               a b)
     \<and> (\<forall>i<n.
           (\<forall>j<i. \<forall>a<DX. \<forall>b<DU.
              elems (Bex_mat (snd st)) (i * DX + a) (j * DU + b)
                = elems (mat_mul
                           (fst (calculateDiscreteMatrix env
                              (vm0\<lparr>velocity := vx t ! i, curvature := traj_k t ! i * sg\<rparr>) DT))
                           (block (Bex_mat (snd st)) ((i - 1) * DX) (j * DU) DX DU)) a b)
           \<and> (\<forall>a<DX. \<forall>b<DU.
                elems (Bex_mat (snd st)) (i * DX + a) (i * DU + b)
                  = elems (fst (snd (calculateDiscreteMatrix env
                             (vm0\<lparr>velocity := vx t ! i, curvature := traj_k t ! i * sg\<rparr>) DT)))
                      a b))
     \<and> (0 < DU \<longrightarrow>
          (\<forall>i<n. elems (Uref_ex (snd st)) (i * DU) 0 =
             elems (if \<bar>elems (calculateReferenceInput env
                          (vm0\<lparr>velocity := vx t ! i, curvature := smooth_k t ! i * sg\<rparr>)) 0 0\<bar>
                       < deg2rad (zero_ff_steer_deg param)
                    then set_coeff (calculateReferenceInput env
                           (vm0\<lparr>velocity := vx t ! i, curvature := smooth_k t ! i * sg\<rparr>)) 0 0 0
                    else calculateReferenceInput env
                           (vm0\<lparr>velocity := vx t ! i, curvature := smooth_k t ! i * sg\<rparr>)) 0 0))"
    (is "?P n st")
proof (rule for_loop_upt_invariant [where P = ?P, OF loop])
  show "?P 0 (vm0, m0)"
  proof -
    have "vm0 = vm0\<lparr>velocity := velocity vm0, curvature := curvature vm0\<rparr>" by simp
    then have "\<exists>x y. vm0 = vm0\<lparr>velocity := x, curvature := y\<rparr>" by blast
    then show ?thesis by simp
  qed
next
  fix k st1 st2
  assume k: "k < n" and P: "?P k st1"
    and body: "generateMPCMatrix_body env param t DT N DX DU DY sg k st1 = Some st2"
  obtain vm1 m1 where st1: "st1 = (vm1, m1)" by (cases st1)
  obtain vm2 m2 where st2: "st2 = (vm2, m2)" by (cases st2)
  from P obtain x y where vm1: "vm1 = vm0\<lparr>velocity := x, curvature := y\<rparr>"
    by (auto simp add: st1)
  note res = generateMPCMatrix_body_result
    [OF body [unfolded st1 st2], unfolded vm1 vm_updates_collapse]
  let ?cdm = "\<lambda>i. calculateDiscreteMatrix env
                 (vm0\<lparr>velocity := vx t ! i, curvature := traj_k t ! i * sg\<rparr>) DT"
  have vm: "\<exists>x y. vm2 = vm0\<lparr>velocity := x, curvature := y\<rparr>"
    using res(1) by blast
  have A: "\<forall>i<Suc k. \<forall>a<DX. \<forall>b<DX.
      elems (Aex m2) (i * DX + a) (0 + b) =
        elems ((\<lambda>i P. if i = 0 then fst (?cdm i) else mat_mul (fst (?cdm i)) P) i
                 (block (Aex m2) ((i - 1) * DX) 0 DX DX)) a b"
    using P by (intro row_block_recursion_step [where X = "Aex m1"]) (simp_all add: res(2) st1)
  have W: "\<forall>i<Suc k. \<forall>a<DX. \<forall>b<1.
      elems (Wex m2) (i * DX + a) (0 + b) =
        elems ((\<lambda>i P. if i = 0 then snd (snd (snd (?cdm i)))
                       else mat_add (mat_mul (fst (?cdm i)) P) (snd (snd (snd (?cdm i))))) i
                 (block (Wex m2) ((i - 1) * DX) 0 DX 1)) a b"
    using P by (intro row_block_recursion_step [where X = "Wex m1"]) (simp_all add: res(3) st1)
  have B: "\<forall>i<Suc k.
           (\<forall>j<i. \<forall>a<DX. \<forall>b<DU.
              elems (Bex_mat m2) (i * DX + a) (j * DU + b)
                = elems (mat_mul (fst (?cdm i))
                           (block (Bex_mat m2) ((i - 1) * DX) (j * DU) DX DU)) a b)
           \<and> (\<forall>a<DX. \<forall>b<DU.
                elems (Bex_mat m2) (i * DX + a) (i * DU + b) = elems (fst (snd (?cdm i))) a b)"
    using P
    by (intro Bex_recursion_step [where ?B0.0 = "Bex_mat m1" and Ad = "\<lambda>i. fst (?cdm i)"
          and Bd = "\<lambda>i. fst (snd (?cdm i))"]) (simp_all add: res(4) st1)
  have U: "\<forall>i<Suc k. elems (Uref_ex m2) (i * DU) 0 =
             elems ((\<lambda>i. if \<bar>elems (calculateReferenceInput env
                          (vm0\<lparr>velocity := vx t ! i, curvature := smooth_k t ! i * sg\<rparr>)) 0 0\<bar>
                       < deg2rad (zero_ff_steer_deg param)
                    then set_coeff (calculateReferenceInput env
                           (vm0\<lparr>velocity := vx t ! i, curvature := smooth_k t ! i * sg\<rparr>)) 0 0 0
                    else calculateReferenceInput env
                           (vm0\<lparr>velocity := vx t ! i, curvature := smooth_k t ! i * sg\<rparr>)) i) 0 0"
    if "0 < DU"
    using P that
    by (intro Uref_step [where U = "Uref_ex m1"]) (simp_all add: res(5) st1)
  show "?P (Suc k) st2"
    using vm A W B U by (simp add: st2)
qed

lemma lateral_jerk_loop_keeps:
  "for_loop (lateral_jerk_body env param t DT sg) xs m = Some m' \<Longrightarrow>
     Aex m' = Aex m \<and> Bex_mat m' = Bex_mat m \<and> Wex m' = Wex m \<and> Uref_ex m' = Uref_ex m"
proof (induction xs arbitrary: m)
  case Nil
  then show ?case by simp
next
  case (Cons x xs)
  from Cons.prems obtain m1 where b: "lateral_jerk_body env param t DT sg x m = Some m1"
    and r: "for_loop (lateral_jerk_body env param t DT sg) xs m1 = Some m'"
    by (auto split: option.splits)
  have "Aex m1 = Aex m \<and> Bex_mat m1 = Bex_mat m \<and> Wex m1 = Wex m \<and> Uref_ex m1 = Uref_ex m"
    using b by (auto simp add: lateral_jerk_body_def Let_def split: option.splits)
  then show ?case using Cons.IH [OF r] by simp
qed

lemma generateMPCMatrix_loop_of_result:
  assumes "generateMPCMatrix env s t DT = Some (m, s')"
  shows "\<exists>st m0.
           for_loop
             (generateMPCMatrix_body env (m_param s) t DT (nat (prediction_horizon (m_param s)))
                (dim_x (m_vehicle_model s)) (dim_u (m_vehicle_model s)) (dim_y (m_vehicle_model s))
                (if m_is_forward_shift s then 1 else - 1))
             [0..<nat (prediction_horizon (m_param s))] (m_vehicle_model s, m0) = Some st
           \<and> Aex m = Aex (snd st) \<and> Bex_mat m = Bex_mat (snd st) \<and> Wex m = Wex (snd st)
           \<and> Uref_ex m = Uref_ex (snd st)"
proof -
  let ?sg = "if m_is_forward_shift s then 1 else - 1 :: real"
  let ?N = "nat (prediction_horizon (m_param s))"
  let ?body = "generateMPCMatrix_body env (m_param s) t DT ?N (dim_x (m_vehicle_model s))
                 (dim_u (m_vehicle_model s)) (dim_y (m_vehicle_model s)) ?sg"
  from assms obtain m0 vm m1 m2 where
    l1: "for_loop ?body [0..<?N] (m_vehicle_model s, m0) = Some (vm, m1)"
    and l2: "for_loop (lateral_jerk_body env (m_param s) t DT ?sg)
               [0..<nat (prediction_horizon (m_param s) - 1)] m1 = Some m2"
    and m: "m = m2\<lparr>R1ex := addSteerWeightR s DT (R1ex m2)\<rparr>"
    unfolding generateMPCMatrix_def Let_def
    by (auto split: option.splits)
  have "Aex m = Aex m1 \<and> Bex_mat m = Bex_mat m1 \<and> Wex m = Wex m1 \<and> Uref_ex m = Uref_ex m1"
    using lateral_jerk_loop_keeps [OF l2] by (simp add: m)
  then show ?thesis using l1 by (intro exI [of _ "(vm, m1)"] exI [of _ m0]) simp
qed

lemma ex_step_model:
  "step_model (ex_env ok u) (ex_mpc r b l p1 p2) ex_resampled 1 i
     = (comma_init 2 2 [1, vx ex_resampled ! i, 0, 1],
        comma_init 2 1 [0, vx ex_resampled ! i / 2],
        comma_init 2 2 [1, 0, 0, 1],
        comma_init 2 1 [0, - vx ex_resampled ! i * (traj_k ex_resampled ! i)])"
  by (simp add: step_model_def ex_calculateDiscreteMatrix_def ex_vehicle_model_def)

text \<open>
  Claim C7.  When \<open>generateMPCMatrix\<close> returns, for every horizon index \<open>i < N\<close>, with
  \<open>(Ad, Bd, Cd, Wd)\<close> the discrete matrices of step \<open>i\<close>: the block \<open>(i, i)\<close> of \<open>Bex\<close>
  is \<open>Bd\<close>; for \<open>i = 0\<close> the blocks of \<open>Aex\<close> and \<open>Wex\<close> are \<open>Ad\<close> and \<open>Wd\<close>; for
  \<open>i \<ge> 1\<close> the block \<open>i\<close> of \<open>Aex\<close> is \<open>Ad\<close> times its block \<open>i - 1\<close>, the block \<open>(i, j)\<close>
  of \<open>Bex\<close> is \<open>Ad\<close> times its block \<open>(i - 1, j)\<close> for every \<open>j < i\<close>, and the block \<open>i\<close>
  of \<open>Wex\<close> is \<open>Ad\<close> times its block \<open>i - 1\<close> plus \<open>Wd\<close>.  The function returns whenever
  the reference has at least \<open>N\<close> points (\<open>generateMPCMatrix_total\<close>).
\<close>

theorem generateMPCMatrix_stacked_recursion:
  assumes "generateMPCMatrix env s t DT = Some (m, s')"
    and "i < nat (prediction_horizon (m_param s))"
  shows
    "(let DX = dim_x (m_vehicle_model s);
          DU = dim_u (m_vehicle_model s);
          Ad = fst (step_model env s t DT i);
          Bd = fst (snd (step_model env s t DT i));
          Wd = snd (snd (snd (step_model env s t DT i)))
      in coeffs_eq DX DU (block (Bex_mat m) (i * DX) (i * DU) DX DU) Bd
         \<and> (i = 0 \<longrightarrow>
              coeffs_eq DX DX (block (Aex m) 0 0 DX DX) Ad
              \<and> coeffs_eq DX 1 (block (Wex m) 0 0 DX 1) Wd)
         \<and> (0 < i \<longrightarrow>
              coeffs_eq DX DX (block (Aex m) (i * DX) 0 DX DX)
                (mat_mul Ad (block (Aex m) ((i - 1) * DX) 0 DX DX))
              \<and> (\<forall>j<i. coeffs_eq DX DU (block (Bex_mat m) (i * DX) (j * DU) DX DU)
                           (mat_mul Ad (block (Bex_mat m) ((i - 1) * DX) (j * DU) DX DU)))
              \<and> coeffs_eq DX 1 (block (Wex m) (i * DX) 0 DX 1)
                  (mat_add (mat_mul Ad (block (Wex m) ((i - 1) * DX) 0 DX 1)) Wd)))"
proof -
  from generateMPCMatrix_loop_of_result [OF assms(1)] obtain st m0 where
    loop: "for_loop
             (generateMPCMatrix_body env (m_param s) t DT (nat (prediction_horizon (m_param s)))
                (dim_x (m_vehicle_model s)) (dim_u (m_vehicle_model s)) (dim_y (m_vehicle_model s))
                (if m_is_forward_shift s then 1 else - 1))
             [0..<nat (prediction_horizon (m_param s))] (m_vehicle_model s, m0) = Some st"
    and eq: "Aex m = Aex (snd st)" "Bex_mat m = Bex_mat (snd st)" "Wex m = Wex (snd st)"
    by blast
  note inv = generateMPCMatrix_loop_invariant [OF loop, folded eq]
  note A = inv [THEN conjunct2, THEN conjunct1, rule_format, OF assms(2)]
  note W = inv [THEN conjunct2, THEN conjunct2, THEN conjunct1, rule_format, OF assms(2)]
  note B1 = inv [THEN conjunct2, THEN conjunct2, THEN conjunct2, THEN conjunct1, rule_format,
      OF assms(2), THEN conjunct1, rule_format]
  note B2 = inv [THEN conjunct2, THEN conjunct2, THEN conjunct2, THEN conjunct1, rule_format,
      OF assms(2), THEN conjunct2, rule_format]
  have diag: "coeffs_eq (dim_x (m_vehicle_model s)) (dim_u (m_vehicle_model s))
      (block (Bex_mat m) (i * dim_x (m_vehicle_model s)) (i * dim_u (m_vehicle_model s))
         (dim_x (m_vehicle_model s)) (dim_u (m_vehicle_model s)))
      (fst (snd (step_model env s t DT i)))"
    unfolding coeffs_eq_def step_model_def by (simp add: elems_block B2)
  have zero: "coeffs_eq (dim_x (m_vehicle_model s)) (dim_x (m_vehicle_model s))
        (block (Aex m) 0 0 (dim_x (m_vehicle_model s)) (dim_x (m_vehicle_model s)))
        (fst (step_model env s t DT i))
      \<and> coeffs_eq (dim_x (m_vehicle_model s)) 1
        (block (Wex m) 0 0 (dim_x (m_vehicle_model s)) 1)
        (snd (snd (snd (step_model env s t DT i))))"
    if "i = 0"
    unfolding coeffs_eq_def step_model_def using A W that by (simp add: elems_block)
  have pos: "coeffs_eq (dim_x (m_vehicle_model s)) (dim_x (m_vehicle_model s))
        (block (Aex m) (i * dim_x (m_vehicle_model s)) 0 (dim_x (m_vehicle_model s))
           (dim_x (m_vehicle_model s)))
        (mat_mul (fst (step_model env s t DT i))
           (block (Aex m) ((i - 1) * dim_x (m_vehicle_model s)) 0 (dim_x (m_vehicle_model s))
              (dim_x (m_vehicle_model s))))
      \<and> (\<forall>j<i. coeffs_eq (dim_x (m_vehicle_model s)) (dim_u (m_vehicle_model s))
             (block (Bex_mat m) (i * dim_x (m_vehicle_model s)) (j * dim_u (m_vehicle_model s))
                (dim_x (m_vehicle_model s)) (dim_u (m_vehicle_model s)))
             (mat_mul (fst (step_model env s t DT i))
                (block (Bex_mat m) ((i - 1) * dim_x (m_vehicle_model s))
                   (j * dim_u (m_vehicle_model s)) (dim_x (m_vehicle_model s))
                   (dim_u (m_vehicle_model s)))))
      \<and> coeffs_eq (dim_x (m_vehicle_model s)) 1
          (block (Wex m) (i * dim_x (m_vehicle_model s)) 0 (dim_x (m_vehicle_model s)) 1)
          (mat_add
             (mat_mul (fst (step_model env s t DT i))
                (block (Wex m) ((i - 1) * dim_x (m_vehicle_model s)) 0
                   (dim_x (m_vehicle_model s)) 1))
             (snd (snd (snd (step_model env s t DT i)))))"
    if "0 < i"
    unfolding coeffs_eq_def step_model_def using A W B1 that by (simp add: elems_block)
  show ?thesis
    using diag zero pos by (simp add: Let_def)
qed

theorem generateMPCMatrix_stacked_recursion_witness:
  "generateMPCMatrix (ex_env True 5) (ex_mpc ex_traj [0, 0] (0, 0, 0, 0) 0 0) ex_resampled 1 \<noteq> None
   \<and> (1 :: nat) < nat (prediction_horizon (m_param (ex_mpc ex_traj [0, 0] (0, 0, 0, 0) 0 0)))
   \<and> elems (Aex (fst (the (generateMPCMatrix (ex_env True 5)
         (ex_mpc ex_traj [0, 0] (0, 0, 0, 0) 0 0) ex_resampled 1)))) 0 1 = 1
   \<and> elems (Aex (fst (the (generateMPCMatrix (ex_env True 5)
         (ex_mpc ex_traj [0, 0] (0, 0, 0, 0) 0 0) ex_resampled 1)))) 1 1 = 1
   \<and> elems (Aex (fst (the (generateMPCMatrix (ex_env True 5)
         (ex_mpc ex_traj [0, 0] (0, 0, 0, 0) 0 0) ex_resampled 1)))) 2 1 = 2
   \<and> elems (Bex_mat (fst (the (generateMPCMatrix (ex_env True 5)
         (ex_mpc ex_traj [0, 0] (0, 0, 0, 0) 0 0) ex_resampled 1)))) 3 1 = 1 / 2"
proof -
  let ?s = "ex_mpc ex_traj [0, 0] (0, 0, 0, 0) 0 0"
  obtain m where g: "generateMPCMatrix (ex_env True 5) ?s ex_resampled 1 = Some (m, ?s)"
    using ex_generateMPCMatrix by blast
  have N: "prediction_horizon ex_param = 3"
    by (simp add: ex_param_def)
  have dims: "dim_x ex_vehicle_model = 2" "dim_u ex_vehicle_model = 1"
    by (simp_all add: ex_vehicle_model_def)
  have vx1: "vx ex_resampled ! 0 = 1" "vx ex_resampled ! Suc 0 = 1"
    by (simp_all add: ex_resampled_def)
  have s0: "coeffs_eq 2 2 (block (Aex m) 0 0 2 2) (comma_init 2 2 [1, 1, 0, 1])"
    using generateMPCMatrix_stacked_recursion [OF g, of 0]
    by (simp add: N dims Let_def ex_step_model vx1)
  have s1: "coeffs_eq 2 2 (block (Aex m) 2 0 2 2)
              (mat_mul (comma_init 2 2 [1, 1, 0, 1]) (block (Aex m) 0 0 2 2))
            \<and> coeffs_eq 2 1 (block (Bex_mat m) 2 1 2 1) (comma_init 2 1 [0, 1 / 2])"
    using generateMPCMatrix_stacked_recursion [OF g, of 1]
    by (simp add: N dims Let_def ex_step_model vx1)
  have a01: "elems (Aex m) 0 1 = 1"
    using coeffs_eqD [OF s0, of 0 1] by (simp add: elems_block comma_init_def)
  have a11: "elems (Aex m) 1 1 = 1"
    using coeffs_eqD [OF s0, of 1 1] by (simp add: elems_block comma_init_def)
  have a21: "elems (Aex m) 2 1 = 2"
    using coeffs_eqD [OF s1 [THEN conjunct1], of 0 1] a01 a11
    by (simp add: elems_block comma_init_def mat_mul_def eval_nat_numeral)
  have b31: "elems (Bex_mat m) 3 1 = 1 / 2"
    using coeffs_eqD [OF s1 [THEN conjunct2], of 1 0]
    by (simp add: elems_block comma_init_def eval_nat_numeral)
  show ?thesis
    using a01 a11 a21 b31 by (simp add: g N)
qed

text \<open>
  Claim C8.  When \<open>generateMPCMatrix\<close> returns, for every horizon step \<open>i < N\<close> of a
  model with at least one input, the feed-forward reference steering input stored in
  \<open>Uref_ex\<close> is exactly zero whenever the magnitude of the model's reference input,
  computed from the smoothed curvature of the step, is below \<open>zero_ff_steer_deg\<close>
  converted to radians; otherwise it is that reference input.
\<close>

theorem feed_forward_dead_band:
  assumes "generateMPCMatrix env s t DT = Some (m, s')"
    and "i < nat (prediction_horizon (m_param s))"
    and "0 < dim_u (m_vehicle_model s)"
  shows
    "(\<bar>elems (step_reference_input env s t i) 0 0\<bar> < deg2rad (zero_ff_steer_deg (m_param s)) \<longrightarrow>
        elems (Uref_ex m) (i * dim_u (m_vehicle_model s)) 0 = 0)
     \<and> (\<not> \<bar>elems (step_reference_input env s t i) 0 0\<bar> < deg2rad (zero_ff_steer_deg (m_param s)) \<longrightarrow>
        elems (Uref_ex m) (i * dim_u (m_vehicle_model s)) 0
          = elems (step_reference_input env s t i) 0 0)"
proof -
  from generateMPCMatrix_loop_of_result [OF assms(1)] obtain st m0 where
    loop: "for_loop
             (generateMPCMatrix_body env (m_param s) t DT (nat (prediction_horizon (m_param s)))
                (dim_x (m_vehicle_model s)) (dim_u (m_vehicle_model s)) (dim_y (m_vehicle_model s))
                (if m_is_forward_shift s then 1 else - 1))
             [0..<nat (prediction_horizon (m_param s))] (m_vehicle_model s, m0) = Some st"
    and eq: "Uref_ex m = Uref_ex (snd st)"
    by blast
  note inv = generateMPCMatrix_loop_invariant [OF loop, folded eq]
  note U = inv [THEN conjunct2, THEN conjunct2, THEN conjunct2, THEN conjunct2, rule_format,
      OF assms(3,2)]
  have "elems (Uref_ex m) (i * dim_u (m_vehicle_model s)) 0 =
      elems (if \<bar>elems (step_reference_input env s t i) 0 0\<bar>
                 < deg2rad (zero_ff_steer_deg (m_param s))
             then set_coeff (step_reference_input env s t i) 0 0 0
             else step_reference_input env s t i) 0 0"
    unfolding step_reference_input_def by (rule U)
  then show ?thesis
    by (simp add: set_coeff_def)
qed

theorem feed_forward_dead_band_witness:
  "generateMPCMatrix (ex_env True 5) (ex_mpc ex_traj [0, 0] (0, 0, 0, 0) 0 0) ex_curved 1 \<noteq> None
   \<and> (1 :: nat) < nat (prediction_horizon (m_param (ex_mpc ex_traj [0, 0] (0, 0, 0, 0) 0 0)))
   \<and> 0 < dim_u (m_vehicle_model (ex_mpc ex_traj [0, 0] (0, 0, 0, 0) 0 0))
   \<and> elems (step_reference_input (ex_env True 5) (ex_mpc ex_traj [0, 0] (0, 0, 0, 0) 0 0)
              ex_curved 0) 0 0 = 1 / 500
   \<and> elems (Uref_ex (fst (the (generateMPCMatrix (ex_env True 5)
         (ex_mpc ex_traj [0, 0] (0, 0, 0, 0) 0 0) ex_curved 1)))) 0 0 = 0
   \<and> elems (Uref_ex (fst (the (generateMPCMatrix (ex_env True 5)
         (ex_mpc ex_traj [0, 0] (0, 0, 0, 0) 0 0) ex_curved 1)))) 1 0 = 1 / 50"
proof -
  let ?s = "ex_mpc ex_traj [0, 0] (0, 0, 0, 0) 0 0"
  obtain m where g:
    "generateMPCMatrix (ex_env True 5) ?s ex_curved 1
       = Some (m, ?s\<lparr>m_vehicle_model := ex_vehicle_model\<lparr>velocity := 1, curvature := 0\<rparr>\<rparr>)"
    using generateMPCMatrix_total [of ?s ex_curved "ex_env True 5" 1]
    by (auto simp add: ex_param_def ex_curved_def ex_resampled_def)
  have N: "prediction_horizon ex_param = 3"
    by (simp add: ex_param_def)
  have dims: "dim_u ex_vehicle_model = 1"
    by (simp add: ex_vehicle_model_def)
  have u: "elems (step_reference_input (ex_env True 5) ?s ex_curved 0) 0 0 = 1 / 500"
    "elems (step_reference_input (ex_env True 5) ?s ex_curved (Suc 0)) 0 0 = 1 / 50"
    by (simp_all add: step_reference_input_def ex_curved_def ex_resampled_def ex_vehicle_model_def
        VectorXd_of_def comma_init_def)
  have thr: "(1 / 500 :: real) < deg2rad (1 / 2)" "\<not> (1 / 50 :: real) < deg2rad (1 / 2)"
    using pi_ge_two pi_less_4 by (simp_all add: deg2rad_def)
  have z: "zero_ff_steer_deg ex_param = 1 / 2"
    by (simp add: ex_param_def)
  have u0: "elems (Uref_ex m) 0 0 = 0"
    using feed_forward_dead_band [OF g, of 0] thr by (simp add: N dims u z)
  have u1: "elems (Uref_ex m) 1 0 = 1 / 50"
    using feed_forward_dead_band [OF g, of 1] thr by (simp add: N dims u z)
  show ?thesis
    using u0 u1 u by (simp add: g N dims)
qed

end
